theory Spec2Isabelle
  imports Main "HOL-Library.Sublist"
begin

section \<open>The Go library functions the handlers call on strings\<close>

text \<open>
  Go strings are byte sequences; they are modelled as \<^typ>\<open>string\<close>. The functions of
  this section belong to Go's standard library (packages \<^verbatim>\<open>strings\<close>,
  \<^verbatim>\<open>fmt\<close> and \<^verbatim>\<open>path/filepath\<close>); they are written here from their documented
  behaviour, since both handlers compute every version-derived string with them.
\<close>

text \<open>
  \<^verbatim>\<open>strings.Contains(s, substr)\<close>: \<^verbatim>\<open>substr\<close> occurs somewhere in \<^verbatim>\<open>s\<close>.
\<close>

fun strings_Contains :: "string \<Rightarrow> string \<Rightarrow> bool" where
  "strings_Contains [] substr = (substr = [])"
| "strings_Contains (c # cs) substr = (prefix substr (c # cs) \<or> strings_Contains cs substr)"

text \<open>
  \<^verbatim>\<open>strings.Replace(s, old, new, n)\<close> with an empty \<^verbatim>\<open>old\<close>: \<^verbatim>\<open>new\<close> is inserted at
  the start and after each character, up to \<^verbatim>\<open>n\<close> times (Go counts UTF-8 sequences
  there; on ASCII text they are the bytes). No call of the handlers reaches this case.
\<close>

fun insert_between :: "string \<Rightarrow> string \<Rightarrow> int \<Rightarrow> string" where
  "insert_between [] new n = (if n = 0 then [] else new)"
| "insert_between (c # cs) new n =
     (if n = 0 then c # cs else new @ c # insert_between cs new (n - 1))"

text \<open>
  \<^verbatim>\<open>strings.Replace(s, old, new, n)\<close>: the first \<^verbatim>\<open>n\<close> non-overlapping occurrences of
  \<^verbatim>\<open>old\<close>, found from the left, are replaced by \<^verbatim>\<open>new\<close>; a negative \<^verbatim>\<open>n\<close> means all
  of them.
\<close>

function strings_Replace :: "string \<Rightarrow> string \<Rightarrow> string \<Rightarrow> int \<Rightarrow> string" where
  "strings_Replace [] old new n = (if old = [] then insert_between [] new n else [])"
| "strings_Replace (c # cs) old new n =
     (if n = 0 then c # cs
      else if old = [] then insert_between (c # cs) new n
      else if prefix old (c # cs)
        then new @ strings_Replace (drop (length old) (c # cs)) old new (n - 1)
      else c # strings_Replace cs old new n)"
  by pat_completeness auto
termination
  by (relation "measure (\<lambda>(s, old, new, n). length s)") auto

definition strings_ReplaceAll :: "string \<Rightarrow> string \<Rightarrow> string \<Rightarrow> string" where
  "strings_ReplaceAll s old new = strings_Replace s old new (- 1)"

text \<open>
  \<^verbatim>\<open>fmt.Sprintf(format, args...)\<close> for string arguments and the verb \<^verbatim>\<open>%s\<close>, the only
  verb in the formats whose result leaves the process (branch names, messages, URLs,
  paths). A \<^verbatim>\<open>%s\<close> without an argument prints \<^verbatim>\<open>%!s(MISSING)\<close>, arguments left over
  are reported at the end.
\<close>

fun extra_args :: "string list \<Rightarrow> string" where
  "extra_args [] = []"
| "extra_args [a] = ''string='' @ a"
| "extra_args (a # b # bs) = ''string='' @ a @ '', '' @ extra_args (b # bs)"

fun fmt_Sprintf :: "string \<Rightarrow> string list \<Rightarrow> string" where
  "fmt_Sprintf [] args = (if args = [] then [] else ''%!(EXTRA '' @ extra_args args @ '')'')"
| "fmt_Sprintf [c] args = c # fmt_Sprintf [] args"
| "fmt_Sprintf (c # d # fmt) args =
     (if c = CHR ''%'' \<and> d = CHR ''s''
      then (case args of
              [] \<Rightarrow> ''%!s(MISSING)'' @ fmt_Sprintf fmt []
            | a # as \<Rightarrow> a @ fmt_Sprintf fmt as)
      else c # fmt_Sprintf (d # fmt) args)"

text \<open>
  \<^verbatim>\<open>filepath.Base(path)\<close> on a system whose separator is \<^verbatim>\<open>/\<close>: the last element of
  the path, after trailing separators are removed; \<^verbatim>\<open>.\<close> for the empty path and
  \<^verbatim>\<open>/\<close> for a path of separators only.
\<close>

definition filepath_Base :: "string \<Rightarrow> string" where
  "filepath_Base path =
     (if path = [] then ''.''
      else let stripped = rev (dropWhile (\<lambda>c. c = CHR ''/'') (rev path));
               element = rev (takeWhile (\<lambda>c. c \<noteq> CHR ''/'') (rev stripped))
           in if element = [] then ''/'' else element)"

section \<open>Constants of the handlers\<close>

text \<open>The files fetched one by one (\<^verbatim>\<open>api/handler.go\<close>, \<^verbatim>\<open>filenames\<close>).\<close>

definition filenames :: "string list" where
  "filenames =
     [''asyoutypeformatter_test.js'',
      ''demo-compiled.js'',
      ''demo.js'',
      ''metadata.js'',
      ''metadatafortesting.js'',
      ''metadatalite.js'',
      ''phonemetadata.pb.js'',
      ''phonenumber.pb.js'',
      ''phonenumberutil.js'',
      ''phonenumberutil_test.js'',
      ''regioncodefortesting.js'',
      ''shortnumberinfo.js'',
      ''shortnumberinfo_test.js'',
      ''shortnumbermetadata.js'']"

definition remoteRepositoryUsername :: string where
  "remoteRepositoryUsername = ''ruimarinho''"

definition remoteRepositoryName :: string where
  "remoteRepositoryName = ''google-libphonenumber''"

definition remoteBranchFormat :: string where
  "remoteBranchFormat = ''support/update-libphonenumber-%s''"

section \<open>Strings derived from the pushed reference and the version\<close>

text \<open>
  Both \<^verbatim>\<open>HandleEvent\<close> functions test the reference with
  \<^verbatim>\<open>strings.Contains(push.Ref, "refs/tags/")\<close> and derive the version with
  \<^verbatim>\<open>strings.Replace(push.Ref, "refs/tags/v", "", -1)\<close>.
\<close>

definition is_tag_ref :: "string \<Rightarrow> bool" where
  "is_tag_ref ref = strings_Contains ref ''refs/tags/''"

definition version_of_ref :: "string \<Rightarrow> string" where
  "version_of_ref ref = strings_Replace ref ''refs/tags/v'' [] (- 1)"

text \<open>
  \<^verbatim>\<open>api/handler.go\<close>: the branch checked out in \<^verbatim>\<open>Commit\<close> and the refspec pushed
  there, each written as the source writes it.
\<close>

definition api_checkout_branch :: "string \<Rightarrow> string" where
  "api_checkout_branch version =
     fmt_Sprintf ''refs/heads/%s''
       [fmt_Sprintf remoteBranchFormat [strings_Replace version ''.'' ''-'' (- 1)]]"

definition api_push_refspec :: "string \<Rightarrow> string" where
  "api_push_refspec version =
     (let tag = strings_Replace version ''.'' ''-'' (- 1)
      in fmt_Sprintf ''refs/heads/%s:refs/heads/%s''
           [fmt_Sprintf remoteBranchFormat [tag], fmt_Sprintf remoteBranchFormat [tag]])"

text \<open>\<^verbatim>\<open>webhooks/handler.go\<close>: the same two strings, from literal formats.\<close>

definition wh_checkout_branch :: "string \<Rightarrow> string" where
  "wh_checkout_branch version =
     (let tag = strings_Replace version ''.'' ''-'' (- 1)
      in fmt_Sprintf ''refs/heads/support/update-libphonenumber-%s'' [tag])"

definition wh_push_refspec :: "string \<Rightarrow> string" where
  "wh_push_refspec version =
     (let tag = strings_Replace version ''.'' ''-'' (- 1)
      in fmt_Sprintf
           ''refs/heads/support/update-libphonenumber-%s:refs/heads/support/update-libphonenumber-%s''
           [tag, tag])"

section \<open>The outside world and the state of one invocation\<close>

text \<open>
  A Go \<^verbatim>\<open>error\<close> value, by its message. A function of the handlers ends in one of three
  ways: it returns, it panics (\<^verbatim>\<open>log.Panic\<close>, a failed type assertion), or it ends the
  process (\<^verbatim>\<open>log.Fatal\<close> calls \<^verbatim>\<open>os.Exit(1)\<close>).
\<close>

datatype error = Err string

fun Error :: "error \<Rightarrow> string" where
  "Error (Err msg) = msg"

datatype 'a res = Return 'a | Panic error | Exit nat

datatype level = InfoLevel | WarnLevel | FatalLevel | PanicLevel

record Request =
  Method :: string
  RequestBody :: string

datatype payload = PushPayload (Ref: string) | OtherPayload

text \<open>A response body is read to its end or to a read error.\<close>

record ReadCloser =
  Bytes :: string
  ReadErr :: "error option"

record Response =
  StatusCode :: nat
  ResponseBody :: ReadCloser

text \<open>
  What \<^verbatim>\<open>tar.Reader\<close> yields for a gzip stream: the entries in order, each with the
  content that can be read from it and the error that ends the reading early, if any;
  after the last entry \<^verbatim>\<open>Next\<close> returns \<^verbatim>\<open>io.EOF\<close> (\<open>Ending = None\<close>) or an error.
\<close>

record tar_entry =
  Name :: string
  Typeflag :: char
  Mode :: nat
  Content :: string
  ContentErr :: "error option"

record tar_archive =
  Entries :: "tar_entry list"
  Ending :: "error option"

definition TypeReg :: char where
  "TypeReg = CHR ''0''"

record NewPullRequest =
  Title :: string
  Head :: string
  Base :: string
  Body :: string

record CommitOptions =
  Push :: bool

text \<open>
  The message of the commit and the request that opens the pull request, as each file
  writes them.
\<close>

definition api_commit_message :: "string \<Rightarrow> string" where
  "api_commit_message version = fmt_Sprintf ''Update libphonenumber@%s'' [version]"

definition api_NewPullRequest :: "string \<Rightarrow> NewPullRequest" where
  "api_NewPullRequest version =
     \<lparr>Title = fmt_Sprintf ''Update libphonenumber@%s'' [version],
      Head = fmt_Sprintf remoteBranchFormat [strings_Replace version ''.'' ''-'' (- 1)],
      Base = ''master'',
      Body = fmt_Sprintf ''Update libphonenumber@%s.'' [version]\<rparr>"

definition wh_commit_message :: "string \<Rightarrow> string" where
  "wh_commit_message version = fmt_Sprintf ''Update libphonenumber@%s'' [version]"

definition wh_NewPullRequest :: "string \<Rightarrow> NewPullRequest" where
  "wh_NewPullRequest version =
     \<lparr>Title = fmt_Sprintf ''Update libphonenumber@%s'' [version],
      Head = fmt_Sprintf ''support/update-libphonenumber-%s''
               [strings_Replace version ''.'' ''-'' (- 1)],
      Base = ''master'',
      Body = fmt_Sprintf ''Update libphonenumber@%s.'' [version]\<rparr>"

text \<open>
  Every call that leaves the process is recorded, in order, when it is made (whether it
  then succeeds or not). Log records keep their level and their message or format; the
  arguments of a format are not kept. A network call records the timeout, in seconds, of
  the HTTP client that carries it (\<open>0\<close>: none, as in Go's \<^verbatim>\<open>http.Client\<close>).
\<close>

datatype effect =
    LogEntry level string
  | CallTempDir string
  | CallPlainClone string string string nat
  | CallCheckout string bool bool
  | CallCreate string
  | CallOpenFile string nat
  | CallGet string nat
  | CallCommit string string string
  | CallPush string string string nat
  | CallCreatePull string string NewPullRequest string
  | CallWriteHeader nat
  | CallWrite string

text \<open>
  The results of the calls are parameters of the model: the webhook library, the file
  system's refusals, go-git, the HTTP servers, the gzip and tar decoders, the environment
  and the GitHub API. \<open>write_limit\<close> gives, for a path, the number of bytes the file
  accepts before a write fails (\<open>None\<close>: no limit).
\<close>

record world =
  webhook_New :: "error option"
  hook_Parse :: "Request \<Rightarrow> error + payload"
  ioutil_TempDir :: "string \<Rightarrow> error + string"
  git_PlainClone :: "string \<Rightarrow> string \<Rightarrow> error + (string \<rightharpoonup> string)"
  repository_Worktree :: "error option"
  worktree_Checkout :: "string \<Rightarrow> (string \<rightharpoonup> string) \<Rightarrow> error + (string \<rightharpoonup> string)"
  os_Create :: "string \<Rightarrow> error option"
  os_OpenFile :: "string \<Rightarrow> error option"
  write_limit :: "string \<Rightarrow> nat option"
  http_Get :: "string \<Rightarrow> error + Response"
  gzip_NewReader :: "ReadCloser \<Rightarrow> error + tar_archive"
  worktree_Commit :: "string \<Rightarrow> error + string"
  repository_Remote :: "string \<Rightarrow> error option"
  remote_Push :: "string \<Rightarrow> error option"
  os_Getenv :: "string \<Rightarrow> string"
  PullRequests_Create :: "NewPullRequest \<Rightarrow> error + nat \<times> string"

text \<open>
  The state of an invocation: the files on disk by path, the calls made so far, and the
  timeout of the client installed for go-git's \<^verbatim>\<open>https\<close> transport.
\<close>

record state =
  files :: "string \<rightharpoonup> string"
  trace :: "effect list"
  https_timeout :: nat

definition init :: state where
  "init = \<lparr>files = Map.empty, trace = [], https_timeout = 0\<rparr>"

definition emit :: "effect \<Rightarrow> state \<Rightarrow> state" where
  "emit e s = s\<lparr>trace := trace s @ [e]\<rparr>"

definition log_Panic :: "error \<Rightarrow> state \<Rightarrow> 'a res \<times> state" where
  "log_Panic err s = (Panic err, emit (LogEntry PanicLevel (Error err)) s)"

definition log_Fatal :: "error \<Rightarrow> state \<Rightarrow> 'a res \<times> state" where
  "log_Fatal err s = (Exit 1, emit (LogEntry FatalLevel (Error err)) s)"

text \<open>
  \<^verbatim>\<open>io.Copy(file, src)\<close> into the open file at \<open>path\<close>, from its start: the bytes that
  the file accepts replace the bytes at the same offsets. The copy fails with a write
  error when the file does not accept all of \<open>src\<close>, and with the read error of \<open>src\<close>
  when there is one.
\<close>

definition overwrite :: "string \<Rightarrow> string \<Rightarrow> string" where
  "overwrite old new = new @ drop (length new) old"

definition io_Copy :: "world \<Rightarrow> string \<Rightarrow> ReadCloser \<Rightarrow> state \<Rightarrow> error option \<times> state" where
  "io_Copy w path src s =
     (let old = (case files s path of None \<Rightarrow> [] | Some bytes \<Rightarrow> bytes);
          accepted = (case write_limit w path of
                        None \<Rightarrow> Bytes src
                      | Some n \<Rightarrow> take n (Bytes src));
          s' = s\<lparr>files := (files s)(path \<mapsto> overwrite old accepted)\<rparr>
      in if length accepted < length (Bytes src) then (Some (Err ''short write''), s')
         else (ReadErr src, s'))"

text \<open>
  What the client of the HTTP handler receives: the status of the first
  \<^verbatim>\<open>WriteHeader\<close>, or 200 when \<^verbatim>\<open>Write\<close> comes first; and the bytes written.
\<close>

fun sent_status :: "effect list \<Rightarrow> nat option" where
  "sent_status [] = None"
| "sent_status (CallWriteHeader code # es) = Some code"
| "sent_status (CallWrite bytes # es) = Some 200"
| "sent_status (e # es) = sent_status es"

fun sent_body :: "effect list \<Rightarrow> string" where
  "sent_body [] = []"
| "sent_body (CallWrite bytes # es) = bytes @ sent_body es"
| "sent_body (e # es) = sent_body es"

text \<open>The calls that reach another machine.\<close>

fun outbound :: "effect \<Rightarrow> bool" where
  "outbound (CallPlainClone directory url reference timeout) = True"
| "outbound (CallGet url timeout) = True"
| "outbound (CallPush refspec username password timeout) = True"
| "outbound (CallCreatePull owner repo pull token) = True"
| "outbound e = False"

section \<open>\<^verbatim>\<open>api/handler.go\<close>: the files are fetched one by one\<close>

text \<open>
  \<^verbatim>\<open>Clone\<close> returns the directory, the repository and an error; the model returns the
  error or the directory, and the repository is the one in the state.
\<close>

definition api_Clone :: "world \<Rightarrow> string \<Rightarrow> state \<Rightarrow> (error + string) \<times> state" where
  "api_Clone w repositoryName s =
     (let s1 = emit (CallTempDir (strings_ReplaceAll repositoryName ''/'' ''-'')) s
      in case ioutil_TempDir w (strings_ReplaceAll repositoryName ''/'' ''-'') of
           Inl err \<Rightarrow> (Inl err, s1)
         | Inr directory \<Rightarrow>
             (let url = fmt_Sprintf ''https://github.com/%s.git'' [repositoryName];
                  s2 = emit (LogEntry InfoLevel ''Cloning %s to %s'') s1;
                  s3 = emit (CallPlainClone directory url ''refs/heads/master'' (https_timeout s2)) s2
              in case git_PlainClone w directory url of
                   Inl err \<Rightarrow> (Inl err, s3)
                 | Inr tree \<Rightarrow>
                     (Inr directory,
                      emit (LogEntry InfoLevel ''Cloned %s into %s'') (s3\<lparr>files := tree\<rparr>))))"

text \<open>
  \<^verbatim>\<open>Download\<close>: the file is created (and so emptied) before the URL is requested; the
  status of the response is not read; a failed copy ends the process.
\<close>

definition api_Download :: "world \<Rightarrow> string \<Rightarrow> string \<Rightarrow> state \<Rightarrow> error option res \<times> state" where
  "api_Download w path directory s =
     (let filename = filepath_Base path;
          target = fmt_Sprintf ''%s/%s'' [directory, filename];
          s1 = emit (CallCreate target) s;
          url = fmt_Sprintf ''https://raw.githubusercontent.com/%s'' [path]
      in case os_Create w target of
           Some err \<Rightarrow> (Return (Some err), s1)
         | None \<Rightarrow>
             (let s2 = emit (LogEntry InfoLevel ''Downloading %s from %s into directory %s'')
                         (s1\<lparr>files := (files s1)(target \<mapsto> [])\<rparr>);
                  s3 = emit (CallGet url 0) s2
              in case http_Get w url of
                   Inl err \<Rightarrow> (Return (Some err), s3)
                 | Inr response \<Rightarrow>
                     (case io_Copy w target (ResponseBody response) s3 of
                        (Some err, s4) \<Rightarrow> log_Fatal err s4
                      | (None, s4) \<Rightarrow>
                          (Return None,
                           emit (LogEntry InfoLevel ''File %s downloaded successfully'') s4))))"

text \<open>The loop of \<^verbatim>\<open>Commit\<close> over \<^verbatim>\<open>filenames\<close>: an error of a download ends the process.\<close>

fun api_Download_all :: "world \<Rightarrow> string \<Rightarrow> string \<Rightarrow> string list \<Rightarrow> state \<Rightarrow> unit res \<times> state" where
  "api_Download_all w version directory [] s = (Return (), s)"
| "api_Download_all w version directory (filename # rest) s =
     (case api_Download w
             (fmt_Sprintf ''google/libphonenumber/v%s/javascript/i18n/phonenumbers/%s''
                [version, filename])
             (fmt_Sprintf ''%s/src'' [directory]) s of
        (Return None, s1) \<Rightarrow> api_Download_all w version directory rest s1
      | (Return (Some err), s1) \<Rightarrow> log_Fatal err s1
      | (Panic err, s1) \<Rightarrow> (Panic err, s1)
      | (Exit code, s1) \<Rightarrow> (Exit code, s1))"

definition api_Commit ::
  "world \<Rightarrow> string \<Rightarrow> string \<Rightarrow> CommitOptions \<Rightarrow> state \<Rightarrow> error option res \<times> state" where
  "api_Commit w version directory options s =
     (case repository_Worktree w of
        Some err \<Rightarrow> (Return (Some err), s)
      | None \<Rightarrow>
          (let s1 = emit (CallCheckout (api_checkout_branch version) True True) s
           in case worktree_Checkout w (api_checkout_branch version) (files s1) of
                Inl err \<Rightarrow> (Return (Some err), s1)
              | Inr tree \<Rightarrow>
                  (case api_Download_all w version directory filenames (s1\<lparr>files := tree\<rparr>) of
                     (Panic err, s2) \<Rightarrow> (Panic err, s2)
                   | (Exit code, s2) \<Rightarrow> (Exit code, s2)
                   | (Return u, s2) \<Rightarrow>
                       (let s3 = emit (CallCommit (api_commit_message version)
                                         ''Rui Marinho'' ''ruipmarinho@gmail.com'') s2
                        in case worktree_Commit w (api_commit_message version) of
                             Inl err \<Rightarrow> (Return (Some err), s3)
                           | Inr commit \<Rightarrow>
                               (let s4 = emit (LogEntry InfoLevel ''Git commit %s'') s3
                                in if \<not> Push options
                                   then (Return None,
                                         emit (LogEntry WarnLevel ''Skipping commit push'') s4)
                                   else (case repository_Remote w ''origin'' of
                                           Some err \<Rightarrow> (Return (Some err), s4)
                                         | None \<Rightarrow>
                                             (let s5 = emit (LogEntry InfoLevel
                                                               ''Pushing to remote origin %s'') s4;
                                                  s6 = emit (CallPush (api_push_refspec version)
                                                               remoteRepositoryUsername
                                                               (os_Getenv w ''GITHUB_TOKEN'')
                                                               (https_timeout s5)) s5
                                              in case remote_Push w (api_push_refspec version) of
                                                   Some err \<Rightarrow> (Return (Some err), s6)
                                                 | None \<Rightarrow>
                                                     (Return None,
                                                      emit (LogEntry InfoLevel
                                                              ''Pushed to %s successfully'') s6))))))))"

definition api_OpenPullRequest :: "world \<Rightarrow> string \<Rightarrow> state \<Rightarrow> error option \<times> state" where
  "api_OpenPullRequest w version s =
     (let pull = api_NewPullRequest version;
          s1 = emit (CallCreatePull remoteRepositoryUsername remoteRepositoryName pull
                       (os_Getenv w ''GITHUB_TOKEN'')) s
      in case PullRequests_Create w pull of
           Inl err \<Rightarrow> (Some err, s1)
         | Inr created \<Rightarrow>
             (None, emit (LogEntry InfoLevel ''Pull request #%d opened (%v)'') s1))"

text \<open>
  \<^verbatim>\<open>HandleEvent\<close>, from the line that logs the version: clone, commit and push, open the
  pull request. The result of \<^verbatim>\<open>OpenPullRequest\<close> is dropped.
\<close>

definition api_stages :: "world \<Rightarrow> string \<Rightarrow> state \<Rightarrow> unit res \<times> state" where
  "api_stages w version s =
     (let s1 = emit (LogEntry InfoLevel ''Received push payload for version v%s'') s
      in case api_Clone w
                (fmt_Sprintf ''%s/%s'' [remoteRepositoryUsername, remoteRepositoryName]) s1 of
           (Inl err, s2) \<Rightarrow> log_Panic err s2
         | (Inr directory, s2) \<Rightarrow>
             (case api_Commit w version directory \<lparr>Push = True\<rparr> s2 of
                (Return (Some err), s3) \<Rightarrow> log_Panic err s3
              | (Return None, s3) \<Rightarrow> (Return (), snd (api_OpenPullRequest w version s3))
              | (Panic err, s3) \<Rightarrow> (Panic err, s3)
              | (Exit code, s3) \<Rightarrow> (Exit code, s3)))"

text \<open>
  \<^verbatim>\<open>HandleEvent\<close>: the type assertion panics on a payload that is not a push; a
  reference without \<^verbatim>\<open>refs/tags/\<close> is logged and skipped.
\<close>

definition api_HandleEvent :: "world \<Rightarrow> payload \<Rightarrow> state \<Rightarrow> unit res \<times> state" where
  "api_HandleEvent w p s =
     (let s1 = emit (LogEntry InfoLevel ''Handling incoming webhook'') s
      in case p of
           OtherPayload \<Rightarrow> (Panic (Err ''interface conversion''), s1)
         | PushPayload ref \<Rightarrow>
             if \<not> is_tag_ref ref
             then (Return (), emit (LogEntry WarnLevel ''Push reference is not a tag, skipping'') s1)
             else api_stages w (version_of_ref ref) s1)"

definition api_Handler :: "world \<Rightarrow> Request \<Rightarrow> state \<Rightarrow> unit res \<times> state" where
  "api_Handler w r s =
     (if Method r \<noteq> ''POST''
      then (Return (),
            emit (CallWrite ''Method not supported by libphonenumber-hook'')
              (emit (CallWriteHeader 405) s))
      else case webhook_New w of
             Some err \<Rightarrow> log_Panic err s
           | None \<Rightarrow>
               (case hook_Parse w r of
                  Inl err \<Rightarrow> log_Panic err s
                | Inr p \<Rightarrow>
                    (case api_HandleEvent w p s of
                       (Return u, s1) \<Rightarrow> (Return (), emit (CallWrite ''OK'') s1)
                     | (Panic err, s1) \<Rightarrow> (Panic err, s1)
                     | (Exit code, s1) \<Rightarrow> (Exit code, s1))))"

section \<open>\<^verbatim>\<open>webhooks/handler.go\<close>: the release tarball is fetched and extracted\<close>

text \<open>
  \<^verbatim>\<open>Clone\<close> installs an HTTP client with a timeout of 15 seconds for go-git's
  \<^verbatim>\<open>https\<close> transport, then clones the default branch.
\<close>

definition wh_Clone :: "world \<Rightarrow> state \<Rightarrow> (error + string) \<times> state" where
  "wh_Clone w s =
     (let s0 = s\<lparr>https_timeout := 15\<rparr>;
          s1 = emit (CallTempDir ''libphonenumber'') s0
      in case ioutil_TempDir w ''libphonenumber'' of
           Inl err \<Rightarrow> (Inl err, s1)
         | Inr directory \<Rightarrow>
             (let url = ''https://github.com/ruimarinho/google-libphonenumber.git'';
                  s2 = emit (LogEntry InfoLevel ''Cloning ruimarinho/google-libphonenumber to %s'') s1;
                  s3 = emit (CallPlainClone directory url [] (https_timeout s2)) s2
              in case git_PlainClone w directory url of
                   Inl err \<Rightarrow> (Inl err, s3)
                 | Inr tree \<Rightarrow>
                     (Inr directory,
                      emit (LogEntry InfoLevel ''Cloned ruimarinho/google-libphonenumber to %s'')
                        (s3\<lparr>files := tree\<rparr>))))"

text \<open>
  \<^verbatim>\<open>Download\<close> calls \<^verbatim>\<open>http.Get\<close>, that is Go's default client, which has no timeout,
  and returns the body of the response whatever its status.
\<close>

definition wh_Download :: "world \<Rightarrow> string \<Rightarrow> state \<Rightarrow> (error + ReadCloser) \<times> state" where
  "wh_Download w version s =
     (let url = fmt_Sprintf ''https://github.com/googlei18n/libphonenumber/archive/v%s.tar.gz''
                  [version];
          s1 = emit (CallGet url 0) s
      in case http_Get w url of
           Inl err \<Rightarrow> (Inl err, s1)
         | Inr resp \<Rightarrow> (Inr (ResponseBody resp), s1))"

text \<open>
  The loop of \<^verbatim>\<open>Extract\<close>. \<open>err\<close> is the variable that holds the result of
  \<^verbatim>\<open>gzip.NewReader\<close>, which the test after \<^verbatim>\<open>io.Copy\<close> reads; \<open>pending\<close> is the read
  error met in the content of the previous entry, which the next call of \<^verbatim>\<open>Next\<close>
  returns. \<^verbatim>\<open>os.OpenFile\<close> is called with \<^verbatim>\<open>O_CREATE|O_RDWR\<close>: a file that exists
  keeps its bytes.
\<close>

fun wh_Extract_loop ::
  "world \<Rightarrow> string \<Rightarrow> error option \<Rightarrow> error option \<Rightarrow> tar_entry list \<Rightarrow> error option \<Rightarrow> state
   \<Rightarrow> error option \<times> state" where
  "wh_Extract_loop w directory err pending [] ending s =
     (case pending of
        Some errRead \<Rightarrow> (Some errRead, s)
      | None \<Rightarrow> (ending, s))"
| "wh_Extract_loop w directory err pending (header # rest) ending s =
     (case pending of
        Some errRead \<Rightarrow> (Some errRead, s)
      | None \<Rightarrow>
          (let name = Name header
           in if Typeflag header \<noteq> TypeReg
                 \<or> \<not> strings_Contains name ''javascript/i18n/phonenumbers/''
              then wh_Extract_loop w directory err (ContentErr header) rest ending s
              else (let path = fmt_Sprintf ''%s/src/'' [directory] @ filepath_Base name;
                        s1 = emit (LogEntry InfoLevel ''Extracting file'') s;
                        s2 = emit (CallOpenFile path (Mode header)) s1
                    in case os_OpenFile w path of
                         Some errFile \<Rightarrow> (Some errFile, s2)
                       | None \<Rightarrow>
                           (let s3 = (case files s2 path of
                                        None \<Rightarrow> s2\<lparr>files := (files s2)(path \<mapsto> [])\<rparr>
                                      | Some bytes \<Rightarrow> s2)
                            in case io_Copy w path
                                      \<lparr>Bytes = Content header, ReadErr = ContentErr header\<rparr> s3 of
                                 (copyErr, s4) \<Rightarrow>
                                   if err \<noteq> None then (copyErr, s4)
                                   else wh_Extract_loop w directory err (ContentErr header)
                                          rest ending s4))))"

definition wh_Extract :: "world \<Rightarrow> ReadCloser \<Rightarrow> string \<Rightarrow> state \<Rightarrow> error option res \<times> state" where
  "wh_Extract w file directory s =
     (case gzip_NewReader w file of
        Inl err \<Rightarrow> log_Panic err s
      | Inr archive \<Rightarrow>
          (case wh_Extract_loop w directory None None (Entries archive) (Ending archive) s of
             (result, s1) \<Rightarrow> (Return result, s1)))"

definition wh_push :: "world \<Rightarrow> string \<Rightarrow> state \<Rightarrow> error option \<times> state" where
  "wh_push w version s =
     (case repository_Remote w ''origin'' of
        Some err \<Rightarrow> (Some err, s)
      | None \<Rightarrow>
          (let s1 = emit (LogEntry InfoLevel ''Pushing to remote origin %s'') s;
               s2 = emit (CallPush (wh_push_refspec version) ''ruimarinho''
                            (os_Getenv w ''GITHUB_TOKEN'') (https_timeout s1)) s1
           in case remote_Push w (wh_push_refspec version) of
                Some err \<Rightarrow> (Some err, s2)
              | None \<Rightarrow> (None, emit (LogEntry InfoLevel ''Pushed to %s successfully'') s2)))"

definition wh_Commit :: "world \<Rightarrow> string \<Rightarrow> CommitOptions \<Rightarrow> state \<Rightarrow> error option \<times> state" where
  "wh_Commit w version options s =
     (case repository_Worktree w of
        Some err \<Rightarrow> (Some err, s)
      | None \<Rightarrow>
          (let s1 = emit (CallCheckout (wh_checkout_branch version) True True) s
           in case worktree_Checkout w (wh_checkout_branch version) (files s1) of
                Inl err \<Rightarrow> (Some err, s1)
              | Inr tree \<Rightarrow>
                  (let s2 = emit (CallCommit (wh_commit_message version)
                                    ''Rui Marinho'' ''ruipmarinho@gmail.com'')
                              (s1\<lparr>files := tree\<rparr>)
                   in case worktree_Commit w (wh_commit_message version) of
                        Inl err \<Rightarrow> (Some err, s2)
                      | Inr commit \<Rightarrow>
                          (let s3 = emit (LogEntry InfoLevel ''Committed %s'') s2
                           in if \<not> Push options
                              then (None, emit (LogEntry WarnLevel ''Skipping commit push'') s3)
                              else wh_push w version s3))))"

definition wh_OpenPullRequest :: "world \<Rightarrow> string \<Rightarrow> state \<Rightarrow> error option \<times> state" where
  "wh_OpenPullRequest w version s =
     (let pull = wh_NewPullRequest version;
          s1 = emit (CallCreatePull ''ruimarinho'' ''google-libphonenumber'' pull
                       (os_Getenv w ''GITHUB_TOKEN'')) s
      in case PullRequests_Create w pull of
           Inl err \<Rightarrow> (Some err, s1)
         | Inr created \<Rightarrow>
             (None, emit (LogEntry InfoLevel ''Pull request #%d opened (%v)'') s1))"

text \<open>\<^verbatim>\<open>HandleEvent\<close>, from the line that logs the version.\<close>

definition wh_stages :: "world \<Rightarrow> string \<Rightarrow> state \<Rightarrow> unit res \<times> state" where
  "wh_stages w version s =
     (let s1 = emit (LogEntry InfoLevel ''Received push payload for version v'') s
      in case wh_Clone w s1 of
           (Inl err, s2) \<Rightarrow> log_Panic err s2
         | (Inr directory, s2) \<Rightarrow>
             (case wh_Download w version s2 of
                (Inl err, s3) \<Rightarrow> log_Panic err s3
              | (Inr file, s3) \<Rightarrow>
                  (case wh_Extract w file directory s3 of
                     (Panic err, s4) \<Rightarrow> (Panic err, s4)
                   | (Exit code, s4) \<Rightarrow> (Exit code, s4)
                   | (Return (Some err), s4) \<Rightarrow> log_Panic err s4
                   | (Return None, s4) \<Rightarrow>
                       (case wh_Commit w version \<lparr>Push = True\<rparr> s4 of
                          (Some err, s5) \<Rightarrow> log_Panic err s5
                        | (None, s5) \<Rightarrow>
                            (Return (), snd (wh_OpenPullRequest w version s5))))))"

definition wh_HandleEvent :: "world \<Rightarrow> payload \<Rightarrow> state \<Rightarrow> unit res \<times> state" where
  "wh_HandleEvent w p s =
     (let s1 = emit (LogEntry InfoLevel ''Handling incoming libphonenumber-webhook'') s
      in case p of
           OtherPayload \<Rightarrow> (Panic (Err ''interface conversion''), s1)
         | PushPayload ref \<Rightarrow>
             if \<not> is_tag_ref ref
             then (Return (), emit (LogEntry WarnLevel ''Push reference is not a tag, skipping'') s1)
             else wh_stages w (version_of_ref ref) s1)"

text \<open>
  \<^verbatim>\<open>Handle\<close> has no test of the method: every request goes to \<^verbatim>\<open>hook.Parse\<close>. It
  writes \<^verbatim>\<open>OK\<close> and then the header, after \<^verbatim>\<open>HandleEvent\<close> has returned.
\<close>

definition wh_Handle :: "world \<Rightarrow> Request \<Rightarrow> state \<Rightarrow> unit res \<times> state" where
  "wh_Handle w r s =
     (case hook_Parse w r of
        Inl err \<Rightarrow> log_Panic err s
      | Inr p \<Rightarrow>
          (case wh_HandleEvent w p s of
             (Return u, s1) \<Rightarrow>
               (Return (), emit (CallWriteHeader 200) (emit (CallWrite ''OK'') s1))
           | (Panic err, s1) \<Rightarrow> (Panic err, s1)
           | (Exit code, s1) \<Rightarrow> (Exit code, s1)))"

section \<open>Kinds of calls, and sample worlds\<close>

text \<open>The calls that change the cloned repository, its remote, or open a pull request.\<close>

fun repo_call :: "effect \<Rightarrow> bool" where
  "repo_call (CallCheckout branch create force) = True"
| "repo_call (CallCommit msg name email) = True"
| "repo_call (CallPush refspec username password timeout) = True"
| "repo_call (CallCreatePull owner repo pull token) = True"
| "repo_call e = False"

text \<open>The calls on the \<^verbatim>\<open>http.ResponseWriter\<close>.\<close>

fun response_call :: "effect \<Rightarrow> bool" where
  "response_call (CallWriteHeader code) = True"
| "response_call (CallWrite bytes) = True"
| "response_call e = False"

fun get_call :: "effect \<Rightarrow> bool" where
  "get_call (CallGet url timeout) = True"
| "get_call e = False"

text \<open>
  A small release archive: a directory, two files under the marked path (the second is a
  file of the upstream directory that \<open>filenames\<close> does not list), one file outside.
\<close>

definition sample_archive :: tar_archive where
  "sample_archive =
     \<lparr>Entries =
        [\<lparr>Name = ''libphonenumber-8.12.0/javascript/i18n/phonenumbers/'', Typeflag = CHR ''5'',
          Mode = 493, Content = [], ContentErr = None\<rparr>,
         \<lparr>Name = ''libphonenumber-8.12.0/javascript/i18n/phonenumbers/metadata.js'',
          Typeflag = TypeReg, Mode = 420, Content = ''new metadata'', ContentErr = None\<rparr>,
         \<lparr>Name = ''libphonenumber-8.12.0/javascript/i18n/phonenumbers/asyoutypeformatter.js'',
          Typeflag = TypeReg, Mode = 420, Content = ''new formatter'', ContentErr = None\<rparr>,
         \<lparr>Name = ''libphonenumber-8.12.0/README.md'',
          Typeflag = TypeReg, Mode = 420, Content = ''readme'', ContentErr = None\<rparr>],
      Ending = None\<rparr>"

text \<open>
  A world in which every call succeeds. The webhook library rejects a request that is not
  a POST, as \<^verbatim>\<open>webhooks.v5\<close> does, and the payload's reference is read from the body;
  the clone holds one file in \<^verbatim>\<open>src\<close>; the forced checkout resets the worktree to
  the clone, that is to this one file with its content and no other file; every URL
  answers 200 with the same bytes, which the decoders read as \<open>sample_archive\<close>.
\<close>

definition world_ok :: world where
  "world_ok =
     \<lparr>webhook_New = None,
      hook_Parse = (\<lambda>r. if Method r \<noteq> ''POST'' then Inl (Err ''invalid HTTP Method'')
                         else Inr (PushPayload (RequestBody r))),
      ioutil_TempDir = (\<lambda>pattern. Inr (''/tmp/'' @ pattern @ ''1'')),
      git_PlainClone = (\<lambda>directory url. Inr [directory @ ''/src/index.js'' \<mapsto> ''old index'']),
      repository_Worktree = None,
      worktree_Checkout =
        (\<lambda>branch tree. Inr (\<lambda>path. if suffix ''/src/index.js'' path \<and> tree path \<noteq> None
                                  then Some ''old index'' else None)),
      os_Create = (\<lambda>path. None),
      os_OpenFile = (\<lambda>path. None),
      write_limit = (\<lambda>path. None),
      http_Get = (\<lambda>url. Inr \<lparr>StatusCode = 200,
                               ResponseBody = \<lparr>Bytes = ''upstream'', ReadErr = None\<rparr>\<rparr>),
      gzip_NewReader = (\<lambda>file. if Bytes file = ''upstream'' then Inr sample_archive
                                 else Inl (Err ''gzip: invalid header'')),
      worktree_Commit = (\<lambda>msg. Inr ''c0ffee''),
      repository_Remote = (\<lambda>name. None),
      remote_Push = (\<lambda>refspec. None),
      os_Getenv = (\<lambda>name. ''token''),
      PullRequests_Create =
        (\<lambda>pull. Inr (1, ''https://github.com/ruimarinho/google-libphonenumber/pull/1''))\<rparr>"

text \<open>The same world with a clone that fails.\<close>

definition world_clone_fails :: world where
  "world_clone_fails =
     world_ok\<lparr>git_PlainClone := (\<lambda>directory url. Inl (Err ''repository not found''))\<rparr>"

text \<open>The same world with servers that answer 404 to every file URL.\<close>

definition world_404 :: world where
  "world_404 =
     world_ok\<lparr>http_Get := (\<lambda>url. Inr \<lparr>StatusCode = 404,
                 ResponseBody = \<lparr>Bytes = ''404: Not Found'', ReadErr = None\<rparr>\<rparr>)\<rparr>"

text \<open>The same world with a server that sends the archive under the status 203.\<close>

definition world_203 :: world where
  "world_203 =
     world_ok\<lparr>http_Get := (\<lambda>url. Inr \<lparr>StatusCode = 203,
                 ResponseBody = \<lparr>Bytes = ''upstream'', ReadErr = None\<rparr>\<rparr>)\<rparr>"

text \<open>The same world with an archive whose tar stream breaks after its entries.\<close>

definition world_corrupt_tar :: world where
  "world_corrupt_tar =
     world_ok\<lparr>gzip_NewReader :=
       (\<lambda>file. Inr (sample_archive\<lparr>Ending := Some (Err ''unexpected EOF'')\<rparr>))\<rparr>"

text \<open>The same world with a GitHub API that refuses to create the pull request.\<close>

definition world_pull_fails :: world where
  "world_pull_fails =
     world_ok\<lparr>PullRequests_Create := (\<lambda>pull. Inl (Err ''422 Validation Failed''))\<rparr>"

text \<open>A push of the tag \<^verbatim>\<open>v8.12.0\<close>, as a POST and as a GET.\<close>

definition tag_post :: Request where
  "tag_post = \<lparr>Method = ''POST'', RequestBody = ''refs/tags/v8.12.0''\<rparr>"

definition tag_get :: Request where
  "tag_get = \<lparr>Method = ''GET'', RequestBody = ''refs/tags/v8.12.0''\<rparr>"

text \<open>The same world with an upstream server that cannot be reached.\<close>

definition world_get_fails :: world where
  "world_get_fails = world_ok\<lparr>http_Get := (\<lambda>url. Inl (Err ''dial tcp: i/o timeout''))\<rparr>"

text \<open>The same world with a remote that rejects the push.\<close>

definition world_push_fails :: world where
  "world_push_fails =
     world_ok\<lparr>remote_Push := (\<lambda>refspec. Some (Err ''non-fast-forward update''))\<rparr>"

text \<open>The same world with a staging directory in which no file can be opened.\<close>

definition world_open_fails :: world where
  "world_open_fails = world_ok\<lparr>os_OpenFile := (\<lambda>path. Some (Err ''permission denied''))\<rparr>"

text \<open>The same world with a disk that is full.\<close>

definition world_disk_full :: world where
  "world_disk_full = world_ok\<lparr>write_limit := (\<lambda>path. Some 0)\<rparr>"

section \<open>How a run ends, and what can go wrong in the world\<close>

text \<open>How a handler ends, with the status and the body that its client receives.\<close>

definition answer :: "unit res \<times> state \<Rightarrow> unit res \<times> nat option \<times> string" where
  "answer run = (fst run, sent_status (trace (snd run)), sent_body (trace (snd run)))"

text \<open>The URLs that the handlers request.\<close>

abbreviation clone_url :: string where
  "clone_url \<equiv> ''https://github.com/ruimarinho/google-libphonenumber.git''"

abbreviation archive_url :: "string \<Rightarrow> string" where
  "archive_url version \<equiv>
     ''https://github.com/googlei18n/libphonenumber/archive/v'' @ version @ ''.tar.gz''"

abbreviation raw_url :: "string \<Rightarrow> string \<Rightarrow> string" where
  "raw_url version f \<equiv>
     ''https://raw.githubusercontent.com/google/libphonenumber/v'' @ version
       @ ''/javascript/i18n/phonenumbers/'' @ f"

text \<open>
  The download of the file \<open>f\<close> into \<^verbatim>\<open>src\<close> succeeds in a world when the file can be
  created, the GET returns a response, its body is read to the end and the file accepts
  all of it. It fails when the file cannot be created, or the GET returns an error, or
  the body breaks off or the file does not accept all of it.
\<close>

abbreviation download_succeeds :: "world \<Rightarrow> string \<Rightarrow> string \<Rightarrow> string \<Rightarrow> bool" where
  "download_succeeds w version directory f \<equiv>
     os_Create w (directory @ ''/src/'' @ f) = None
     \<and> (\<exists>resp. http_Get w (raw_url version f) = Inr resp
           \<and> ReadErr (ResponseBody resp) = None
           \<and> (\<forall>n. write_limit w (directory @ ''/src/'' @ f) = Some n
                  \<longrightarrow> length (Bytes (ResponseBody resp)) \<le> n))"

abbreviation download_fails :: "world \<Rightarrow> string \<Rightarrow> string \<Rightarrow> string \<Rightarrow> bool" where
  "download_fails w version directory f \<equiv>
     os_Create w (directory @ ''/src/'' @ f) \<noteq> None
     \<or> (\<exists>err. http_Get w (raw_url version f) = Inl err)
     \<or> (\<exists>resp. http_Get w (raw_url version f) = Inr resp
           \<and> (ReadErr (ResponseBody resp) \<noteq> None
              \<or> (\<exists>n. write_limit w (directory @ ''/src/'' @ f) = Some n
                     \<and> n < length (Bytes (ResponseBody resp)))))"

text \<open>
  An entry of the archive is one that \<^verbatim>\<open>Extract\<close> writes when it is a regular file whose
  name contains the marked path; its destination is \<^verbatim>\<open>src/\<close> and the base name. An
  entry passes when its content is read to the end and, if it is one that is written, its
  destination can be opened; it fails with the error of the open, or else with the error
  that breaks its content. An archive fails with the error of its first entry that fails,
  or with the error that ends its stream after entries that all pass.
\<close>

abbreviation extracted :: "tar_entry \<Rightarrow> bool" where
  "extracted h \<equiv>
     Typeflag h = TypeReg \<and> strings_Contains (Name h) ''javascript/i18n/phonenumbers/''"

abbreviation destination :: "string \<Rightarrow> tar_entry \<Rightarrow> string" where
  "destination directory h \<equiv> directory @ ''/src/'' @ filepath_Base (Name h)"

abbreviation entry_passes :: "world \<Rightarrow> string \<Rightarrow> tar_entry \<Rightarrow> bool" where
  "entry_passes w directory h \<equiv>
     ContentErr h = None \<and> (extracted h \<longrightarrow> os_OpenFile w (destination directory h) = None)"

abbreviation entry_fails :: "world \<Rightarrow> string \<Rightarrow> tar_entry \<Rightarrow> error \<Rightarrow> bool" where
  "entry_fails w directory h err \<equiv>
     (extracted h \<and> os_OpenFile w (destination directory h) = Some err)
     \<or> ((extracted h \<longrightarrow> os_OpenFile w (destination directory h) = None)
        \<and> ContentErr h = Some err)"

abbreviation archive_passes :: "world \<Rightarrow> string \<Rightarrow> tar_archive \<Rightarrow> bool" where
  "archive_passes w directory archive \<equiv>
     (\<forall>g\<in>set (Entries archive). entry_passes w directory g) \<and> Ending archive = None"

abbreviation archive_fails :: "world \<Rightarrow> string \<Rightarrow> tar_archive \<Rightarrow> error \<Rightarrow> bool" where
  "archive_fails w directory archive err \<equiv>
     (\<exists>pre h post. Entries archive = pre @ h # post
         \<and> (\<forall>g\<in>set pre. entry_passes w directory g)
         \<and> entry_fails w directory h err)
     \<or> ((\<forall>g\<in>set (Entries archive). entry_passes w directory g)
        \<and> Ending archive = Some err)"

text \<open>
  Every regular file that the archive holds under the directory of the metadata fits where it
  is written, so that no copy comes back with \<^verbatim>\<open>short write\<close>.
\<close>

abbreviation archive_written :: "world \<Rightarrow> string \<Rightarrow> tar_archive \<Rightarrow> bool" where
  "archive_written w directory archive \<equiv>
     (\<forall>h\<in>set (Entries archive). extracted h \<longrightarrow>
        (\<forall>n. write_limit w (destination directory h) = Some n \<longrightarrow> length (Content h) \<le> n))"

section \<open>Facts about the state and the library functions\<close>

lemma trace_emit [simp]: "trace (emit e s) = trace s @ [e]"
  by (simp add: emit_def)

lemma files_emit [simp]: "files (emit e s) = files s"
  by (simp add: emit_def)

lemma https_timeout_emit [simp]: "https_timeout (emit e s) = https_timeout s"
  by (simp add: emit_def)

text \<open>Replacing one character by another, without limit, is a map over the string.\<close>

lemma Replace_char_map:
  "n < 0 \<Longrightarrow> strings_Replace v [a] [b] n = map (\<lambda>c. if c = a then b else c) v"
  by (induction v arbitrary: n) auto

lemma Replace_absent:
  "old \<noteq> [] \<Longrightarrow> \<not> strings_Contains s old \<Longrightarrow> strings_Replace s old new n = s"
  by (induction s arbitrary: n) auto

lemma Replace_at_prefix:
  "old \<noteq> [] \<Longrightarrow> n \<noteq> 0 \<Longrightarrow>
   strings_Replace (old @ s) old new n = new @ strings_Replace s old new (n - 1)"
  by (cases old) auto

lemma is_tag_ref_prefix: "is_tag_ref (''refs/tags/v'' @ S)"
  by (simp add: is_tag_ref_def)

section \<open>The calls each function makes\<close>

text \<open>
  For a class \<open>P\<close> of calls that a function never makes, the calls of class \<open>P\<close> in the
  trace are the same before and after the function; for the functions that call go-git
  and the GitHub API, the calls they add are listed.
\<close>

lemmas [simp] = log_Panic_def log_Fatal_def

lemma trace_io_Copy [simp]: "trace (snd (io_Copy w path src s)) = trace s"
  by (simp add: io_Copy_def Let_def)

lemma https_timeout_io_Copy [simp]: "https_timeout (snd (io_Copy w path src s)) = https_timeout s"
  by (simp add: io_Copy_def Let_def)

lemma files_io_Copy_other: "p \<noteq> path \<Longrightarrow> files (snd (io_Copy w path src s)) p = files s p"
  by (simp add: io_Copy_def Let_def)

lemma api_Download_filter:
  assumes "\<And>l m. \<not> P (LogEntry l m)" and "\<And>p. \<not> P (CallCreate p)" and "\<And>u t. \<not> P (CallGet u t)"
  shows "filter P (trace (snd (api_Download w path directory s))) = filter P (trace s)"
  using assms
  by (simp add: api_Download_def Let_def split_beta split: option.splits sum.splits del: fmt_Sprintf.simps)

lemma api_Download_https [simp]:
  "https_timeout (snd (api_Download w path directory s)) = https_timeout s"
  by (simp add: api_Download_def Let_def split_beta split: option.splits sum.splits del: fmt_Sprintf.simps)

lemma api_Download_all_filter:
  assumes "\<And>l m. \<not> P (LogEntry l m)" and "\<And>p. \<not> P (CallCreate p)" and "\<And>u t. \<not> P (CallGet u t)"
  shows "filter P (trace (snd (api_Download_all w version directory names s))) = filter P (trace s)"
proof (induction names arbitrary: s)
  case Nil
  show ?case by simp
next
  case (Cons filename rest)
  show ?case
    using Cons.IH assms
    by (simp add: split_beta api_Download_filter [of P] split: res.splits option.splits del: fmt_Sprintf.simps)
qed

lemma api_Download_all_https [simp]:
  "https_timeout (snd (api_Download_all w version directory names s)) = https_timeout s"
  by (induction names arbitrary: s) (simp_all add: split_beta split: res.splits option.splits del: fmt_Sprintf.simps)

lemma api_Download_result:
  "(\<exists>r. fst (api_Download w path directory s) = Return r)
   \<or> fst (api_Download w path directory s) = Exit 1"
  by (simp add: api_Download_def Let_def split_beta split: option.splits sum.splits del: fmt_Sprintf.simps)

lemma api_Download_all_result:
  "fst (api_Download_all w version directory names s) = Return ()
   \<or> fst (api_Download_all w version directory names s) = Exit 1"
proof (induction names arbitrary: s)
  case Nil
  show ?case by simp
next
  case (Cons filename rest)
  let ?d = "api_Download w
             (fmt_Sprintf ''google/libphonenumber/v%s/javascript/i18n/phonenumbers/%s''
                [version, filename])
             (fmt_Sprintf ''%s/src'' [directory]) s"
  from api_Download_result [of w _ _ s]
  have "(\<exists>r. fst ?d = Return r) \<or> fst ?d = Exit 1" .
  then show ?case
    using Cons.IH [of "snd ?d"]
    by (auto simp add: split_beta split: res.splits option.splits simp del: fmt_Sprintf.simps)
qed

lemma api_Clone_filter:
  assumes "\<And>l m. \<not> P (LogEntry l m)" and "\<And>p. \<not> P (CallTempDir p)"
    and "\<And>d u r t. \<not> P (CallPlainClone d u r t)"
  shows "filter P (trace (snd (api_Clone w name s))) = filter P (trace s)"
  using assms
  by (simp add: api_Clone_def Let_def split: sum.splits del: fmt_Sprintf.simps)

lemma api_Clone_https [simp]:
  "https_timeout (snd (api_Clone w name s)) = https_timeout s"
  by (simp add: api_Clone_def Let_def split: sum.splits del: fmt_Sprintf.simps)

lemmas api_Download_all_repo [simp] = api_Download_all_filter [of repo_call, simplified]

lemmas api_Download_all_response [simp] = api_Download_all_filter [of response_call, simplified]

lemmas api_Clone_repo [simp] = api_Clone_filter [of repo_call, simplified]

lemmas api_Clone_response [simp] = api_Clone_filter [of response_call, simplified]

lemma api_Commit_response [simp]:
  "filter response_call (trace (snd (api_Commit w version directory options s)))
     = filter response_call (trace s)"
  by (simp add: api_Commit_def Let_def split_beta
      split: option.splits sum.splits res.splits del: fmt_Sprintf.simps)

lemma api_Commit_repo:
  "fst (api_Commit w version directory \<lparr>Push = True\<rparr> s) = Return None \<Longrightarrow>
   filter repo_call (trace (snd (api_Commit w version directory \<lparr>Push = True\<rparr> s)))
     = filter repo_call (trace s)
       @ [CallCheckout (api_checkout_branch version) True True,
          CallCommit (api_commit_message version) ''Rui Marinho'' ''ruipmarinho@gmail.com'',
          CallPush (api_push_refspec version) remoteRepositoryUsername
            (os_Getenv w ''GITHUB_TOKEN'') (https_timeout s)]"
  by (simp add: api_Commit_def Let_def split_beta
      split: option.splits sum.splits res.splits del: fmt_Sprintf.simps)

lemma api_Commit_https [simp]:
  "https_timeout (snd (api_Commit w version directory options s)) = https_timeout s"
  by (simp add: api_Commit_def Let_def split_beta
      split: option.splits sum.splits res.splits del: fmt_Sprintf.simps)

lemma api_OpenPullRequest_trace:
  "filter repo_call (trace (snd (api_OpenPullRequest w version s)))
     = filter repo_call (trace s)
       @ [CallCreatePull remoteRepositoryUsername remoteRepositoryName
            (api_NewPullRequest version) (os_Getenv w ''GITHUB_TOKEN'')]"
  by (simp add: api_OpenPullRequest_def Let_def split: sum.splits)

lemma api_OpenPullRequest_response [simp]:
  "filter response_call (trace (snd (api_OpenPullRequest w version s)))
     = filter response_call (trace s)"
  by (simp add: api_OpenPullRequest_def Let_def split: sum.splits)

lemma api_stages_response [simp]:
  "filter response_call (trace (snd (api_stages w version s))) = filter response_call (trace s)"
  by (simp add: api_stages_def Let_def split_beta
      split: option.splits sum.splits res.splits del: fmt_Sprintf.simps)

lemma api_stages_repo:
  "fst (api_stages w version s) = Return () \<Longrightarrow>
   filter repo_call (trace (snd (api_stages w version s)))
     = filter repo_call (trace s)
       @ [CallCheckout (api_checkout_branch version) True True,
          CallCommit (api_commit_message version) ''Rui Marinho'' ''ruipmarinho@gmail.com'',
          CallPush (api_push_refspec version) remoteRepositoryUsername
            (os_Getenv w ''GITHUB_TOKEN'') (https_timeout s),
          CallCreatePull remoteRepositoryUsername remoteRepositoryName
            (api_NewPullRequest version) (os_Getenv w ''GITHUB_TOKEN'')]"
  by (simp add: api_stages_def Let_def split_beta api_OpenPullRequest_trace api_Commit_repo
      split: option.splits sum.splits res.splits del: fmt_Sprintf.simps)

lemma api_HandleEvent_response [simp]:
  "filter response_call (trace (snd (api_HandleEvent w p s))) = filter response_call (trace s)"
  by (simp add: api_HandleEvent_def Let_def split: payload.splits)

lemma wh_Clone_filter:
  assumes "\<And>l m. \<not> P (LogEntry l m)" and "\<And>p. \<not> P (CallTempDir p)"
    and "\<And>d u r t. \<not> P (CallPlainClone d u r t)"
  shows "filter P (trace (snd (wh_Clone w s))) = filter P (trace s)"
  using assms
  by (simp add: wh_Clone_def Let_def split: sum.splits)

lemma wh_Clone_https [simp]: "https_timeout (snd (wh_Clone w s)) = 15"
  by (simp add: wh_Clone_def Let_def split: sum.splits)

lemma wh_Download_trace:
  "trace (snd (wh_Download w version s))
     = trace s @ [CallGet (''https://github.com/googlei18n/libphonenumber/archive/v''
                             @ version @ ''.tar.gz'') 0]"
  by (simp add: wh_Download_def Let_def split: sum.splits)

lemma wh_Download_https [simp]: "https_timeout (snd (wh_Download w version s)) = https_timeout s"
  by (simp add: wh_Download_def Let_def split: sum.splits)

lemma wh_Extract_loop_filter:
  assumes "\<And>l m. \<not> P (LogEntry l m)" and "\<And>p m. \<not> P (CallOpenFile p m)"
  shows "filter P (trace (snd (wh_Extract_loop w directory err pending entries ending s)))
           = filter P (trace s)"
proof (induction entries arbitrary: err pending s)
  case Nil
  show ?case by (simp split: option.splits)
next
  case (Cons header rest)
  show ?case
    using assms
    by (simp add: Let_def split_beta Cons.IH split: option.splits del: fmt_Sprintf.simps)
qed

lemma wh_Extract_loop_https [simp]:
  "https_timeout (snd (wh_Extract_loop w directory err pending entries ending s))
     = https_timeout s"
proof (induction entries arbitrary: err pending s)
  case Nil
  show ?case by (simp split: option.splits)
next
  case (Cons header rest)
  show ?case
    by (simp add: Let_def split_beta Cons.IH split: option.splits del: fmt_Sprintf.simps)
qed

lemma wh_Extract_filter:
  assumes "\<And>l m. \<not> P (LogEntry l m)" and "\<And>p m. \<not> P (CallOpenFile p m)"
  shows "filter P (trace (snd (wh_Extract w file directory s))) = filter P (trace s)"
  using assms
  by (simp add: wh_Extract_def split_beta wh_Extract_loop_filter [of P] split: sum.splits)

lemma wh_Extract_https [simp]:
  "https_timeout (snd (wh_Extract w file directory s)) = https_timeout s"
  by (simp add: wh_Extract_def split_beta split: sum.splits)

lemmas wh_Clone_repo [simp] = wh_Clone_filter [of repo_call, simplified]

lemmas wh_Clone_response [simp] = wh_Clone_filter [of response_call, simplified]

lemmas wh_Clone_get [simp] = wh_Clone_filter [of get_call, simplified]

lemmas wh_Extract_repo [simp] = wh_Extract_filter [of repo_call, simplified]

lemmas wh_Extract_response [simp] = wh_Extract_filter [of response_call, simplified]

lemmas wh_Extract_get [simp] = wh_Extract_filter [of get_call, simplified]

lemma wh_push_repo:
  "fst (wh_push w version s) = None \<Longrightarrow>
   filter repo_call (trace (snd (wh_push w version s)))
     = filter repo_call (trace s)
       @ [CallPush (wh_push_refspec version) ''ruimarinho''
            (os_Getenv w ''GITHUB_TOKEN'') (https_timeout s)]"
  by (simp add: wh_push_def Let_def split: option.splits)

lemma wh_push_response [simp]:
  "filter response_call (trace (snd (wh_push w version s))) = filter response_call (trace s)"
  by (simp add: wh_push_def Let_def split: option.splits)

lemma wh_Commit_repo:
  "fst (wh_Commit w version \<lparr>Push = True\<rparr> s) = None \<Longrightarrow>
   filter repo_call (trace (snd (wh_Commit w version \<lparr>Push = True\<rparr> s)))
     = filter repo_call (trace s)
       @ [CallCheckout (wh_checkout_branch version) True True,
          CallCommit (wh_commit_message version) ''Rui Marinho'' ''ruipmarinho@gmail.com'',
          CallPush (wh_push_refspec version) ''ruimarinho''
            (os_Getenv w ''GITHUB_TOKEN'') (https_timeout s)]"
  by (simp add: wh_Commit_def Let_def wh_push_repo split: option.splits sum.splits)

lemma wh_Commit_response [simp]:
  "filter response_call (trace (snd (wh_Commit w version options s)))
     = filter response_call (trace s)"
  by (simp add: wh_Commit_def Let_def split: option.splits sum.splits)

lemma wh_OpenPullRequest_trace:
  "filter repo_call (trace (snd (wh_OpenPullRequest w version s)))
     = filter repo_call (trace s)
       @ [CallCreatePull ''ruimarinho'' ''google-libphonenumber''
            (wh_NewPullRequest version) (os_Getenv w ''GITHUB_TOKEN'')]"
  by (simp add: wh_OpenPullRequest_def Let_def split: sum.splits)

lemma wh_OpenPullRequest_response [simp]:
  "filter response_call (trace (snd (wh_OpenPullRequest w version s)))
     = filter response_call (trace s)"
  by (simp add: wh_OpenPullRequest_def Let_def split: sum.splits)

lemma wh_stages_response [simp]:
  "filter response_call (trace (snd (wh_stages w version s))) = filter response_call (trace s)"
  by (simp add: wh_stages_def Let_def split_beta wh_Download_trace
      split: option.splits sum.splits res.splits)

lemma wh_stages_repo:
  "fst (wh_stages w version s) = Return () \<Longrightarrow>
   filter repo_call (trace (snd (wh_stages w version s)))
     = filter repo_call (trace s)
       @ [CallCheckout (wh_checkout_branch version) True True,
          CallCommit (wh_commit_message version) ''Rui Marinho'' ''ruipmarinho@gmail.com'',
          CallPush (wh_push_refspec version) ''ruimarinho'' (os_Getenv w ''GITHUB_TOKEN'') 15,
          CallCreatePull ''ruimarinho'' ''google-libphonenumber''
            (wh_NewPullRequest version) (os_Getenv w ''GITHUB_TOKEN'')]"
  by (simp add: wh_stages_def Let_def split_beta wh_Download_trace wh_OpenPullRequest_trace
      wh_Commit_repo split: option.splits sum.splits res.splits)

lemma wh_HandleEvent_response [simp]:
  "filter response_call (trace (snd (wh_HandleEvent w p s))) = filter response_call (trace s)"
  by (simp add: wh_HandleEvent_def Let_def split: payload.splits)

section \<open>The sample worlds\<close>

lemmas world_simps =
  world_ok_def world_clone_fails_def world_404_def world_203_def world_corrupt_tar_def
  world_pull_fails_def world_get_fails_def world_push_fails_def world_open_fails_def
  world_disk_full_def sample_archive_def TypeReg_def tag_post_def tag_get_def

lemma tag_8_12_0 : "is_tag_ref ''refs/tags/v8.12.0'' \<and> version_of_ref ''refs/tags/v8.12.0'' = ''8.12.0''"
  by (simp add: is_tag_ref_def version_of_ref_def)

section \<open>What the handlers write to the response\<close>

lemma sent_status_filter: "sent_status tr = sent_status (filter response_call tr)"
  by (induction tr rule: sent_status.induct) simp_all

lemma sent_body_filter: "sent_body tr = sent_body (filter response_call tr)"
  by (induction tr rule: sent_body.induct) simp_all

lemma init_response [simp]: "filter response_call (trace init) = []"
  by (simp add: init_def)

lemma wh_Handle_response:
  "hook_Parse w r = Inr p \<Longrightarrow>
   fst (wh_Handle w r s) = fst (wh_HandleEvent w p s)
   \<and> filter response_call (trace (snd (wh_Handle w r s)))
       = filter response_call (trace s)
         @ (if fst (wh_HandleEvent w p s) = Return () then [CallWrite ''OK'', CallWriteHeader 200]
            else [])"
  by (simp add: wh_Handle_def split_beta split: res.splits)

lemma api_Handler_response:
  "Method r = ''POST'' \<Longrightarrow> webhook_New w = None \<Longrightarrow> hook_Parse w r = Inr p \<Longrightarrow>
   fst (api_Handler w r s) = fst (api_HandleEvent w p s)
   \<and> filter response_call (trace (snd (api_Handler w r s)))
       = filter response_call (trace s)
         @ (if fst (api_HandleEvent w p s) = Return () then [CallWrite ''OK''] else [])"
  by (simp add: api_Handler_def split_beta split: res.splits)

lemma parse_tag_post:
  "hook_Parse world_ok tag_post = Inr (PushPayload ''refs/tags/v8.12.0'')"
  "hook_Parse world_clone_fails tag_post = Inr (PushPayload ''refs/tags/v8.12.0'')"
  "hook_Parse world_pull_fails tag_post = Inr (PushPayload ''refs/tags/v8.12.0'')"
  "Method tag_post = ''POST''"
  "webhook_New world_ok = None"
  "webhook_New world_clone_fails = None"
  "webhook_New world_pull_fails = None"
  by (simp_all add: world_simps)

lemma api_Handler_non_POST:
  "Method r \<noteq> ''POST'' \<Longrightarrow>
   api_Handler w r s
     = (Return (), emit (CallWrite ''Method not supported by libphonenumber-hook'')
                     (emit (CallWriteHeader 405) s))"
  by (simp add: api_Handler_def)

lemma wh_Handle_cases:
  "filter response_call (trace (snd (wh_Handle w r init))) = []
   \<or> filter response_call (trace (snd (wh_Handle w r init))) = [CallWrite ''OK'', CallWriteHeader 200]"
proof (cases "hook_Parse w r")
  case (Inl err)
  then show ?thesis by (simp add: wh_Handle_def)
next
  case (Inr p)
  from wh_Handle_response [OF this, of init] show ?thesis by simp
qed

section \<open>Runs in which every call succeeds, and runs in which the clone fails\<close>

lemma api_Download_all_Return:
  assumes "\<And>p. os_Create w p = None" and "\<And>p. write_limit w p = None"
    and "\<And>u. \<exists>resp. http_Get w u = Inr resp \<and> ReadErr (ResponseBody resp) = None"
  shows "fst (api_Download_all w version directory names s) = Return ()"
proof (induction names arbitrary: s)
  case Nil
  show ?case by simp
next
  case (Cons filename rest)
  let ?path = "fmt_Sprintf ''google/libphonenumber/v%s/javascript/i18n/phonenumbers/%s''
                 [version, filename]"
  let ?dir = "fmt_Sprintf ''%s/src'' [directory]"
  from assms(3) obtain resp
    where "http_Get w (fmt_Sprintf ''https://raw.githubusercontent.com/%s'' [?path]) = Inr resp"
      and "ReadErr (ResponseBody resp) = None"
    by blast
  then have "fst (api_Download w ?path ?dir s) = Return None"
    by (simp add: api_Download_def io_Copy_def Let_def assms(1,2) del: fmt_Sprintf.simps)
  then show ?case
    by (simp add: split_beta Cons.IH del: fmt_Sprintf.simps)
qed

lemma api_stages_Return:
  assumes "\<And>p. os_Create w p = None" and "\<And>p. write_limit w p = None"
    and "\<And>u. \<exists>resp. http_Get w u = Inr resp \<and> ReadErr (ResponseBody resp) = None"
    and "\<And>p. \<exists>d. ioutil_TempDir w p = Inr d"
    and "\<And>d u. \<exists>t. git_PlainClone w d u = Inr t"
    and "repository_Worktree w = None"
    and "\<And>b t. \<exists>t'. worktree_Checkout w b t = Inr t'"
    and "\<And>m. \<exists>c. worktree_Commit w m = Inr c"
    and "\<And>n. repository_Remote w n = None"
    and "\<And>r. remote_Push w r = None"
  shows "fst (api_stages w version s) = Return ()"
proof -
  let ?name = "fmt_Sprintf ''%s/%s'' [remoteRepositoryUsername, remoteRepositoryName]"
  let ?s1 = "emit (LogEntry InfoLevel ''Received push payload for version v%s'') s"
  obtain d where d: "ioutil_TempDir w (strings_ReplaceAll ?name ''/'' ''-'') = Inr d"
    using assms(4) by blast
  obtain t where t: "git_PlainClone w d (fmt_Sprintf ''https://github.com/%s.git'' [?name]) = Inr t"
    using assms(5) by blast
  have clone: "fst (api_Clone w ?name ?s1) = Inr d"
    using d t by (simp add: api_Clone_def Let_def del: fmt_Sprintf.simps)
  let ?s2 = "snd (api_Clone w ?name ?s1)"
  obtain t' where t': "worktree_Checkout w (api_checkout_branch version) (files ?s2) = Inr t'"
    using assms(7) by blast
  obtain c where c: "worktree_Commit w (api_commit_message version) = Inr c"
    using assms(8) by blast
  have dl: "\<And>s'. fst (api_Download_all w version d filenames s') = Return ()"
    by (rule api_Download_all_Return) (rule assms)+
  have "fst (api_Commit w version d \<lparr>Push = True\<rparr> ?s2) = Return None"
    using t' c dl assms(6,9,10)
    by (simp add: api_Commit_def Let_def split_beta del: fmt_Sprintf.simps)
  with clone show ?thesis
    by (simp add: api_stages_def Let_def split_beta del: fmt_Sprintf.simps)
qed

lemma api_stages_clone_fails:
  assumes "\<And>p. \<exists>d. ioutil_TempDir w p = Inr d" and "\<And>d u. git_PlainClone w d u = Inl err"
  shows "fst (api_stages w version s) = Panic err"
proof -
  let ?name = "fmt_Sprintf ''%s/%s'' [remoteRepositoryUsername, remoteRepositoryName]"
  obtain d where d: "ioutil_TempDir w (strings_ReplaceAll ?name ''/'' ''-'') = Inr d"
    using assms(1) by blast
  then show ?thesis
    by (simp add: api_stages_def api_Clone_def Let_def assms(2) del: fmt_Sprintf.simps)
qed

lemma wh_stages_clone_fails:
  assumes "\<And>p. \<exists>d. ioutil_TempDir w p = Inr d" and "\<And>d u. git_PlainClone w d u = Inl err"
  shows "fst (wh_stages w version s) = Panic err"
proof -
  obtain d where d: "ioutil_TempDir w ''libphonenumber'' = Inr d"
    using assms(1) by blast
  then show ?thesis
    by (simp add: wh_stages_def wh_Clone_def Let_def assms(2))
qed

lemma wh_Extract_loop_Return:
  assumes "\<And>p. os_OpenFile w p = None" and "\<forall>h\<in>set entries. ContentErr h = None"
  shows "fst (wh_Extract_loop w directory None None entries ending s) = ending"
  using assms(2)
proof (induction entries arbitrary: s)
  case Nil
  show ?case by simp
next
  case (Cons header rest)
  then show ?case
    by (simp add: Let_def split_beta assms(1) del: fmt_Sprintf.simps)
qed

lemma wh_stages_Return:
  assumes "\<And>p. os_OpenFile w p = None"
    and "\<And>u. \<exists>resp archive. http_Get w u = Inr resp
            \<and> gzip_NewReader w (ResponseBody resp) = Inr archive
            \<and> (\<forall>h\<in>set (Entries archive). ContentErr h = None) \<and> Ending archive = None"
    and "\<And>p. \<exists>d. ioutil_TempDir w p = Inr d"
    and "\<And>d u. \<exists>t. git_PlainClone w d u = Inr t"
    and "repository_Worktree w = None"
    and "\<And>b t. \<exists>t'. worktree_Checkout w b t = Inr t'"
    and "\<And>m. \<exists>c. worktree_Commit w m = Inr c"
    and "\<And>n. repository_Remote w n = None"
    and "\<And>r. remote_Push w r = None"
  shows "fst (wh_stages w version s) = Return ()"
proof -
  let ?s1 = "emit (LogEntry InfoLevel ''Received push payload for version v'') s"
  obtain d where d: "ioutil_TempDir w ''libphonenumber'' = Inr d"
    using assms(3) by blast
  obtain t where t: "git_PlainClone w d ''https://github.com/ruimarinho/google-libphonenumber.git'' = Inr t"
    using assms(4) by blast
  have clone: "fst (wh_Clone w ?s1) = Inr d"
    using d t by (simp add: wh_Clone_def Let_def)
  let ?s2 = "snd (wh_Clone w ?s1)"
  let ?url = "fmt_Sprintf ''https://github.com/googlei18n/libphonenumber/archive/v%s.tar.gz'' [version]"
  obtain resp archive where get: "http_Get w ?url = Inr resp"
    and gz: "gzip_NewReader w (ResponseBody resp) = Inr archive"
    and clean: "\<forall>h\<in>set (Entries archive). ContentErr h = None" and eof: "Ending archive = None"
    using assms(2) by blast
  have dl: "fst (wh_Download w version ?s2) = Inr (ResponseBody resp)"
    using get by (simp add: wh_Download_def Let_def del: fmt_Sprintf.simps)
  let ?s3 = "snd (wh_Download w version ?s2)"
  have ex: "fst (wh_Extract w (ResponseBody resp) d ?s3) = Return None"
    using gz eof wh_Extract_loop_Return [OF assms(1) clean, of d "Ending archive" ?s3]
    by (simp add: wh_Extract_def split_beta)
  let ?s4 = "snd (wh_Extract w (ResponseBody resp) d ?s3)"
  obtain t' where t': "worktree_Checkout w (wh_checkout_branch version) (files ?s4) = Inr t'"
    using assms(6) by blast
  obtain c where c: "worktree_Commit w (wh_commit_message version) = Inr c"
    using assms(7) by blast
  have "fst (wh_Commit w version \<lparr>Push = True\<rparr> ?s4) = None"
    using t' c assms(5,8,9)
    by (simp add: wh_Commit_def wh_push_def Let_def)
  with clone dl ex show ?thesis
    by (simp add: wh_stages_def Let_def split_beta)
qed

lemmas wh_Extract_outbound [simp] = wh_Extract_filter [of outbound, simplified]

lemma wh_Clone_outbound:
  "filter outbound (trace (snd (wh_Clone w s)))
     = filter outbound (trace s)
       @ (case ioutil_TempDir w ''libphonenumber'' of
            Inl err \<Rightarrow> []
          | Inr d \<Rightarrow>
              [CallPlainClone d ''https://github.com/ruimarinho/google-libphonenumber.git'' [] 15])"
  by (simp add: wh_Clone_def Let_def split: sum.splits)

lemma wh_Commit_outbound:
  "fst (wh_Commit w version \<lparr>Push = True\<rparr> s) = None \<Longrightarrow>
   filter outbound (trace (snd (wh_Commit w version \<lparr>Push = True\<rparr> s)))
     = filter outbound (trace s)
       @ [CallPush (wh_push_refspec version) ''ruimarinho''
            (os_Getenv w ''GITHUB_TOKEN'') (https_timeout s)]"
  by (simp add: wh_Commit_def wh_push_def Let_def split: option.splits sum.splits)

lemma wh_OpenPullRequest_outbound:
  "filter outbound (trace (snd (wh_OpenPullRequest w version s)))
     = filter outbound (trace s)
       @ [CallCreatePull ''ruimarinho'' ''google-libphonenumber''
            (wh_NewPullRequest version) (os_Getenv w ''GITHUB_TOKEN'')]"
  by (simp add: wh_OpenPullRequest_def Let_def split: sum.splits)

lemma wh_stages_outbound:
  assumes "fst (wh_stages w version s) = Return ()" and "ioutil_TempDir w ''libphonenumber'' = Inr d"
  shows "filter outbound (trace (snd (wh_stages w version s)))
     = filter outbound (trace s)
       @ [CallPlainClone d ''https://github.com/ruimarinho/google-libphonenumber.git'' [] 15,
          CallGet (''https://github.com/googlei18n/libphonenumber/archive/v'' @ version
                     @ ''.tar.gz'') 0,
          CallPush (wh_push_refspec version) ''ruimarinho'' (os_Getenv w ''GITHUB_TOKEN'') 15,
          CallCreatePull ''ruimarinho'' ''google-libphonenumber''
            (wh_NewPullRequest version) (os_Getenv w ''GITHUB_TOKEN'')]"
  using assms
  by (simp add: wh_stages_def Let_def split_beta wh_Clone_outbound wh_Download_trace
      wh_Commit_outbound wh_OpenPullRequest_outbound
      split: option.splits sum.splits res.splits)

lemma api_HandleEvent_tag:
  "api_HandleEvent w (PushPayload ''refs/tags/v8.12.0'') s
     = api_stages w ''8.12.0'' (emit (LogEntry InfoLevel ''Handling incoming webhook'') s)"
  using tag_8_12_0 by (simp add: api_HandleEvent_def)

lemma wh_HandleEvent_tag:
  "wh_HandleEvent w (PushPayload ''refs/tags/v8.12.0'') s
     = wh_stages w ''8.12.0''
         (emit (LogEntry InfoLevel ''Handling incoming libphonenumber-webhook'') s)"
  using tag_8_12_0 by (simp add: wh_HandleEvent_def)

lemma api_stages_world_ok: "fst (api_stages world_ok version s) = Return ()"
  by (rule api_stages_Return) (simp_all add: world_simps)

lemma api_stages_world_404: "fst (api_stages world_404 version s) = Return ()"
  by (rule api_stages_Return) (simp_all add: world_simps)

lemma wh_stages_world_ok: "fst (wh_stages world_ok version s) = Return ()"
  by (rule wh_stages_Return) (simp_all add: world_simps)

lemma wh_stages_world_203: "fst (wh_stages world_203 version s) = Return ()"
  by (rule wh_stages_Return) (simp_all add: world_simps)

lemma wh_stages_world_pull_fails: "fst (wh_stages world_pull_fails version s) = Return ()"
  by (rule wh_stages_Return) (simp_all add: world_simps)

lemma api_stages_world_clone_fails:
  "fst (api_stages world_clone_fails version s) = Panic (Err ''repository not found'')"
  by (rule api_stages_clone_fails) (simp_all add: world_simps)

lemma wh_stages_world_clone_fails:
  "fst (wh_stages world_clone_fails version s) = Panic (Err ''repository not found'')"
  by (rule wh_stages_clone_fails) (simp_all add: world_simps)

section \<open>The files that the fetch writes\<close>

lemma filepath_Base_append:
  assumes "f \<noteq> []" and "CHR ''/'' \<notin> set f"
  shows "filepath_Base (p @ CHR ''/'' # f) = f"
proof -
  have "rev f \<noteq> []" using assms(1) by simp
  then obtain c cs where rf: "rev f = c # cs" by (cases "rev f") auto
  have "c \<in> set f" using rf by (metis list.set_intros(1) set_rev)
  then have c: "c \<noteq> CHR ''/''" using assms(2) by auto
  have all: "\<forall>x\<in>set (c # cs). x \<noteq> CHR ''/''"
    using assms(2) rf by (metis set_rev)
  have 1: "dropWhile (\<lambda>c. c = CHR ''/'') (rev (p @ CHR ''/'' # f)) = rev f @ CHR ''/'' # rev p"
    using c rf by simp
  have 2: "takeWhile (\<lambda>c. c \<noteq> CHR ''/'') (rev f @ CHR ''/'' # rev p) = rev f"
    using all rf by (simp add: takeWhile_tail)
  show ?thesis
    using assms(1) by (simp add: filepath_Base_def Let_def 1 2 del: rev_append rev.simps)
qed

lemma api_Download_files:
  assumes "f \<noteq> []" and "CHR ''/'' \<notin> set f"
    and "api_Download w (pre @ CHR ''/'' # f) directory s = (Return None, s1)"
  shows "\<exists>resp. http_Get w (''https://raw.githubusercontent.com/'' @ pre @ CHR ''/'' # f) = Inr resp
           \<and> ReadErr (ResponseBody resp) = None
           \<and> files s1 = (files s)(directory @ CHR ''/'' # f \<mapsto> Bytes (ResponseBody resp))"
  using assms(3)
  by (auto simp add: api_Download_def io_Copy_def overwrite_def Let_def
      filepath_Base_append [OF assms(1,2)]
      split: option.splits sum.splits if_splits)

lemma api_Download_all_files:
  assumes "\<forall>f\<in>set names. f \<noteq> [] \<and> CHR ''/'' \<notin> set f" and "distinct names"
    and "api_Download_all w version directory names s = (Return (), s')"
  shows "(\<forall>f\<in>set names.
            \<exists>resp. http_Get w (''https://raw.githubusercontent.com/google/libphonenumber/v''
                                 @ version @ ''/javascript/i18n/phonenumbers/'' @ f) = Inr resp
                 \<and> ReadErr (ResponseBody resp) = None
                 \<and> files s' (directory @ ''/src/'' @ f) = Some (Bytes (ResponseBody resp)))
       \<and> (\<forall>p. p \<notin> (\<lambda>f. directory @ ''/src/'' @ f) ` set names \<longrightarrow> files s' p = files s p)"
  using assms
proof (induction names arbitrary: s)
  case Nil
  then show ?case by simp
next
  case (Cons filename rest)
  let ?pre = "''google/libphonenumber/v'' @ version @ ''/javascript/i18n/phonenumbers''"
  let ?d = "api_Download w (?pre @ CHR ''/'' # filename) (directory @ ''/src'') s"
  have path: "fmt_Sprintf ''google/libphonenumber/v%s/javascript/i18n/phonenumbers/%s''
                [version, filename] = ?pre @ CHR ''/'' # filename"
    by simp
  have dir: "fmt_Sprintf ''%s/src'' [directory] = directory @ ''/src''"
    by simp
  from Cons.prems(3) have run:
    "(case ?d of
        (Return None, s1) \<Rightarrow> api_Download_all w version directory rest s1
      | (Return (Some err), s1) \<Rightarrow> log_Fatal err s1
      | (Panic err, s1) \<Rightarrow> (Panic err, s1)
      | (Exit code, s1) \<Rightarrow> (Exit code, s1)) = (Return (), s')"
    unfolding api_Download_all.simps path dir .
  obtain r s1 where d: "?d = (r, s1)" by (cases ?d)
  from run d have r: "r = Return None" and rest: "api_Download_all w version directory rest s1 = (Return (), s')"
    by (auto split: res.splits option.splits)
  from Cons.prems(1) have f: "filename \<noteq> []" "CHR ''/'' \<notin> set filename"
    by simp_all
  from api_Download_files [OF f, of w ?pre "directory @ ''/src''" s s1] d r
  obtain resp where get: "http_Get w (''https://raw.githubusercontent.com/'' @ ?pre @ CHR ''/'' # filename) = Inr resp"
    and clean: "ReadErr (ResponseBody resp) = None"
    and fs1: "files s1 = (files s)((directory @ ''/src'') @ CHR ''/'' # filename \<mapsto> Bytes (ResponseBody resp))"
    by blast
  from Cons.prems have "\<forall>f\<in>set rest. f \<noteq> [] \<and> CHR ''/'' \<notin> set f" "distinct rest"
    by simp_all
  from Cons.IH [OF this rest]
  have ih1: "\<forall>f\<in>set rest.
            \<exists>resp. http_Get w (''https://raw.githubusercontent.com/google/libphonenumber/v''
                                 @ version @ ''/javascript/i18n/phonenumbers/'' @ f) = Inr resp
                 \<and> ReadErr (ResponseBody resp) = None
                 \<and> files s' (directory @ ''/src/'' @ f) = Some (Bytes (ResponseBody resp))"
    and ih2: "\<forall>p. p \<notin> (\<lambda>f. directory @ ''/src/'' @ f) ` set rest \<longrightarrow> files s' p = files s1 p"
    by blast+
  from Cons.prems(2) have "filename \<notin> set rest" by simp
  then have "directory @ ''/src/'' @ filename \<notin> (\<lambda>f. directory @ ''/src/'' @ f) ` set rest"
    by auto
  with ih2 have "files s' (directory @ ''/src/'' @ filename) = files s1 (directory @ ''/src/'' @ filename)"
    by blast
  with fs1 have here: "files s' (directory @ ''/src/'' @ filename) = Some (Bytes (ResponseBody resp))"
    by simp
  have frame: "\<forall>p. p \<notin> (\<lambda>f. directory @ ''/src/'' @ f) ` set (filename # rest) \<longrightarrow> files s' p = files s p"
  proof (intro allI impI)
    fix p
    assume p: "p \<notin> (\<lambda>f. directory @ ''/src/'' @ f) ` set (filename # rest)"
    then have "p \<notin> (\<lambda>f. directory @ ''/src/'' @ f) ` set rest" and "p \<noteq> directory @ ''/src/'' @ filename"
      by auto
    with ih2 fs1 show "files s' p = files s p"
      by simp
  qed
  from get clean here ih1 frame show ?case
    by simp
qed

section \<open>The files after a whole run\<close>

lemma files_api_OpenPullRequest [simp]:
  "files (snd (api_OpenPullRequest w version s)) = files s"
  by (simp add: api_OpenPullRequest_def Let_def split: sum.splits)

lemma files_wh_OpenPullRequest [simp]:
  "files (snd (wh_OpenPullRequest w version s)) = files s"
  by (simp add: wh_OpenPullRequest_def Let_def split: sum.splits)

lemma files_wh_push [simp]: "files (snd (wh_push w version s)) = files s"
  by (simp add: wh_push_def Let_def split: option.splits)

lemma files_wh_Download [simp]: "files (snd (wh_Download w version s)) = files s"
  by (simp add: wh_Download_def Let_def split: sum.splits)

lemma files_api_Clone:
  "ioutil_TempDir w (strings_ReplaceAll name ''/'' ''-'') = Inr d \<Longrightarrow>
   git_PlainClone w d (fmt_Sprintf ''https://github.com/%s.git'' [name]) = Inr tree \<Longrightarrow>
   fst (api_Clone w name s) = Inr d \<and> files (snd (api_Clone w name s)) = tree"
  by (simp add: api_Clone_def Let_def del: fmt_Sprintf.simps)

lemma files_wh_Clone:
  "ioutil_TempDir w ''libphonenumber'' = Inr d \<Longrightarrow>
   git_PlainClone w d ''https://github.com/ruimarinho/google-libphonenumber.git'' = Inr tree \<Longrightarrow>
   fst (wh_Clone w s) = Inr d \<and> files (snd (wh_Clone w s)) = tree"
  by (simp add: wh_Clone_def Let_def)

lemma files_api_Commit:
  assumes "worktree_Checkout w (api_checkout_branch version) (files s) = Inr t"
    and "fst (api_Commit w version d options s) = Return None"
  shows "fst (api_Download_all w version d filenames
                ((emit (CallCheckout (api_checkout_branch version) True True) s)\<lparr>files := t\<rparr>))
           = Return ()
       \<and> files (snd (api_Commit w version d options s))
           = files (snd (api_Download_all w version d filenames
                      ((emit (CallCheckout (api_checkout_branch version) True True) s)
                         \<lparr>files := t\<rparr>)))"
  using assms(2)
  by (simp add: api_Commit_def Let_def split_beta assms(1)
      split: option.splits sum.splits res.splits if_splits)

lemma files_api_stages:
  assumes td: "ioutil_TempDir w ''ruimarinho-google-libphonenumber'' = Inr d"
    and cl: "git_PlainClone w d ''https://github.com/ruimarinho/google-libphonenumber.git'' = Inr tree"
    and co: "worktree_Checkout w (api_checkout_branch version) tree = Inr tree'"
    and ok: "fst (api_stages w version s) = Return ()"
  shows "\<exists>s0. files s0 = tree'
           \<and> fst (api_Download_all w version d filenames s0) = Return ()
           \<and> files (snd (api_stages w version s))
               = files (snd (api_Download_all w version d filenames s0))"
proof -
  let ?name = "''ruimarinho/google-libphonenumber''"
  have name: "fmt_Sprintf ''%s/%s'' [remoteRepositoryUsername, remoteRepositoryName] = ?name"
    by (simp add: remoteRepositoryUsername_def remoteRepositoryName_def)
  have rep: "strings_ReplaceAll ?name ''/'' ''-'' = ''ruimarinho-google-libphonenumber''"
    by (simp add: strings_ReplaceAll_def)
  have url: "fmt_Sprintf ''https://github.com/%s.git'' [?name]
               = ''https://github.com/ruimarinho/google-libphonenumber.git''"
    by simp
  let ?s1 = "emit (LogEntry InfoLevel ''Received push payload for version v%s'') s"
  let ?s2 = "snd (api_Clone w ?name ?s1)"
  have clone: "fst (api_Clone w ?name ?s1) = Inr d \<and> files ?s2 = tree"
    by (rule files_api_Clone) (simp_all only: rep url td cl)
  let ?c = "api_Commit w version d \<lparr>Push = True\<rparr> ?s2"
  have stages: "api_stages w version s
      = (case ?c of
           (Return (Some err), s3) \<Rightarrow> log_Panic err s3
         | (Return None, s3) \<Rightarrow> (Return (), snd (api_OpenPullRequest w version s3))
         | (Panic err, s3) \<Rightarrow> (Panic err, s3)
         | (Exit code, s3) \<Rightarrow> (Exit code, s3))"
    using clone unfolding api_stages_def name Let_def
    by (cases "api_Clone w ?name ?s1") simp
  from ok have commit: "fst ?c = Return None"
    unfolding stages by (cases ?c) (auto split: res.splits option.splits)
  then have final: "files (snd (api_stages w version s)) = files (snd ?c)"
    unfolding stages by (cases ?c) simp
  let ?s0 = "(emit (CallCheckout (api_checkout_branch version) True True) ?s2)\<lparr>files := tree'\<rparr>"
  from clone co have co': "worktree_Checkout w (api_checkout_branch version) (files ?s2) = Inr tree'"
    by simp
  from files_api_Commit [OF co' commit] final
  have "files ?s0 = tree'
           \<and> fst (api_Download_all w version d filenames ?s0) = Return ()
           \<and> files (snd (api_stages w version s))
               = files (snd (api_Download_all w version d filenames ?s0))"
    by simp
  then show ?thesis by blast
qed

lemma filenames_plain: "\<forall>f\<in>set filenames. f \<noteq> [] \<and> CHR ''/'' \<notin> set f"
  by (simp add: filenames_def)

lemma filenames_distinct: "distinct filenames"
  by (simp add: filenames_def)

section \<open>A fetch that fails\<close>

text \<open>Whether a copy, a download or an extraction fails does not depend on the state.\<close>

lemma fst_io_Copy:
  "fst (io_Copy w path src s)
     = (if length (case write_limit w path of None \<Rightarrow> Bytes src | Some n \<Rightarrow> take n (Bytes src))
            < length (Bytes src)
        then Some (Err ''short write'') else ReadErr src)"
  by (simp add: io_Copy_def Let_def)

lemma fst_api_Download:
  "fst (api_Download w path directory s) = fst (api_Download w path directory s')"
  by (simp add: api_Download_def Let_def split_beta fst_io_Copy
      split: option.splits sum.splits del: fmt_Sprintf.simps)

lemma fst_api_Download_all:
  "fst (api_Download_all w version directory names s)
     = fst (api_Download_all w version directory names s')"
proof (induction names arbitrary: s s')
  case Nil
  show ?case by simp
next
  case (Cons filename rest)
  let ?path = "fmt_Sprintf ''google/libphonenumber/v%s/javascript/i18n/phonenumbers/%s''
                 [version, filename]"
  let ?dir = "fmt_Sprintf ''%s/src'' [directory]"
  have same: "fst (api_Download w ?path ?dir s) = fst (api_Download w ?path ?dir s')"
    by (rule fst_api_Download)
  show ?case
  proof (cases "fst (api_Download w ?path ?dir s')")
    case (Return r)
    with same show ?thesis
      by (cases r) (simp_all add: split_beta Cons.IH [of "snd (api_Download w ?path ?dir s)"
            "snd (api_Download w ?path ?dir s')"] del: fmt_Sprintf.simps)
  next
    case (Panic e)
    with same show ?thesis by (simp add: split_beta del: fmt_Sprintf.simps)
  next
    case (Exit n)
    with same show ?thesis by (simp add: split_beta del: fmt_Sprintf.simps)
  qed
qed

lemma fst_wh_Extract_loop:
  "fst (wh_Extract_loop w directory err pending entries ending s)
     = fst (wh_Extract_loop w directory err pending entries ending s')"
proof (induction entries arbitrary: err pending s s')
  case Nil
  show ?case by (simp split: option.splits)
next
  case (Cons header rest)
  show ?case
    by (auto simp add: Let_def split_beta fst_io_Copy simp del: fmt_Sprintf.simps
        split: option.splits intro: Cons.IH)
qed

lemma wh_stages_fetch_fails:
  assumes td: "ioutil_TempDir w ''libphonenumber'' = Inr d"
    and cl: "git_PlainClone w d ''https://github.com/ruimarinho/google-libphonenumber.git'' = Inr tree"
    and fails:
      "http_Get w (''https://github.com/googlei18n/libphonenumber/archive/v'' @ version
                     @ ''.tar.gz'') = Inl err
       \<or> (\<exists>resp. http_Get w (''https://github.com/googlei18n/libphonenumber/archive/v'' @ version
                                @ ''.tar.gz'') = Inr resp
             \<and> (gzip_NewReader w (ResponseBody resp) = Inl err
                \<or> (\<exists>archive. gzip_NewReader w (ResponseBody resp) = Inr archive
                      \<and> fst (wh_Extract_loop w d None None (Entries archive) (Ending archive)
                               init) = Some err)))"
  shows "fst (wh_stages w version s) = Panic err
       \<and> filter repo_call (trace (snd (wh_stages w version s))) = filter repo_call (trace s)
       \<and> filter get_call (trace (snd (wh_stages w version s)))
           = filter get_call (trace s)
             @ [CallGet (''https://github.com/googlei18n/libphonenumber/archive/v'' @ version
                           @ ''.tar.gz'') 0]"
proof -
  let ?url = "''https://github.com/googlei18n/libphonenumber/archive/v'' @ version @ ''.tar.gz''"
  let ?s1 = "emit (LogEntry InfoLevel ''Received push payload for version v'') s"
  let ?s2 = "snd (wh_Clone w ?s1)"
  let ?s3 = "snd (wh_Download w version ?s2)"
  have clone: "fst (wh_Clone w ?s1) = Inr d"
    using files_wh_Clone [OF td cl] by simp
  have tr2: "filter repo_call (trace ?s2) = filter repo_call (trace s)"
    "filter get_call (trace ?s2) = filter get_call (trace s)"
    by simp_all
  have tr3: "filter repo_call (trace ?s3) = filter repo_call (trace s)"
    "filter get_call (trace ?s3) = filter get_call (trace s) @ [CallGet ?url 0]"
    using tr2 by (simp_all add: wh_Download_trace)
  from fails consider
      (get) "http_Get w ?url = Inl err"
    | (gzip) resp where "http_Get w ?url = Inr resp" "gzip_NewReader w (ResponseBody resp) = Inl err"
    | (tar) resp archive where "http_Get w ?url = Inr resp"
        "gzip_NewReader w (ResponseBody resp) = Inr archive"
        "fst (wh_Extract_loop w d None None (Entries archive) (Ending archive) init) = Some err"
    by blast
  then show ?thesis
  proof cases
    case get
    then have "fst (wh_Download w version ?s2) = Inl err"
      by (simp add: wh_Download_def Let_def)
    with clone tr3 show ?thesis
      by (simp add: wh_stages_def Let_def split_beta)
  next
    case gzip
    then have dl: "fst (wh_Download w version ?s2) = Inr (ResponseBody resp)"
      by (simp add: wh_Download_def Let_def)
    from gzip(2) have "wh_Extract w (ResponseBody resp) d ?s3 = log_Panic err ?s3"
      by (simp add: wh_Extract_def)
    with clone dl tr3 show ?thesis
      by (simp add: wh_stages_def Let_def split_beta)
  next
    case tar
    then have dl: "fst (wh_Download w version ?s2) = Inr (ResponseBody resp)"
      by (simp add: wh_Download_def Let_def)
    let ?x = "wh_Extract_loop w d None None (Entries archive) (Ending archive) ?s3"
    from tar(3) have x: "fst ?x = Some err"
      using fst_wh_Extract_loop [of w d None None "Entries archive" "Ending archive" ?s3 init]
      by simp
    from tar(2) have ex: "wh_Extract w (ResponseBody resp) d ?s3 = (Return (fst ?x), snd ?x)"
      by (simp add: wh_Extract_def split_beta)
    have trx: "filter repo_call (trace (snd ?x)) = filter repo_call (trace s)"
      "filter get_call (trace (snd ?x)) = filter get_call (trace s) @ [CallGet ?url 0]"
      using tr3 by (simp_all add: wh_Extract_loop_filter)
    from clone dl ex x trx show ?thesis
      by (simp add: wh_stages_def Let_def split_beta)
  qed
qed

lemma api_stages_fetch_fails:
  assumes td: "ioutil_TempDir w ''ruimarinho-google-libphonenumber'' = Inr d"
    and cl: "git_PlainClone w d ''https://github.com/ruimarinho/google-libphonenumber.git'' = Inr tree"
    and wt: "repository_Worktree w = None"
    and co: "\<And>t. \<exists>t'. worktree_Checkout w (api_checkout_branch version) t = Inr t'"
    and fails: "fst (api_Download_all w version d filenames init) \<noteq> Return ()"
  shows "fst (api_stages w version s) = Exit 1
       \<and> filter repo_call (trace (snd (api_stages w version s)))
           = filter repo_call (trace s) @ [CallCheckout (api_checkout_branch version) True True]
       \<and> (\<exists>s3. filter get_call (trace s3) = filter get_call (trace s)
              \<and> snd (api_stages w version s) = snd (api_Download_all w version d filenames s3))"
proof -
  let ?name = "''ruimarinho/google-libphonenumber''"
  have name: "fmt_Sprintf ''%s/%s'' [remoteRepositoryUsername, remoteRepositoryName] = ?name"
    by (simp add: remoteRepositoryUsername_def remoteRepositoryName_def)
  have rep: "strings_ReplaceAll ?name ''/'' ''-'' = ''ruimarinho-google-libphonenumber''"
    by (simp add: strings_ReplaceAll_def)
  have url: "fmt_Sprintf ''https://github.com/%s.git'' [?name]
               = ''https://github.com/ruimarinho/google-libphonenumber.git''"
    by simp
  let ?s1 = "emit (LogEntry InfoLevel ''Received push payload for version v%s'') s"
  let ?s2 = "snd (api_Clone w ?name ?s1)"
  have clone: "fst (api_Clone w ?name ?s1) = Inr d \<and> files ?s2 = tree"
    by (rule files_api_Clone) (simp_all only: rep url td cl)
  have tr2: "filter repo_call (trace ?s2) = filter repo_call (trace s)"
    by simp
  obtain t' where t': "worktree_Checkout w (api_checkout_branch version) (files ?s2) = Inr t'"
    using co by blast
  let ?s3 = "(emit (CallCheckout (api_checkout_branch version) True True) ?s2)\<lparr>files := t'\<rparr>"
  let ?dl = "api_Download_all w version d filenames ?s3"
  from fails have "fst ?dl \<noteq> Return ()"
    using fst_api_Download_all [of w version d filenames ?s3 init] by simp
  with api_Download_all_result [of w version d filenames ?s3]
  have exit: "fst ?dl = Exit 1"
    by blast
  have trd: "filter repo_call (trace (snd ?dl))
      = filter repo_call (trace s) @ [CallCheckout (api_checkout_branch version) True True]"
    using tr2 by simp
  from exit have commit: "api_Commit w version d \<lparr>Push = True\<rparr> ?s2 = (Exit 1, snd ?dl)"
    using wt t' by (cases ?dl) (simp add: api_Commit_def Let_def)
  have tr3: "filter get_call (trace ?s3) = filter get_call (trace s)"
    by (simp add: api_Clone_filter)
  have "fst (api_stages w version s) = Exit 1 \<and> snd (api_stages w version s) = snd ?dl"
    unfolding api_stages_def name Let_def
    using clone commit by (simp add: split_beta)
  moreover from tr3
  have "\<exists>s3. filter get_call (trace s3) = filter get_call (trace s) \<and> snd ?dl
           = snd (api_Download_all w version d filenames s3)"
    by (intro exI [of _ ?s3]) simp
  ultimately show ?thesis
    using trd by simp
qed

lemma api_HandleEvent_is_tag:
  "is_tag_ref ref \<Longrightarrow>
   api_HandleEvent w (PushPayload ref) s
     = api_stages w (version_of_ref ref) (emit (LogEntry InfoLevel ''Handling incoming webhook'') s)"
  by (simp add: api_HandleEvent_def)

lemma wh_HandleEvent_is_tag:
  "is_tag_ref ref \<Longrightarrow>
   wh_HandleEvent w (PushPayload ref) s
     = wh_stages w (version_of_ref ref)
         (emit (LogEntry InfoLevel ''Handling incoming libphonenumber-webhook'') s)"
  by (simp add: wh_HandleEvent_def)

lemma init_trace [simp]: "trace init = []"
  by (simp add: init_def)

lemma strings_8_12_0:
  "api_checkout_branch ''8.12.0'' = ''refs/heads/support/update-libphonenumber-8-12-0''"
  "wh_checkout_branch ''8.12.0'' = ''refs/heads/support/update-libphonenumber-8-12-0''"
  "api_commit_message ''8.12.0'' = ''Update libphonenumber@8.12.0''"
  "wh_commit_message ''8.12.0'' = ''Update libphonenumber@8.12.0''"
  "api_push_refspec ''8.12.0''
     = ''refs/heads/support/update-libphonenumber-8-12-0:refs/heads/support/update-libphonenumber-8-12-0''"
  "wh_push_refspec ''8.12.0''
     = ''refs/heads/support/update-libphonenumber-8-12-0:refs/heads/support/update-libphonenumber-8-12-0''"
  "api_NewPullRequest ''8.12.0''
     = \<lparr>Title = ''Update libphonenumber@8.12.0'',
        Head = ''support/update-libphonenumber-8-12-0'',
        Base = ''master'',
        Body = ''Update libphonenumber@8.12.0.''\<rparr>"
  "wh_NewPullRequest ''8.12.0''
     = \<lparr>Title = ''Update libphonenumber@8.12.0'',
        Head = ''support/update-libphonenumber-8-12-0'',
        Base = ''master'',
        Body = ''Update libphonenumber@8.12.0.''\<rparr>"
  by (simp_all add: api_checkout_branch_def wh_checkout_branch_def api_push_refspec_def
      wh_push_refspec_def api_commit_message_def wh_commit_message_def
      api_NewPullRequest_def wh_NewPullRequest_def remoteBranchFormat_def Let_def)

lemma init_https_timeout [simp]: "https_timeout init = 0"
  by (simp add: init_def)

lemma world_tokens:
  "os_Getenv world_ok ''GITHUB_TOKEN'' = ''token''"
  "ioutil_TempDir world_ok ''libphonenumber'' = Inr ''/tmp/libphonenumber1''"
  by (simp_all add: world_ok_def)

lemma api_HandleEvent_clone_fails:
  "fst (api_HandleEvent world_clone_fails (PushPayload ''refs/tags/v8.12.0'') init)
     = Panic (Err ''repository not found'')"
  by (simp add: api_HandleEvent_tag api_stages_world_clone_fails)

lemma wh_HandleEvent_clone_fails:
  "fst (wh_HandleEvent world_clone_fails (PushPayload ''refs/tags/v8.12.0'') init)
     = Panic (Err ''repository not found'')"
  by (simp add: wh_HandleEvent_tag wh_stages_world_clone_fails)

section \<open>Failures of the world and the end of the fetch\<close>

lemma wh_Extract_loop_pending:
  "fst (wh_Extract_loop w directory err (Some e) entries ending s) = Some e"
  by (cases entries) simp_all

lemma wh_Extract_loop_passes:
  "\<forall>g\<in>set entries. entry_passes w directory g \<Longrightarrow>
   fst (wh_Extract_loop w directory None None entries ending s) = ending"
proof (induction entries arbitrary: s)
  case Nil
  show ?case by simp
next
  case (Cons header rest)
  then show ?case
    by (simp add: Let_def split_beta)
qed

lemma wh_Extract_loop_fails:
  assumes "\<forall>g\<in>set pre. entry_passes w directory g" and "entry_fails w directory h err"
  shows "fst (wh_Extract_loop w directory None None (pre @ h # post) ending s) = Some err"
  using assms(1)
proof (induction pre arbitrary: s)
  case Nil
  from assms(2) show ?case
    by (auto simp add: Let_def split_beta wh_Extract_loop_pending)
next
  case (Cons g pre)
  then show ?case
    by (simp add: Let_def split_beta)
qed

lemma wh_archive_fails:
  assumes "archive_fails w directory archive err"
  shows "fst (wh_Extract_loop w directory None None (Entries archive) (Ending archive) s)
           = Some err"
proof -
  from assms consider
      (entry) pre h post where "Entries archive = pre @ h # post"
        "\<forall>g\<in>set pre. entry_passes w directory g" "entry_fails w directory h err"
    | (ending) "\<forall>g\<in>set (Entries archive). entry_passes w directory g"
        "Ending archive = Some err"
    by blast
  then show ?thesis
  proof cases
    case entry
    from wh_Extract_loop_fails [OF entry(2,3)] entry(1) show ?thesis
      by simp
  next
    case ending
    from wh_Extract_loop_passes [OF ending(1)] ending(2) show ?thesis
      by simp
  qed
qed

lemma wh_archive_passes:
  "archive_passes w directory archive \<Longrightarrow>
   fst (wh_Extract_loop w directory None None (Entries archive) (Ending archive) s) = None"
  using wh_Extract_loop_passes [of "Entries archive" w directory "Ending archive" s] by simp

lemma raw_path:
  "fmt_Sprintf ''google/libphonenumber/v%s/javascript/i18n/phonenumbers/%s'' [version, f]
     = ''google/libphonenumber/v'' @ version @ ''/javascript/i18n/phonenumbers/'' @ f"
  "fmt_Sprintf ''%s/src'' [directory] = directory @ ''/src''"
  by simp_all

lemma filepath_Base_raw:
  assumes "f \<noteq> []" and "CHR ''/'' \<notin> set f"
  shows "filepath_Base
           (''google/libphonenumber/v'' @ version @ ''/javascript/i18n/phonenumbers/'' @ f) = f"
  using filepath_Base_append [OF assms,
      of "''google/libphonenumber/v'' @ version @ ''/javascript/i18n/phonenumbers''"]
  by simp

lemma api_Download_succeeds:
  assumes "f \<noteq> []" and "CHR ''/'' \<notin> set f" and "download_succeeds w version directory f"
  shows "fst (api_Download w
                (''google/libphonenumber/v'' @ version @ ''/javascript/i18n/phonenumbers/'' @ f)
                (directory @ ''/src'') s) = Return None
       \<and> filter get_call (trace (snd (api_Download w
                (''google/libphonenumber/v'' @ version @ ''/javascript/i18n/phonenumbers/'' @ f)
                (directory @ ''/src'') s)))
           = filter get_call (trace s) @ [CallGet (raw_url version f) 0]"
  using assms(3)
  by (auto simp add: api_Download_def io_Copy_def Let_def split_beta
      filepath_Base_raw [OF assms(1,2), simplified] split: option.splits)

lemma api_Download_fails:
  assumes "f \<noteq> []" and "CHR ''/'' \<notin> set f" and "download_fails w version directory f"
  shows "fst (api_Download w
                (''google/libphonenumber/v'' @ version @ ''/javascript/i18n/phonenumbers/'' @ f)
                (directory @ ''/src'') s) \<noteq> Return None
       \<and> filter get_call (trace (snd (api_Download w
                (''google/libphonenumber/v'' @ version @ ''/javascript/i18n/phonenumbers/'' @ f)
                (directory @ ''/src'') s)))
           = filter get_call (trace s)
             @ (if os_Create w (directory @ ''/src/'' @ f) = None
                then [CallGet (raw_url version f) 0] else [])"
  using assms(3)
  by (auto simp add: api_Download_def io_Copy_def Let_def split_beta
      filepath_Base_raw [OF assms(1,2), simplified] split: option.splits sum.splits)

lemma api_Download_all_succeeds:
  assumes "\<forall>g\<in>set names. g \<noteq> [] \<and> CHR ''/'' \<notin> set g"
    and "\<forall>g\<in>set names. download_succeeds w version directory g"
  shows "fst (api_Download_all w version directory names s) = Return ()
       \<and> filter get_call (trace (snd (api_Download_all w version directory names s)))
           = filter get_call (trace s) @ map (\<lambda>g. CallGet (raw_url version g) 0) names"
  using assms
proof (induction names arbitrary: s)
  case Nil
  show ?case by simp
next
  case (Cons g rest)
  let ?d = "api_Download w
              (''google/libphonenumber/v'' @ version @ ''/javascript/i18n/phonenumbers/'' @ g)
              (directory @ ''/src'') s"
  from Cons.prems have g: "g \<noteq> []" "CHR ''/'' \<notin> set g" "download_succeeds w version directory g"
    by simp_all
  from api_Download_succeeds [OF g, of s]
  have d: "fst ?d = Return None"
    and tr: "filter get_call (trace (snd ?d))
               = filter get_call (trace s) @ [CallGet (raw_url version g) 0]"
    by blast+
  from Cons.prems have rest: "\<forall>g\<in>set rest. g \<noteq> [] \<and> CHR ''/'' \<notin> set g"
    "\<forall>g\<in>set rest. download_succeeds w version directory g"
    by simp_all
  from Cons.IH [OF rest, of "snd ?d"] d tr show ?case
    unfolding api_Download_all.simps raw_path
    by (cases ?d) simp
qed

lemma api_Download_all_fails:
  assumes "\<forall>g\<in>set (pre @ f # post). g \<noteq> [] \<and> CHR ''/'' \<notin> set g"
    and "\<forall>g\<in>set pre. download_succeeds w version directory g"
    and "download_fails w version directory f"
  shows "fst (api_Download_all w version directory (pre @ f # post) s) = Exit 1
       \<and> filter get_call (trace (snd (api_Download_all w version directory (pre @ f # post) s)))
           = filter get_call (trace s)
             @ map (\<lambda>g. CallGet (raw_url version g) 0)
                 (pre @ (if os_Create w (directory @ ''/src/'' @ f) = None then [f] else []))"
  using assms(1,2)
proof (induction pre arbitrary: s)
  case Nil
  let ?d = "api_Download w
              (''google/libphonenumber/v'' @ version @ ''/javascript/i18n/phonenumbers/'' @ f)
              (directory @ ''/src'') s"
  from Nil.prems have f: "f \<noteq> []" "CHR ''/'' \<notin> set f"
    by simp_all
  from api_Download_fails [OF f assms(3), of s]
  have d: "fst ?d \<noteq> Return None"
    and tr: "filter get_call (trace (snd ?d))
               = filter get_call (trace s)
                 @ (if os_Create w (directory @ ''/src/'' @ f) = None
                    then [CallGet (raw_url version f) 0] else [])"
    by blast+
  from api_Download_result [of w _ _ s] d
  have "(\<exists>e. fst ?d = Return (Some e)) \<or> fst ?d = Exit 1"
    by (metis option.exhaust)
  with tr show ?case
    unfolding append_Nil api_Download_all.simps raw_path
    by (cases ?d) auto
next
  case (Cons g pre)
  let ?d = "api_Download w
              (''google/libphonenumber/v'' @ version @ ''/javascript/i18n/phonenumbers/'' @ g)
              (directory @ ''/src'') s"
  from Cons.prems have g: "g \<noteq> []" "CHR ''/'' \<notin> set g" "download_succeeds w version directory g"
    by simp_all
  from api_Download_succeeds [OF g, of s]
  have d: "fst ?d = Return None"
    and tr: "filter get_call (trace (snd ?d))
               = filter get_call (trace s) @ [CallGet (raw_url version g) 0]"
    by blast+
  from Cons.prems have rest: "\<forall>g\<in>set (pre @ f # post). g \<noteq> [] \<and> CHR ''/'' \<notin> set g"
    "\<forall>g\<in>set pre. download_succeeds w version directory g"
    by simp_all
  from Cons.IH [OF rest, of "snd ?d"] d tr show ?case
    unfolding append_Cons api_Download_all.simps raw_path
    by (cases ?d) simp
qed

lemma wh_archive_fails_stage:
  assumes td: "ioutil_TempDir w ''libphonenumber'' = Inr d"
    and cl: "git_PlainClone w d clone_url = Inr tree"
    and fails:
      "http_Get w (archive_url version) = Inl err
       \<or> (\<exists>resp. http_Get w (archive_url version) = Inr resp
             \<and> (gzip_NewReader w (ResponseBody resp) = Inl err
                \<or> (\<exists>archive. gzip_NewReader w (ResponseBody resp) = Inr archive
                      \<and> archive_fails w d archive err)))"
  shows "fst (wh_stages w version s) = Panic err
       \<and> filter repo_call (trace (snd (wh_stages w version s))) = filter repo_call (trace s)
       \<and> filter get_call (trace (snd (wh_stages w version s)))
           = filter get_call (trace s) @ [CallGet (archive_url version) 0]"
proof (rule wh_stages_fetch_fails [OF td cl])
  from fails consider
      (get) "http_Get w (archive_url version) = Inl err"
    | (gzip) resp where "http_Get w (archive_url version) = Inr resp"
        "gzip_NewReader w (ResponseBody resp) = Inl err"
    | (tar) resp archive where "http_Get w (archive_url version) = Inr resp"
        "gzip_NewReader w (ResponseBody resp) = Inr archive" "archive_fails w d archive err"
    by blast
  then show "http_Get w (archive_url version) = Inl err
       \<or> (\<exists>resp. http_Get w (archive_url version) = Inr resp
             \<and> (gzip_NewReader w (ResponseBody resp) = Inl err
                \<or> (\<exists>archive. gzip_NewReader w (ResponseBody resp) = Inr archive
                      \<and> fst (wh_Extract_loop w d None None (Entries archive) (Ending archive)
                               init) = Some err)))"
  proof cases
    case get
    then show ?thesis by blast
  next
    case gzip
    then show ?thesis by blast
  next
    case tar
    from wh_archive_fails [OF tar(3), of init] tar(1,2) show ?thesis
      by blast
  qed
qed

lemma api_download_fails_stage:
  assumes td: "ioutil_TempDir w ''ruimarinho-google-libphonenumber'' = Inr d"
    and cl: "git_PlainClone w d clone_url = Inr tree"
    and wt: "repository_Worktree w = None"
    and co: "\<forall>t. \<exists>t'. worktree_Checkout w (api_checkout_branch version) t = Inr t'"
    and names: "filenames = pre @ f # post"
    and pre: "\<forall>g\<in>set pre. download_succeeds w version d g"
    and f: "download_fails w version d f"
  shows "fst (api_stages w version s) = Exit 1
       \<and> filter repo_call (trace (snd (api_stages w version s)))
           = filter repo_call (trace s) @ [CallCheckout (api_checkout_branch version) True True]
       \<and> filter get_call (trace (snd (api_stages w version s)))
           = filter get_call (trace s)
             @ map (\<lambda>g. CallGet (raw_url version g) 0)
                 (pre @ (if os_Create w (d @ ''/src/'' @ f) = None then [f] else []))"
proof -
  have plain: "\<forall>g\<in>set (pre @ f # post). g \<noteq> [] \<and> CHR ''/'' \<notin> set g"
    using filenames_plain names by simp
  note dl = api_Download_all_fails [OF plain pre f]
  from dl [of init] names have "fst (api_Download_all w version d filenames init) \<noteq> Return ()"
    by simp
  from api_stages_fetch_fails [OF td cl wt _ this, of s] co
  obtain s3 where 1: "fst (api_stages w version s) = Exit 1"
    and 2: "filter repo_call (trace (snd (api_stages w version s)))
           = filter repo_call (trace s) @ [CallCheckout (api_checkout_branch version) True True]"
    and 3: "filter get_call (trace s3) = filter get_call (trace s)"
    and 4: "snd (api_stages w version s) = snd (api_Download_all w version d filenames s3)"
    by blast
  from dl [of s3] names 3 4 have "filter get_call (trace (snd (api_stages w version s)))
           = filter get_call (trace s)
             @ map (\<lambda>g. CallGet (raw_url version g) 0)
                 (pre @ (if os_Create w (d @ ''/src/'' @ f) = None then [f] else []))"
    by simp
  with 1 2 show ?thesis
    by blast
qed

lemma filenames_first:
  "filenames = [] @ ''asyoutypeformatter_test.js'' # tl filenames"
  by (simp add: filenames_def)

lemma sample_entries:
  "Entries sample_archive
     = [\<lparr>Name = ''libphonenumber-8.12.0/javascript/i18n/phonenumbers/'', Typeflag = CHR ''5'',
          Mode = 493, Content = [], ContentErr = None\<rparr>]
       @ \<lparr>Name = ''libphonenumber-8.12.0/javascript/i18n/phonenumbers/metadata.js'',
           Typeflag = TypeReg, Mode = 420, Content = ''new metadata'', ContentErr = None\<rparr>
       # tl (tl (Entries sample_archive))"
  by (simp add: sample_archive_def)

section \<open>The end of a run, stage by stage\<close>

lemma fst_wh_Commit:
  "fst (wh_Commit w version \<lparr>Push = True\<rparr> s)
     = (case repository_Worktree w of
          Some e \<Rightarrow> Some e
        | None \<Rightarrow>
            (case worktree_Checkout w (wh_checkout_branch version) (files s) of
               Inl e \<Rightarrow> Some e
             | Inr t \<Rightarrow>
                 (case worktree_Commit w (wh_commit_message version) of
                    Inl e \<Rightarrow> Some e
                  | Inr c \<Rightarrow>
                      (case repository_Remote w ''origin'' of
                         Some e \<Rightarrow> Some e
                       | None \<Rightarrow> remote_Push w (wh_push_refspec version)))))"
  by (simp add: wh_Commit_def wh_push_def Let_def split: option.splits sum.splits)

lemma fst_api_Commit:
  "fst (api_Commit w version d \<lparr>Push = True\<rparr> s)
     = (case repository_Worktree w of
          Some e \<Rightarrow> Return (Some e)
        | None \<Rightarrow>
            (case worktree_Checkout w (api_checkout_branch version) (files s) of
               Inl e \<Rightarrow> Return (Some e)
             | Inr t \<Rightarrow>
                 (case fst (api_Download_all w version d filenames init) of
                    Panic e \<Rightarrow> Panic e
                  | Exit n \<Rightarrow> Exit n
                  | Return u \<Rightarrow>
                      (case worktree_Commit w (api_commit_message version) of
                         Inl e \<Rightarrow> Return (Some e)
                       | Inr c \<Rightarrow>
                           (case repository_Remote w ''origin'' of
                              Some e \<Rightarrow> Return (Some e)
                            | None \<Rightarrow>
                                (case remote_Push w (api_push_refspec version) of
                                   Some e \<Rightarrow> Return (Some e)
                                 | None \<Rightarrow> Return None))))))"
proof (cases "repository_Worktree w")
  case (Some e)
  then show ?thesis by (simp add: api_Commit_def)
next
  case None
  show ?thesis
  proof (cases "worktree_Checkout w (api_checkout_branch version) (files s)")
    case (Inl e)
    with None show ?thesis by (simp add: api_Commit_def Let_def)
  next
    case (Inr t)
    let ?s1 = "(emit (CallCheckout (api_checkout_branch version) True True) s)\<lparr>files := t\<rparr>"
    let ?dl = "api_Download_all w version d filenames ?s1"
    have same: "fst (api_Download_all w version d filenames init) = fst ?dl"
      by (rule fst_api_Download_all)
    show ?thesis
      using None Inr unfolding same
      by (cases ?dl)
         (simp add: api_Commit_def Let_def split: res.splits sum.splits option.splits)
  qed
qed

lemma wh_stages_TempDir_fails:
  "ioutil_TempDir w ''libphonenumber'' = Inl err \<Longrightarrow> fst (wh_stages w version s) = Panic err"
  by (simp add: wh_stages_def wh_Clone_def Let_def)

lemma wh_stages_PlainClone_fails:
  "ioutil_TempDir w ''libphonenumber'' = Inr d \<Longrightarrow> git_PlainClone w d clone_url = Inl err \<Longrightarrow>
   fst (wh_stages w version s) = Panic err"
  by (simp add: wh_stages_def wh_Clone_def Let_def)

lemma wh_stages_fst:
  assumes td: "ioutil_TempDir w ''libphonenumber'' = Inr d"
    and cl: "git_PlainClone w d clone_url = Inr tree"
    and get: "http_Get w (archive_url version) = Inr resp"
    and gz: "gzip_NewReader w (ResponseBody resp) = Inr archive"
  shows "\<exists>s4. fst (wh_stages w version s)
     = (case fst (wh_Extract_loop w d None None (Entries archive) (Ending archive) init) of
          Some e \<Rightarrow> Panic e
        | None \<Rightarrow>
            (case fst (wh_Commit w version \<lparr>Push = True\<rparr> s4) of
               Some e \<Rightarrow> Panic e
             | None \<Rightarrow> Return ()))"
proof -
  let ?s1 = "emit (LogEntry InfoLevel ''Received push payload for version v'') s"
  let ?s2 = "snd (wh_Clone w ?s1)"
  have clone: "fst (wh_Clone w ?s1) = Inr d"
    using files_wh_Clone [OF td cl] by simp
  let ?s3 = "snd (wh_Download w version ?s2)"
  have dl: "fst (wh_Download w version ?s2) = Inr (ResponseBody resp)"
    using get by (simp add: wh_Download_def Let_def)
  let ?x = "wh_Extract_loop w d None None (Entries archive) (Ending archive) ?s3"
  have ex: "wh_Extract w (ResponseBody resp) d ?s3 = (Return (fst ?x), snd ?x)"
    using gz by (simp add: wh_Extract_def split_beta)
  have x: "fst ?x = fst (wh_Extract_loop w d None None (Entries archive) (Ending archive) init)"
    by (rule fst_wh_Extract_loop)
  let ?c = "wh_Commit w version \<lparr>Push = True\<rparr> (snd ?x)"
  have "fst (wh_stages w version s)
      = (case fst ?x of
           Some err \<Rightarrow> Panic err
         | None \<Rightarrow> (case fst ?c of Some err \<Rightarrow> Panic err | None \<Rightarrow> Return ()))"
    using clone dl ex unfolding wh_stages_def Let_def
    by (cases "wh_Clone w ?s1"; cases "wh_Download w version ?s2"; cases ?c)
       (simp split: option.splits)
  then show ?thesis
    unfolding x by blast
qed

lemma api_stages_TempDir_fails:
  "ioutil_TempDir w ''ruimarinho-google-libphonenumber'' = Inl err \<Longrightarrow>
   fst (api_stages w version s) = Panic err"
  by (simp add: api_stages_def api_Clone_def Let_def strings_ReplaceAll_def
      remoteRepositoryUsername_def remoteRepositoryName_def)

lemma api_stages_PlainClone_fails:
  "ioutil_TempDir w ''ruimarinho-google-libphonenumber'' = Inr d \<Longrightarrow>
   git_PlainClone w d clone_url = Inl err \<Longrightarrow>
   fst (api_stages w version s) = Panic err"
  by (simp add: api_stages_def api_Clone_def Let_def strings_ReplaceAll_def
      remoteRepositoryUsername_def remoteRepositoryName_def)

lemma api_stages_fst:
  assumes td: "ioutil_TempDir w ''ruimarinho-google-libphonenumber'' = Inr d"
    and cl: "git_PlainClone w d clone_url = Inr tree"
  shows "fst (api_stages w version s)
     = (case repository_Worktree w of
          Some e \<Rightarrow> Panic e
        | None \<Rightarrow>
            (case worktree_Checkout w (api_checkout_branch version) tree of
               Inl e \<Rightarrow> Panic e
             | Inr t \<Rightarrow>
                 (case fst (api_Download_all w version d filenames init) of
                    Panic e \<Rightarrow> Panic e
                  | Exit n \<Rightarrow> Exit n
                  | Return u \<Rightarrow>
                      (case worktree_Commit w (api_commit_message version) of
                         Inl e \<Rightarrow> Panic e
                       | Inr c \<Rightarrow>
                           (case repository_Remote w ''origin'' of
                              Some e \<Rightarrow> Panic e
                            | None \<Rightarrow>
                                (case remote_Push w (api_push_refspec version) of
                                   Some e \<Rightarrow> Panic e
                                 | None \<Rightarrow> Return ()))))))"
proof -
  let ?name = "''ruimarinho/google-libphonenumber''"
  have name: "fmt_Sprintf ''%s/%s'' [remoteRepositoryUsername, remoteRepositoryName] = ?name"
    by (simp add: remoteRepositoryUsername_def remoteRepositoryName_def)
  have rep: "strings_ReplaceAll ?name ''/'' ''-'' = ''ruimarinho-google-libphonenumber''"
    by (simp add: strings_ReplaceAll_def)
  have url: "fmt_Sprintf ''https://github.com/%s.git'' [?name] = clone_url"
    by simp
  let ?s1 = "emit (LogEntry InfoLevel ''Received push payload for version v%s'') s"
  let ?s2 = "snd (api_Clone w ?name ?s1)"
  have clone: "fst (api_Clone w ?name ?s1) = Inr d \<and> files ?s2 = tree"
    by (rule files_api_Clone) (simp_all only: rep url td cl)
  let ?c = "api_Commit w version d \<lparr>Push = True\<rparr> ?s2"
  have "fst (api_stages w version s)
      = (case fst ?c of
           Return (Some err) \<Rightarrow> Panic err
         | Return None \<Rightarrow> Return ()
         | Panic err \<Rightarrow> Panic err
         | Exit code \<Rightarrow> Exit code)"
    using clone unfolding api_stages_def name Let_def
    by (cases "api_Clone w ?name ?s1"; cases ?c) (simp split: res.splits option.splits)
  then show ?thesis
    using clone
    by (simp add: fst_api_Commit split: option.splits sum.splits res.splits)
qed

lemma answer_wh_Handle_Return:
  assumes "hook_Parse w r = Inr (PushPayload ref)"
    and "fst (wh_HandleEvent w (PushPayload ref) init) = Return ()"
  shows "answer (wh_Handle w r init) = (Return (), Some 200, ''OK'')"
  using wh_Handle_response [OF assms(1), of init] assms(2)
    sent_status_filter [of "trace (snd (wh_Handle w r init))"]
    sent_body_filter [of "trace (snd (wh_Handle w r init))"]
  by (simp add: answer_def)

lemma answer_wh_Handle_stops:
  assumes "hook_Parse w r = Inr (PushPayload ref)"
    and "fst (wh_HandleEvent w (PushPayload ref) init) = x"
    and "x \<noteq> Return ()"
  shows "answer (wh_Handle w r init) = (x, None, [])"
  using wh_Handle_response [OF assms(1), of init] assms(2,3)
    sent_status_filter [of "trace (snd (wh_Handle w r init))"]
    sent_body_filter [of "trace (snd (wh_Handle w r init))"]
  by (simp add: answer_def)

lemma answer_api_Handler_Return:
  assumes "Method r = ''POST''" and "webhook_New w = None"
    and "hook_Parse w r = Inr (PushPayload ref)"
    and "fst (api_HandleEvent w (PushPayload ref) init) = Return ()"
  shows "answer (api_Handler w r init) = (Return (), Some 200, ''OK'')"
  using api_Handler_response [OF assms(1,2,3), of init] assms(4)
    sent_status_filter [of "trace (snd (api_Handler w r init))"]
    sent_body_filter [of "trace (snd (api_Handler w r init))"]
  by (simp add: answer_def)

lemma answer_api_Handler_stops:
  assumes "Method r = ''POST''" and "webhook_New w = None"
    and "hook_Parse w r = Inr (PushPayload ref)"
    and "fst (api_HandleEvent w (PushPayload ref) init) = x"
    and "x \<noteq> Return ()"
  shows "answer (api_Handler w r init) = (x, None, [])"
  using api_Handler_response [OF assms(1,2,3), of init] assms(4,5)
    sent_status_filter [of "trace (snd (api_Handler w r init))"]
    sent_body_filter [of "trace (snd (api_Handler w r init))"]
  by (simp add: answer_def)

lemma wh_stages_tree:
  assumes panic: "\<And>e. fst (wh_stages w version s) = Panic e \<Longrightarrow> P e"
    and ret: "fst (wh_stages w version s) = Return () \<Longrightarrow> Q"
  shows
    "(ioutil_TempDir w ''libphonenumber'' = Inl err \<longrightarrow> P err)
     \<and> (ioutil_TempDir w ''libphonenumber'' = Inr d \<longrightarrow>
        (git_PlainClone w d clone_url = Inl err \<longrightarrow> P err)
        \<and> (git_PlainClone w d clone_url = Inr tree \<longrightarrow>
           (http_Get w (archive_url version) = Inl err \<longrightarrow> P err)
           \<and> (http_Get w (archive_url version) = Inr resp \<longrightarrow>
              (gzip_NewReader w (ResponseBody resp) = Inl err \<longrightarrow> P err)
              \<and> (gzip_NewReader w (ResponseBody resp) = Inr archive \<longrightarrow>
                 (archive_fails w d archive err \<longrightarrow> P err)
                 \<and> (archive_passes w d archive \<longrightarrow>
                    (repository_Worktree w = Some err \<longrightarrow> P err)
                    \<and> (repository_Worktree w = None \<longrightarrow>
                       ((\<forall>t. worktree_Checkout w (wh_checkout_branch version) t = Inl err)
                          \<longrightarrow> P err)
                       \<and> ((\<forall>t. \<exists>t'. worktree_Checkout w (wh_checkout_branch version) t = Inr t')
                          \<longrightarrow>
                          (worktree_Commit w (wh_commit_message version) = Inl err \<longrightarrow> P err)
                          \<and> (worktree_Commit w (wh_commit_message version) = Inr c \<longrightarrow>
                             (repository_Remote w ''origin'' = Some err \<longrightarrow> P err)
                             \<and> (repository_Remote w ''origin'' = None \<longrightarrow>
                                (remote_Push w (wh_push_refspec version) = Some err \<longrightarrow> P err)
                                \<and> (remote_Push w (wh_push_refspec version) = None \<longrightarrow>
                                   (archive_written w d archive \<longrightarrow> Q)))))))))))"
  apply (intro conjI impI)
  subgoal premises p
    by (rule panic) (rule wh_stages_TempDir_fails [OF p(1)])
  subgoal premises p
    by (rule panic) (rule wh_stages_PlainClone_fails [OF p(1,2)])
  subgoal premises p
    using wh_stages_fetch_fails [OF p(1,2), of version err s] p(3)
    by (intro panic) simp
  subgoal premises p
    using wh_stages_fetch_fails [OF p(1,2), of version err s] p(3,4)
    by (intro panic) simp
  subgoal premises p
    using wh_stages_fst [OF p(1,2,3,4), of s] wh_archive_fails [OF p(5), of init]
    by (intro panic) auto
  subgoal premises p
    using wh_stages_fst [OF p(1,2,3,4), of s] wh_archive_passes [OF p(5), of init] p(6)
    by (intro panic) (auto simp add: fst_wh_Commit)
  subgoal premises p
    using wh_stages_fst [OF p(1,2,3,4), of s] wh_archive_passes [OF p(5), of init] p(6,7)
    by (intro panic) (auto simp add: fst_wh_Commit)
  subgoal premises p
    using wh_stages_fst [OF p(1,2,3,4), of s] wh_archive_passes [OF p(5), of init] p(6,7,8)
    by (intro panic) (auto simp add: fst_wh_Commit split: sum.splits)
  subgoal premises p
    using wh_stages_fst [OF p(1,2,3,4), of s] wh_archive_passes [OF p(5), of init] p(6,7,8,9)
    by (intro panic) (auto simp add: fst_wh_Commit split: sum.splits)
  subgoal premises p
    using wh_stages_fst [OF p(1,2,3,4), of s] wh_archive_passes [OF p(5), of init]
      p(6,7,8,9,10)
    by (intro panic) (auto simp add: fst_wh_Commit split: sum.splits)
  subgoal premises p
    using wh_stages_fst [OF p(1,2,3,4), of s] wh_archive_passes [OF p(5), of init]
      p(6,7,8,9,10)
    by (intro ret) (auto simp add: fst_wh_Commit split: sum.splits)
  done

lemma api_stages_tree:
  assumes panic: "\<And>e. fst (api_stages w version s) = Panic e \<Longrightarrow> P e"
    and exit: "fst (api_stages w version s) = Exit 1 \<Longrightarrow> X"
    and ret: "fst (api_stages w version s) = Return () \<Longrightarrow> Q"
  shows
    "(ioutil_TempDir w ''ruimarinho-google-libphonenumber'' = Inl err \<longrightarrow> P err)
     \<and> (ioutil_TempDir w ''ruimarinho-google-libphonenumber'' = Inr d \<longrightarrow>
        (git_PlainClone w d clone_url = Inl err \<longrightarrow> P err)
        \<and> (git_PlainClone w d clone_url = Inr tree \<longrightarrow>
           (repository_Worktree w = Some err \<longrightarrow> P err)
           \<and> (repository_Worktree w = None \<longrightarrow>
              (worktree_Checkout w (api_checkout_branch version) tree = Inl err \<longrightarrow> P err)
              \<and> (worktree_Checkout w (api_checkout_branch version) tree = Inr reset \<longrightarrow>
                 ((\<exists>pre f post. filenames = pre @ f # post
                      \<and> (\<forall>g\<in>set pre. download_succeeds w version d g)
                      \<and> download_fails w version d f) \<longrightarrow> X)
                 \<and> ((\<forall>g\<in>set filenames. download_succeeds w version d g) \<longrightarrow>
                    (worktree_Commit w (api_commit_message version) = Inl err \<longrightarrow> P err)
                    \<and> (worktree_Commit w (api_commit_message version) = Inr c \<longrightarrow>
                       (repository_Remote w ''origin'' = Some err \<longrightarrow> P err)
                       \<and> (repository_Remote w ''origin'' = None \<longrightarrow>
                          (remote_Push w (api_push_refspec version) = Some err \<longrightarrow> P err)
                          \<and> (remote_Push w (api_push_refspec version) = None \<longrightarrow> Q))))))))"
proof -
  have fails: "fst (api_Download_all w version d filenames init) = Exit 1"
    if "\<exists>pre f post. filenames = pre @ f # post
          \<and> (\<forall>g\<in>set pre. download_succeeds w version d g)
          \<and> download_fails w version d f"
  proof -
    from that obtain pre f post where split: "filenames = pre @ f # post"
      and pre: "\<forall>g\<in>set pre. download_succeeds w version d g"
      and f: "download_fails w version d f"
      by blast
    have plain: "\<forall>g\<in>set (pre @ f # post). g \<noteq> [] \<and> CHR ''/'' \<notin> set g"
      using filenames_plain unfolding split .
    show ?thesis
      using api_Download_all_fails [OF plain pre f, of init] unfolding split by simp
  qed
  have succeeds: "fst (api_Download_all w version d filenames init) = Return ()"
    if "\<forall>g\<in>set filenames. download_succeeds w version d g"
    using api_Download_all_succeeds [OF filenames_plain that, of init] by simp
  show ?thesis
    apply (intro conjI impI)
    subgoal premises p
      by (rule panic) (rule api_stages_TempDir_fails [OF p(1)])
    subgoal premises p
      by (rule panic) (rule api_stages_PlainClone_fails [OF p(1,2)])
    subgoal premises p
      by (rule panic) (simp add: api_stages_fst [OF p(1,2)] p(3))
    subgoal premises p
      by (rule panic) (simp add: api_stages_fst [OF p(1,2)] p(3,4))
    subgoal premises p
      by (rule exit) (simp add: api_stages_fst [OF p(1,2)] p(3,4) fails [OF p(5)])
    subgoal premises p
      by (rule panic) (simp add: api_stages_fst [OF p(1,2)] p(3,4) succeeds [OF p(5)] p(6))
    subgoal premises p
      by (rule panic) (simp add: api_stages_fst [OF p(1,2)] p(3,4) succeeds [OF p(5)] p(6,7))
    subgoal premises p
      by (rule panic) (simp add: api_stages_fst [OF p(1,2)] p(3,4) succeeds [OF p(5)] p(6,7,8))
    subgoal premises p
      by (rule ret) (simp add: api_stages_fst [OF p(1,2)] p(3,4) succeeds [OF p(5)] p(6,7,8))
    done
qed

lemma wh_HandleEvent_not_tag:
  "\<not> is_tag_ref ref \<Longrightarrow> fst (wh_HandleEvent w (PushPayload ref) s) = Return ()"
  by (simp add: wh_HandleEvent_def)

lemma api_HandleEvent_not_tag:
  "\<not> is_tag_ref ref \<Longrightarrow> fst (api_HandleEvent w (PushPayload ref) s) = Return ()"
  by (simp add: api_HandleEvent_def)

section \<open>The version derived from a reference\<close>

text \<open>
  C1, as stated, fails: every occurrence of \<^verbatim>\<open>refs/tags/v\<close> is deleted, wherever it
  stands. For the tag \<^verbatim>\<open>vrefs/tags/v1\<close> the reference is \<^verbatim>\<open>refs/tags/v\<close> followed by
  \<^verbatim>\<open>refs/tags/v1\<close> and the version is not \<^verbatim>\<open>refs/tags/v1\<close>; for the branch
  \<^verbatim>\<open>refs/tags/v1\<close> the reference \<^verbatim>\<open>refs/heads/refs/tags/v1\<close> contains
  \<^verbatim>\<open>refs/tags/v\<close> followed by \<^verbatim>\<open>1\<close> and the version is not \<^verbatim>\<open>1\<close>.
\<close>

theorem version_of_ref_counterexample:
  "is_tag_ref (''refs/tags/v'' @ ''refs/tags/v1'')
   \<and> version_of_ref (''refs/tags/v'' @ ''refs/tags/v1'') \<noteq> ''refs/tags/v1''
   \<and> is_tag_ref (''refs/heads/'' @ ''refs/tags/v'' @ ''1'')
   \<and> version_of_ref (''refs/heads/'' @ ''refs/tags/v'' @ ''1'') \<noteq> ''1''"
  by (simp add: is_tag_ref_def version_of_ref_def)

text \<open>
  C1, amended: when the reference is \<^verbatim>\<open>refs/tags/v\<close> followed by a string \<open>S\<close> in which
  \<^verbatim>\<open>refs/tags/v\<close> does not occur, the reference passes the tag test, the derived
  version is \<open>S\<close> exactly, whatever \<open>S\<close> is (nothing validates it), and both
  \<^verbatim>\<open>HandleEvent\<close> functions run their stages on \<open>S\<close> unchanged.
\<close>

theorem version_of_ref_suffix:
  assumes "\<not> strings_Contains S ''refs/tags/v''"
  shows "is_tag_ref (''refs/tags/v'' @ S)
     \<and> version_of_ref (''refs/tags/v'' @ S) = S
     \<and> api_HandleEvent w (PushPayload (''refs/tags/v'' @ S)) s
         = api_stages w S (emit (LogEntry InfoLevel ''Handling incoming webhook'') s)
     \<and> wh_HandleEvent w (PushPayload (''refs/tags/v'' @ S)) s
         = wh_stages w S
             (emit (LogEntry InfoLevel ''Handling incoming libphonenumber-webhook'') s)"
proof -
  have tag: "is_tag_ref (''refs/tags/v'' @ S)"
    by (rule is_tag_ref_prefix)
  have "strings_Replace (''refs/tags/v'' @ S) ''refs/tags/v'' [] (- 1)
          = [] @ strings_Replace S ''refs/tags/v'' [] (- 1 - 1)"
    by (rule Replace_at_prefix) simp_all
  with assms have v: "version_of_ref (''refs/tags/v'' @ S) = S"
    by (simp add: version_of_ref_def Replace_absent)
  from tag v show ?thesis
    by (simp add: api_HandleEvent_def wh_HandleEvent_def)
qed

theorem version_of_ref_suffix_witness:
  "\<not> strings_Contains ''8.12.0-rc1'' ''refs/tags/v''
   \<and> version_of_ref (''refs/tags/v'' @ ''8.12.0-rc1'') = ''8.12.0-rc1''"
  using version_of_ref_suffix [of "''8.12.0-rc1''"] by simp

section \<open>A failure of the upstream fetch\<close>

text \<open>
  C2, as stated, fails for a response that is not a 200: no function reads the status.
  In \<^verbatim>\<open>api/handler.go\<close>, when every file URL answers 404, the bodies are written to
  the files and the run goes on to the commit and returns. In \<^verbatim>\<open>webhooks/handler.go\<close>,
  when the archive arrives under the status 203, it is extracted and committed.
\<close>

theorem non_200_response_counterexample:
  "http_Get world_404
     ''https://raw.githubusercontent.com/google/libphonenumber/v8.12.0/javascript/i18n/phonenumbers/metadata.js''
     = Inr \<lparr>StatusCode = 404,
            ResponseBody = \<lparr>Bytes = ''404: Not Found'', ReadErr = None\<rparr>\<rparr>
   \<and> fst (api_HandleEvent world_404 (PushPayload ''refs/tags/v8.12.0'') init) = Return ()
   \<and> CallCommit ''Update libphonenumber@8.12.0'' ''Rui Marinho'' ''ruipmarinho@gmail.com''
       \<in> set (trace (snd (api_HandleEvent world_404 (PushPayload ''refs/tags/v8.12.0'') init)))
   \<and> http_Get world_203 ''https://github.com/googlei18n/libphonenumber/archive/v8.12.0.tar.gz''
       = Inr \<lparr>StatusCode = 203, ResponseBody = \<lparr>Bytes = ''upstream'', ReadErr = None\<rparr>\<rparr>
   \<and> fst (wh_HandleEvent world_203 (PushPayload ''refs/tags/v8.12.0'') init) = Return ()
   \<and> CallCommit ''Update libphonenumber@8.12.0'' ''Rui Marinho'' ''ruipmarinho@gmail.com''
       \<in> set (trace (snd (wh_HandleEvent world_203 (PushPayload ''refs/tags/v8.12.0'') init)))"
proof -
  let ?c = "CallCommit ''Update libphonenumber@8.12.0'' ''Rui Marinho'' ''ruipmarinho@gmail.com''"
  let ?a = "api_stages world_404 ''8.12.0''
              (emit (LogEntry InfoLevel ''Handling incoming webhook'') init)"
  let ?b = "wh_stages world_203 ''8.12.0''
              (emit (LogEntry InfoLevel ''Handling incoming libphonenumber-webhook'') init)"
  have a: "fst ?a = Return ()"
    by (rule api_stages_world_404)
  from api_stages_repo [OF a] have "?c \<in> set (filter repo_call (trace (snd ?a)))"
    by (simp add: strings_8_12_0)
  then have ca: "?c \<in> set (trace (snd ?a))"
    by simp
  have b: "fst ?b = Return ()"
    by (rule wh_stages_world_203)
  from wh_stages_repo [OF b] have "?c \<in> set (filter repo_call (trace (snd ?b)))"
    by (simp add: strings_8_12_0)
  then have cb: "?c \<in> set (trace (snd ?b))"
    by simp
  show ?thesis
    using a ca b cb
    by (simp add: api_HandleEvent_tag wh_HandleEvent_tag world_404_def world_203_def)
qed

text \<open>
  C2, amended, with each failure stated on the world. For a tag, after a clone that
  succeeded. In \<^verbatim>\<open>webhooks/handler.go\<close>: when \<^verbatim>\<open>http.Get\<close> returns an error, or
  \<^verbatim>\<open>gzip.NewReader\<close> rejects the body, or the archive fails (after entries that pass,
  an entry whose destination file cannot be opened, or whose content breaks off; or a tar
  stream that breaks after its entries), \<^verbatim>\<open>HandleEvent\<close> panics with that error,
  exactly one GET has been made (no retry), and no checkout, commit, push or pull
  request. In \<^verbatim>\<open>api/handler.go\<close>: when the worktree and the checkout succeed and,
  after downloads that succeed, the download of one file fails (the file cannot be
  created, \<^verbatim>\<open>http.Get\<close> returns an error, the body breaks off, or the file accepts
  fewer bytes than the body has), the process exits with status 1, the checkout is the
  only call on the repository (no commit), and the GETs are one for each file before the
  failing one and one for the failing one unless it could not be created: no file is
  requested twice, and none after the failure. The status of a response is not among
  the failures.
\<close>

theorem fetch_failure_is_fatal:
  assumes "is_tag_ref ref"
  shows
    "(ioutil_TempDir w ''libphonenumber'' = Inr d
      \<and> git_PlainClone w d clone_url = Inr tree
      \<and> (http_Get w (archive_url (version_of_ref ref)) = Inl err
         \<or> (\<exists>resp. http_Get w (archive_url (version_of_ref ref)) = Inr resp
               \<and> (gzip_NewReader w (ResponseBody resp) = Inl err
                  \<or> (\<exists>archive. gzip_NewReader w (ResponseBody resp) = Inr archive
                        \<and> archive_fails w d archive err))))
      \<longrightarrow> fst (wh_HandleEvent w (PushPayload ref) init) = Panic err
          \<and> filter repo_call (trace (snd (wh_HandleEvent w (PushPayload ref) init))) = []
          \<and> filter get_call (trace (snd (wh_HandleEvent w (PushPayload ref) init)))
              = [CallGet (archive_url (version_of_ref ref)) 0])
   \<and> (ioutil_TempDir w ''ruimarinho-google-libphonenumber'' = Inr d'
      \<and> git_PlainClone w d' clone_url = Inr tree'
      \<and> repository_Worktree w = None
      \<and> (\<forall>t. \<exists>t'. worktree_Checkout w (api_checkout_branch (version_of_ref ref)) t = Inr t')
      \<and> filenames = pre @ f # post
      \<and> (\<forall>g\<in>set pre. download_succeeds w (version_of_ref ref) d' g)
      \<and> download_fails w (version_of_ref ref) d' f
      \<longrightarrow> fst (api_HandleEvent w (PushPayload ref) init) = Exit 1
          \<and> filter repo_call (trace (snd (api_HandleEvent w (PushPayload ref) init)))
              = [CallCheckout (api_checkout_branch (version_of_ref ref)) True True]
          \<and> filter get_call (trace (snd (api_HandleEvent w (PushPayload ref) init)))
              = map (\<lambda>g. CallGet (raw_url (version_of_ref ref) g) 0)
                  (pre @ (if os_Create w (d' @ ''/src/'' @ f) = None then [f] else [])))"
proof (intro conjI impI)
  let ?s = "emit (LogEntry InfoLevel ''Handling incoming libphonenumber-webhook'') init"
  assume h: "ioutil_TempDir w ''libphonenumber'' = Inr d
      \<and> git_PlainClone w d clone_url = Inr tree
      \<and> (http_Get w (archive_url (version_of_ref ref)) = Inl err
         \<or> (\<exists>resp. http_Get w (archive_url (version_of_ref ref)) = Inr resp
               \<and> (gzip_NewReader w (ResponseBody resp) = Inl err
                  \<or> (\<exists>archive. gzip_NewReader w (ResponseBody resp) = Inr archive
                        \<and> archive_fails w d archive err))))"
  then have r: "fst (wh_stages w (version_of_ref ref) ?s) = Panic err
       \<and> filter repo_call (trace (snd (wh_stages w (version_of_ref ref) ?s)))
           = filter repo_call (trace ?s)
       \<and> filter get_call (trace (snd (wh_stages w (version_of_ref ref) ?s)))
           = filter get_call (trace ?s) @ [CallGet (archive_url (version_of_ref ref)) 0]"
    by (intro wh_archive_fails_stage [of w d tree]) blast+
  from r show "fst (wh_HandleEvent w (PushPayload ref) init) = Panic err"
    by (simp add: wh_HandleEvent_is_tag [OF assms])
  from r show "filter repo_call (trace (snd (wh_HandleEvent w (PushPayload ref) init))) = []"
    by (simp add: wh_HandleEvent_is_tag [OF assms])
  from r show "filter get_call (trace (snd (wh_HandleEvent w (PushPayload ref) init)))
      = [CallGet (archive_url (version_of_ref ref)) 0]"
    by (simp add: wh_HandleEvent_is_tag [OF assms])
next
  let ?s = "emit (LogEntry InfoLevel ''Handling incoming webhook'') init"
  assume h: "ioutil_TempDir w ''ruimarinho-google-libphonenumber'' = Inr d'
      \<and> git_PlainClone w d' clone_url = Inr tree'
      \<and> repository_Worktree w = None
      \<and> (\<forall>t. \<exists>t'. worktree_Checkout w (api_checkout_branch (version_of_ref ref)) t = Inr t')
      \<and> filenames = pre @ f # post
      \<and> (\<forall>g\<in>set pre. download_succeeds w (version_of_ref ref) d' g)
      \<and> download_fails w (version_of_ref ref) d' f"
  then have r: "fst (api_stages w (version_of_ref ref) ?s) = Exit 1
       \<and> filter repo_call (trace (snd (api_stages w (version_of_ref ref) ?s)))
           = filter repo_call (trace ?s)
             @ [CallCheckout (api_checkout_branch (version_of_ref ref)) True True]
       \<and> filter get_call (trace (snd (api_stages w (version_of_ref ref) ?s)))
           = filter get_call (trace ?s)
             @ map (\<lambda>g. CallGet (raw_url (version_of_ref ref) g) 0)
                 (pre @ (if os_Create w (d' @ ''/src/'' @ f) = None then [f] else []))"
    by (intro api_download_fails_stage [of w d' tree' _ pre f post]) blast+
  from r show "fst (api_HandleEvent w (PushPayload ref) init) = Exit 1"
    by (simp add: api_HandleEvent_is_tag [OF assms])
  from r show "filter repo_call (trace (snd (api_HandleEvent w (PushPayload ref) init)))
      = [CallCheckout (api_checkout_branch (version_of_ref ref)) True True]"
    by (simp add: api_HandleEvent_is_tag [OF assms])
  from r show "filter get_call (trace (snd (api_HandleEvent w (PushPayload ref) init)))
      = map (\<lambda>g. CallGet (raw_url (version_of_ref ref) g) 0)
          (pre @ (if os_Create w (d' @ ''/src/'' @ f) = None then [f] else []))"
    by (simp add: api_HandleEvent_is_tag [OF assms])
qed

theorem fetch_failure_is_fatal_witness:
  "is_tag_ref ''refs/tags/v8.12.0''
   \<and> fst (wh_HandleEvent world_corrupt_tar (PushPayload ''refs/tags/v8.12.0'') init)
       = Panic (Err ''unexpected EOF'')
   \<and> filter repo_call
       (trace (snd (wh_HandleEvent world_corrupt_tar (PushPayload ''refs/tags/v8.12.0'') init)))
       = []
   \<and> fst (wh_HandleEvent world_open_fails (PushPayload ''refs/tags/v8.12.0'') init)
       = Panic (Err ''permission denied'')
   \<and> filter repo_call
       (trace (snd (wh_HandleEvent world_open_fails (PushPayload ''refs/tags/v8.12.0'') init)))
       = []
   \<and> fst (api_HandleEvent world_get_fails (PushPayload ''refs/tags/v8.12.0'') init) = Exit 1
   \<and> filter repo_call
       (trace (snd (api_HandleEvent world_get_fails (PushPayload ''refs/tags/v8.12.0'') init)))
       = [CallCheckout ''refs/heads/support/update-libphonenumber-8-12-0'' True True]
   \<and> fst (api_HandleEvent world_disk_full (PushPayload ''refs/tags/v8.12.0'') init) = Exit 1
   \<and> filter get_call
       (trace (snd (api_HandleEvent world_disk_full (PushPayload ''refs/tags/v8.12.0'') init)))
       = [CallGet ''https://raw.githubusercontent.com/google/libphonenumber/v8.12.0/javascript/i18n/phonenumbers/asyoutypeformatter_test.js'' 0]"
proof -
  have tag: "is_tag_ref ''refs/tags/v8.12.0''"
    and v: "version_of_ref ''refs/tags/v8.12.0'' = ''8.12.0''"
    using tag_8_12_0 by simp_all
  let ?resp = "\<lparr>StatusCode = 200, ResponseBody = \<lparr>Bytes = ''upstream'', ReadErr = None\<rparr>\<rparr>"
  let ?tree = "[''/tmp/libphonenumber1/src/index.js'' \<mapsto> ''old index'']"
  let ?tree' = "[''/tmp/ruimarinho-google-libphonenumber1/src/index.js'' \<mapsto> ''old index'']"
  have "ioutil_TempDir world_corrupt_tar ''libphonenumber'' = Inr ''/tmp/libphonenumber1''
      \<and> git_PlainClone world_corrupt_tar ''/tmp/libphonenumber1'' clone_url = Inr ?tree
      \<and> http_Get world_corrupt_tar (archive_url ''8.12.0'') = Inr ?resp
      \<and> gzip_NewReader world_corrupt_tar (ResponseBody ?resp)
          = Inr (sample_archive\<lparr>Ending := Some (Err ''unexpected EOF'')\<rparr>)
      \<and> archive_fails world_corrupt_tar ''/tmp/libphonenumber1''
          (sample_archive\<lparr>Ending := Some (Err ''unexpected EOF'')\<rparr>) (Err ''unexpected EOF'')"
    by (simp add: world_corrupt_tar_def world_ok_def sample_archive_def)
  with fetch_failure_is_fatal [OF tag, of world_corrupt_tar "''/tmp/libphonenumber1''" ?tree
      "Err ''unexpected EOF''"]
  have 1: "fst (wh_HandleEvent world_corrupt_tar (PushPayload ''refs/tags/v8.12.0'') init)
       = Panic (Err ''unexpected EOF'')
   \<and> filter repo_call
       (trace (snd (wh_HandleEvent world_corrupt_tar (PushPayload ''refs/tags/v8.12.0'') init)))
       = []"
    unfolding v by blast
  have "entry_passes world_open_fails ''/tmp/libphonenumber1''
          \<lparr>Name = ''libphonenumber-8.12.0/javascript/i18n/phonenumbers/'', Typeflag = CHR ''5'',
            Mode = 493, Content = [], ContentErr = None\<rparr>
      \<and> entry_fails world_open_fails ''/tmp/libphonenumber1''
          \<lparr>Name = ''libphonenumber-8.12.0/javascript/i18n/phonenumbers/metadata.js'',
            Typeflag = TypeReg, Mode = 420, Content = ''new metadata'', ContentErr = None\<rparr>
          (Err ''permission denied'')"
    by (simp add: world_open_fails_def world_ok_def TypeReg_def)
  with sample_entries
  have "archive_fails world_open_fails ''/tmp/libphonenumber1'' sample_archive
          (Err ''permission denied'')"
    by (intro disjI1 exI conjI) (assumption, simp_all)
  moreover have "ioutil_TempDir world_open_fails ''libphonenumber'' = Inr ''/tmp/libphonenumber1''
      \<and> git_PlainClone world_open_fails ''/tmp/libphonenumber1'' clone_url = Inr ?tree
      \<and> http_Get world_open_fails (archive_url ''8.12.0'') = Inr ?resp
      \<and> gzip_NewReader world_open_fails (ResponseBody ?resp) = Inr sample_archive"
    by (simp add: world_open_fails_def world_ok_def)
  ultimately have 2: "fst (wh_HandleEvent world_open_fails (PushPayload ''refs/tags/v8.12.0'') init)
       = Panic (Err ''permission denied'')
   \<and> filter repo_call
       (trace (snd (wh_HandleEvent world_open_fails (PushPayload ''refs/tags/v8.12.0'') init)))
       = []"
    using fetch_failure_is_fatal [OF tag, of world_open_fails "''/tmp/libphonenumber1''" ?tree
      "Err ''permission denied''"]
    unfolding v by blast
  have "ioutil_TempDir world_get_fails ''ruimarinho-google-libphonenumber''
          = Inr ''/tmp/ruimarinho-google-libphonenumber1''
      \<and> git_PlainClone world_get_fails ''/tmp/ruimarinho-google-libphonenumber1'' clone_url
          = Inr ?tree'
      \<and> repository_Worktree world_get_fails = None
      \<and> (\<forall>t. \<exists>t'. worktree_Checkout world_get_fails (api_checkout_branch ''8.12.0'') t = Inr t')
      \<and> filenames = [] @ ''asyoutypeformatter_test.js'' # tl filenames
      \<and> (\<forall>g\<in>set []. download_succeeds world_get_fails ''8.12.0''
                        ''/tmp/ruimarinho-google-libphonenumber1'' g)
      \<and> download_fails world_get_fails ''8.12.0'' ''/tmp/ruimarinho-google-libphonenumber1''
          ''asyoutypeformatter_test.js''"
    using filenames_first by (simp add: world_get_fails_def world_ok_def)
  with fetch_failure_is_fatal [OF tag, of world_get_fails _ _ _
      "''/tmp/ruimarinho-google-libphonenumber1''" ?tree' "[]" "''asyoutypeformatter_test.js''"
      "tl filenames"]
  have 3: "fst (api_HandleEvent world_get_fails (PushPayload ''refs/tags/v8.12.0'') init) = Exit 1
   \<and> filter repo_call
       (trace (snd (api_HandleEvent world_get_fails (PushPayload ''refs/tags/v8.12.0'') init)))
       = [CallCheckout (api_checkout_branch ''8.12.0'') True True]"
    unfolding v by blast
  have h4: "ioutil_TempDir world_disk_full ''ruimarinho-google-libphonenumber''
          = Inr ''/tmp/ruimarinho-google-libphonenumber1''
      \<and> git_PlainClone world_disk_full ''/tmp/ruimarinho-google-libphonenumber1'' clone_url
          = Inr ?tree'
      \<and> repository_Worktree world_disk_full = None
      \<and> (\<forall>t. \<exists>t'. worktree_Checkout world_disk_full (api_checkout_branch ''8.12.0'') t = Inr t')
      \<and> filenames = [] @ ''asyoutypeformatter_test.js'' # tl filenames
      \<and> (\<forall>g\<in>set []. download_succeeds world_disk_full ''8.12.0''
                        ''/tmp/ruimarinho-google-libphonenumber1'' g)
      \<and> download_fails world_disk_full ''8.12.0'' ''/tmp/ruimarinho-google-libphonenumber1''
          ''asyoutypeformatter_test.js''"
    using filenames_first by (simp add: world_disk_full_def world_ok_def)
  have c4: "os_Create world_disk_full
              (''/tmp/ruimarinho-google-libphonenumber1'' @ ''/src/''
                 @ ''asyoutypeformatter_test.js'') = None"
    by (simp add: world_disk_full_def world_ok_def)
  from h4 fetch_failure_is_fatal [OF tag, of world_disk_full _ _ _
      "''/tmp/ruimarinho-google-libphonenumber1''" ?tree' "[]" "''asyoutypeformatter_test.js''"
      "tl filenames"]
  have "fst (api_HandleEvent world_disk_full (PushPayload ''refs/tags/v8.12.0'') init) = Exit 1
   \<and> filter get_call
       (trace (snd (api_HandleEvent world_disk_full (PushPayload ''refs/tags/v8.12.0'') init)))
       = map (\<lambda>g. CallGet (raw_url ''8.12.0'' g) 0)
           ([] @ (if os_Create world_disk_full
                       (''/tmp/ruimarinho-google-libphonenumber1'' @ ''/src/''
                          @ ''asyoutypeformatter_test.js'') = None
                  then [''asyoutypeformatter_test.js''] else []))"
    unfolding v by blast
  with c4 have 4: "fst (api_HandleEvent world_disk_full (PushPayload ''refs/tags/v8.12.0'') init) = Exit 1
   \<and> filter get_call
       (trace (snd (api_HandleEvent world_disk_full (PushPayload ''refs/tags/v8.12.0'') init)))
       = [CallGet (raw_url ''8.12.0'' ''asyoutypeformatter_test.js'') 0]"
    by simp
  from tag 1 2 3 4 show ?thesis
    by (simp add: strings_8_12_0)
qed

section \<open>The files in the staging directory\<close>

text \<open>
  C3, as stated, fails: the files are written over the clone, whose other files stay. After
  a run of \<^verbatim>\<open>api/handler.go\<close> that returns, \<^verbatim>\<open>src\<close> still holds the clone's
  \<^verbatim>\<open>index.js\<close>, which is not one of \<open>filenames\<close>.
\<close>

theorem staged_directory_counterexample:
  "fst (api_HandleEvent world_ok (PushPayload ''refs/tags/v8.12.0'') init) = Return ()
   \<and> files (snd (api_HandleEvent world_ok (PushPayload ''refs/tags/v8.12.0'') init))
        ''/tmp/ruimarinho-google-libphonenumber1/src/index.js'' = Some ''old index''
   \<and> ''index.js'' \<notin> set filenames"
proof -
  let ?a = "emit (LogEntry InfoLevel ''Handling incoming webhook'') init"
  let ?d = "''/tmp/ruimarinho-google-libphonenumber1''"
  let ?tree = "[?d @ ''/src/index.js'' \<mapsto> ''old index'']"
  let ?tree' = "\<lambda>path. if suffix ''/src/index.js'' path \<and> ?tree path \<noteq> None
                       then Some ''old index'' else None"
  have a_ok: "fst (api_stages world_ok ''8.12.0'' ?a) = Return ()"
    by (rule api_stages_world_ok)
  have "\<exists>s0. files s0 = ?tree'
           \<and> fst (api_Download_all world_ok ''8.12.0'' ?d filenames s0) = Return ()
           \<and> files (snd (api_stages world_ok ''8.12.0'' ?a))
               = files (snd (api_Download_all world_ok ''8.12.0'' ?d filenames s0))"
    by (rule files_api_stages [OF _ _ _ a_ok, of ?d ?tree]) (simp_all add: world_ok_def)
  then obtain s0 where s0: "files s0 = ?tree'"
    and dl: "fst (api_Download_all world_ok ''8.12.0'' ?d filenames s0) = Return ()"
    and fa: "files (snd (api_stages world_ok ''8.12.0'' ?a))
               = files (snd (api_Download_all world_ok ''8.12.0'' ?d filenames s0))"
    by blast
  from dl have "api_Download_all world_ok ''8.12.0'' ?d filenames s0
      = (Return (), snd (api_Download_all world_ok ''8.12.0'' ?d filenames s0))"
    by (metis prod.collapse)
  from api_Download_all_files [OF filenames_plain filenames_distinct this]
  have "\<forall>p. p \<notin> (\<lambda>f. ?d @ ''/src/'' @ f) ` set filenames \<longrightarrow>
          files (snd (api_Download_all world_ok ''8.12.0'' ?d filenames s0)) p = files s0 p"
    by blast
  moreover have "?d @ ''/src/index.js'' \<notin> (\<lambda>f. ?d @ ''/src/'' @ f) ` set filenames"
    by (simp add: filenames_def)
  moreover have "suffix ''/src/index.js'' (?d @ ''/src/index.js'')"
    by (rule suffixI) (rule refl)
  ultimately have api_file:
    "files (snd (api_stages world_ok ''8.12.0'' ?a)) (?d @ ''/src/index.js'') = Some ''old index''"
    using fa s0 by simp
  show ?thesis
    using a_ok api_file
    by (simp add: api_HandleEvent_tag filenames_def)
qed

text \<open>
  C3, amended: after the loop of downloads of \<^verbatim>\<open>api/handler.go\<close> has returned, each of
  \<open>filenames\<close> is a file of \<^verbatim>\<open>src\<close> whose content is, byte for byte, the body of
  the response for its URL, and every other path of the file system is as it was before
  the loop (so \<^verbatim>\<open>src\<close> holds \<open>filenames\<close> and whatever the checked-out branch had
  there).
\<close>

theorem staged_files_after_fetch:
  "api_Download_all w version directory filenames s = (Return (), s') \<longrightarrow>
      (\<forall>f\<in>set filenames.
         \<exists>resp. http_Get w (''https://raw.githubusercontent.com/google/libphonenumber/v''
                              @ version @ ''/javascript/i18n/phonenumbers/'' @ f) = Inr resp
              \<and> ReadErr (ResponseBody resp) = None
              \<and> files s' (directory @ ''/src/'' @ f) = Some (Bytes (ResponseBody resp)))
      \<and> (\<forall>p. p \<notin> (\<lambda>f. directory @ ''/src/'' @ f) ` set filenames \<longrightarrow> files s' p = files s p)"
  using api_Download_all_files [OF filenames_plain filenames_distinct, of w version directory s s']
  by blast

theorem staged_files_after_fetch_witness:
  "api_Download_all world_ok ''8.12.0'' ''/tmp/clone'' filenames init
     = (Return (), snd (api_Download_all world_ok ''8.12.0'' ''/tmp/clone'' filenames init))
   \<and> ''metadata.js'' \<in> set filenames
   \<and> files (snd (api_Download_all world_ok ''8.12.0'' ''/tmp/clone'' filenames init))
        ''/tmp/clone/src/metadata.js'' = Some ''upstream''
   \<and> files (snd (api_Download_all world_ok ''8.12.0'' ''/tmp/clone'' filenames init))
        ''/tmp/clone/src/index.js'' = None"
proof -
  let ?r = "api_Download_all world_ok ''8.12.0'' ''/tmp/clone'' filenames init"
  have "fst ?r = Return ()"
    by (rule api_Download_all_Return) (simp_all add: world_ok_def)
  then have run: "?r = (Return (), snd ?r)"
    by (metis prod.collapse)
  have m: "''metadata.js'' \<in> set filenames"
    by (simp add: filenames_def)
  have i: "''/tmp/clone/src/index.js'' \<notin> (\<lambda>f. ''/tmp/clone'' @ ''/src/'' @ f) ` set filenames"
    by (simp add: filenames_def)
  from staged_files_after_fetch [of world_ok "''8.12.0''" "''/tmp/clone''" init "snd ?r"] run
  have all: "\<forall>f\<in>set filenames.
         \<exists>resp. http_Get world_ok (''https://raw.githubusercontent.com/google/libphonenumber/v''
                              @ ''8.12.0'' @ ''/javascript/i18n/phonenumbers/'' @ f) = Inr resp
              \<and> ReadErr (ResponseBody resp) = None
              \<and> files (snd ?r) (''/tmp/clone'' @ ''/src/'' @ f) = Some (Bytes (ResponseBody resp))"
    and frame: "\<forall>p. p \<notin> (\<lambda>f. ''/tmp/clone'' @ ''/src/'' @ f) ` set filenames \<longrightarrow>
                 files (snd ?r) p = files init p"
    by blast+
  from all m have "files (snd ?r) ''/tmp/clone/src/metadata.js'' = Some ''upstream''"
    by (auto simp add: world_ok_def)
  moreover from frame i have "files (snd ?r) ''/tmp/clone/src/index.js'' = None"
    by (simp add: init_def)
  ultimately show ?thesis
    using run m by simp
qed

section \<open>A push that is not a tag\<close>

text \<open>
  C4: when the reference does not contain \<^verbatim>\<open>refs/tags/\<close>, each \<^verbatim>\<open>HandleEvent\<close> logs
  its two records (the second is the skip), returns, and does nothing else: no call is
  added to the trace, so no clone, fetch, commit, push or pull request, and no file
  changes.
\<close>

theorem non_tag_push_is_skipped:
  assumes "\<not> strings_Contains ref ''refs/tags/''"
  shows "api_HandleEvent w (PushPayload ref) s
           = (Return (), s\<lparr>trace := trace s
                @ [LogEntry InfoLevel ''Handling incoming webhook'',
                   LogEntry WarnLevel ''Push reference is not a tag, skipping'']\<rparr>)
     \<and> wh_HandleEvent w (PushPayload ref) s
           = (Return (), s\<lparr>trace := trace s
                @ [LogEntry InfoLevel ''Handling incoming libphonenumber-webhook'',
                   LogEntry WarnLevel ''Push reference is not a tag, skipping'']\<rparr>)
     \<and> filter outbound (trace (snd (api_HandleEvent w (PushPayload ref) s)))
           = filter outbound (trace s)
     \<and> filter outbound (trace (snd (wh_HandleEvent w (PushPayload ref) s)))
           = filter outbound (trace s)
     \<and> filter repo_call (trace (snd (api_HandleEvent w (PushPayload ref) s)))
           = filter repo_call (trace s)
     \<and> filter repo_call (trace (snd (wh_HandleEvent w (PushPayload ref) s)))
           = filter repo_call (trace s)"
  using assms by (simp add: api_HandleEvent_def wh_HandleEvent_def is_tag_ref_def emit_def)

theorem non_tag_push_is_skipped_witness:
  "\<not> strings_Contains ''refs/heads/master'' ''refs/tags/''
   \<and> filter outbound
       (trace (snd (api_HandleEvent world_ok (PushPayload ''refs/heads/master'') init))) = []
   \<and> filter outbound
       (trace (snd (wh_HandleEvent world_ok (PushPayload ''refs/heads/master'') init))) = []"
  using non_tag_push_is_skipped [of "''refs/heads/master''" world_ok init]
  by (simp add: init_def)

section \<open>The branch name\<close>

text \<open>
  C5: the branch name (the head of the pull request) is
  \<^verbatim>\<open>support/update-libphonenumber-\<close> followed by the version with every \<^verbatim>\<open>.\<close>
  replaced by \<^verbatim>\<open>-\<close>; each place that derives it again (the branch checked out, the
  refspec pushed, in either file) gets the same name.
\<close>

theorem branch_name_from_version:
  "Head (api_NewPullRequest v)
     = ''support/update-libphonenumber-'' @ map (\<lambda>c. if c = CHR ''.'' then CHR ''-'' else c) v
   \<and> Head (wh_NewPullRequest v) = Head (api_NewPullRequest v)
   \<and> api_checkout_branch v = ''refs/heads/'' @ Head (api_NewPullRequest v)
   \<and> wh_checkout_branch v = ''refs/heads/'' @ Head (api_NewPullRequest v)
   \<and> api_push_refspec v
       = ''refs/heads/'' @ Head (api_NewPullRequest v)
         @ '':refs/heads/'' @ Head (api_NewPullRequest v)
   \<and> wh_push_refspec v = api_push_refspec v"
  by (simp add: api_checkout_branch_def wh_checkout_branch_def api_push_refspec_def
      wh_push_refspec_def api_NewPullRequest_def wh_NewPullRequest_def remoteBranchFormat_def
      Let_def Replace_char_map)

theorem branch_name_from_version_witness:
  "Head (api_NewPullRequest ''1.2.3'') = ''support/update-libphonenumber-1-2-3''
   \<and> Head (wh_NewPullRequest ''1.2.3'') = ''support/update-libphonenumber-1-2-3''"
  using branch_name_from_version [of "''1.2.3''"] by simp

section \<open>The tag \<^verbatim>\<open>v8.12.0\<close> from end to end\<close>

text \<open>
  C6: for the reference \<^verbatim>\<open>refs/tags/v8.12.0\<close> the version is \<^verbatim>\<open>8.12.0\<close>, and in
  every world in which \<^verbatim>\<open>HandleEvent\<close> returns, the calls on the repository are, in
  order: the checkout of \<^verbatim>\<open>refs/heads/support/update-libphonenumber-8-12-0\<close>, the
  commit with the message \<^verbatim>\<open>Update libphonenumber@8.12.0\<close>, the push of that branch,
  and the creation of the pull request with the title
  \<^verbatim>\<open>Update libphonenumber@8.12.0\<close>, the head
  \<^verbatim>\<open>support/update-libphonenumber-8-12-0\<close> and the base \<^verbatim>\<open>master\<close>.
\<close>

theorem tag_8_12_0_end_to_end:
  "version_of_ref ''refs/tags/v8.12.0'' = ''8.12.0''
   \<and> (fst (api_HandleEvent w (PushPayload ''refs/tags/v8.12.0'') init) = Return () \<longrightarrow>
        filter repo_call (trace (snd (api_HandleEvent w (PushPayload ''refs/tags/v8.12.0'') init)))
          = [CallCheckout ''refs/heads/support/update-libphonenumber-8-12-0'' True True,
             CallCommit ''Update libphonenumber@8.12.0'' ''Rui Marinho'' ''ruipmarinho@gmail.com'',
             CallPush ''refs/heads/support/update-libphonenumber-8-12-0:refs/heads/support/update-libphonenumber-8-12-0''
               ''ruimarinho'' (os_Getenv w ''GITHUB_TOKEN'') 0,
             CallCreatePull ''ruimarinho'' ''google-libphonenumber''
               \<lparr>Title = ''Update libphonenumber@8.12.0'',
                Head = ''support/update-libphonenumber-8-12-0'',
                Base = ''master'',
                Body = ''Update libphonenumber@8.12.0.''\<rparr>
               (os_Getenv w ''GITHUB_TOKEN'')])
   \<and> (fst (wh_HandleEvent w (PushPayload ''refs/tags/v8.12.0'') init) = Return () \<longrightarrow>
        filter repo_call (trace (snd (wh_HandleEvent w (PushPayload ''refs/tags/v8.12.0'') init)))
          = [CallCheckout ''refs/heads/support/update-libphonenumber-8-12-0'' True True,
             CallCommit ''Update libphonenumber@8.12.0'' ''Rui Marinho'' ''ruipmarinho@gmail.com'',
             CallPush ''refs/heads/support/update-libphonenumber-8-12-0:refs/heads/support/update-libphonenumber-8-12-0''
               ''ruimarinho'' (os_Getenv w ''GITHUB_TOKEN'') 15,
             CallCreatePull ''ruimarinho'' ''google-libphonenumber''
               \<lparr>Title = ''Update libphonenumber@8.12.0'',
                Head = ''support/update-libphonenumber-8-12-0'',
                Base = ''master'',
                Body = ''Update libphonenumber@8.12.0.''\<rparr>
               (os_Getenv w ''GITHUB_TOKEN'')])"
  using tag_8_12_0
  by (simp add: api_HandleEvent_tag wh_HandleEvent_tag api_stages_repo wh_stages_repo
      strings_8_12_0 remoteRepositoryUsername_def remoteRepositoryName_def)

theorem tag_8_12_0_end_to_end_witness:
  "fst (api_HandleEvent world_ok (PushPayload ''refs/tags/v8.12.0'') init) = Return ()
   \<and> fst (wh_HandleEvent world_ok (PushPayload ''refs/tags/v8.12.0'') init) = Return ()
   \<and> filter repo_call (trace (snd (wh_HandleEvent world_ok (PushPayload ''refs/tags/v8.12.0'') init)))
          = [CallCheckout ''refs/heads/support/update-libphonenumber-8-12-0'' True True,
             CallCommit ''Update libphonenumber@8.12.0'' ''Rui Marinho'' ''ruipmarinho@gmail.com'',
             CallPush ''refs/heads/support/update-libphonenumber-8-12-0:refs/heads/support/update-libphonenumber-8-12-0''
               ''ruimarinho'' ''token'' 15,
             CallCreatePull ''ruimarinho'' ''google-libphonenumber''
               \<lparr>Title = ''Update libphonenumber@8.12.0'',
                Head = ''support/update-libphonenumber-8-12-0'',
                Base = ''master'',
                Body = ''Update libphonenumber@8.12.0.''\<rparr>
               ''token'']"
proof -
  have 1: "fst (api_HandleEvent world_ok (PushPayload ''refs/tags/v8.12.0'') init) = Return ()"
    by (simp add: api_HandleEvent_tag api_stages_world_ok)
  have 2: "fst (wh_HandleEvent world_ok (PushPayload ''refs/tags/v8.12.0'') init) = Return ()"
    by (simp add: wh_HandleEvent_tag wh_stages_world_ok)
  show ?thesis
    using tag_8_12_0_end_to_end [of world_ok] 1 2 by (simp add: world_tokens)
qed

section \<open>The acknowledgment of the handlers\<close>

text \<open>
  C7, as stated, fails: \<^verbatim>\<open>HandleEvent\<close> runs inside the handler, before \<^verbatim>\<open>OK\<close> is
  written, and a stage that fails panics or ends the process. When the payload parses
  and the clone fails, both handlers panic and write nothing.
\<close>

theorem ok_after_failure_counterexample:
  "hook_Parse world_clone_fails tag_post = Inr (PushPayload ''refs/tags/v8.12.0'')
   \<and> fst (api_Handler world_clone_fails tag_post init) = Panic (Err ''repository not found'')
   \<and> sent_status (trace (snd (api_Handler world_clone_fails tag_post init))) = None
   \<and> sent_body (trace (snd (api_Handler world_clone_fails tag_post init))) = []
   \<and> fst (wh_Handle world_clone_fails tag_post init) = Panic (Err ''repository not found'')
   \<and> sent_status (trace (snd (wh_Handle world_clone_fails tag_post init))) = None
   \<and> sent_body (trace (snd (wh_Handle world_clone_fails tag_post init))) = []"
  using api_Handler_response [OF parse_tag_post(4) parse_tag_post(6) parse_tag_post(2), of init]
    wh_Handle_response [OF parse_tag_post(2), of init]
    api_HandleEvent_clone_fails wh_HandleEvent_clone_fails
  by (simp add: parse_tag_post
      sent_status_filter [of "trace (snd (api_Handler world_clone_fails tag_post init))"]
      sent_status_filter [of "trace (snd (wh_Handle world_clone_fails tag_post init))"]
      sent_body_filter [of "trace (snd (api_Handler world_clone_fails tag_post init))"]
      sent_body_filter [of "trace (snd (wh_Handle world_clone_fails tag_post init))"])

text \<open>
  C7, amended, with each stage stated on the world. Whenever the payload parses, the
  handler ends as \<^verbatim>\<open>HandleEvent\<close> ends: it answers \<^verbatim>\<open>OK\<close> with the status 200 when
  \<^verbatim>\<open>HandleEvent\<close> returns, and writes nothing otherwise. For a reference that is not
  a tag the answer is \<^verbatim>\<open>OK\<close>. For a tag, the stages are taken in the order of the
  source, and each failure is met after the stages before it have succeeded. In
  \<^verbatim>\<open>webhooks/handler.go\<close>: when the temporary directory, the clone, the GET of the
  archive, the gzip reader, the archive (an entry that cannot be opened or read, or a
  broken tar stream), the worktree, the checkout, the commit, the remote or the push
  fails, the handler panics with that error and nothing is written; when all of them
  succeed and every extracted file fits where it is written, the answer is \<^verbatim>\<open>OK\<close>. In
  \<^verbatim>\<open>api/handler.go\<close>, for a POST: when the temporary directory, the clone, the
  worktree, the checkout, the commit, the remote or the push fails, the handler panics
  with that error; when the download of a file fails, the process exits with status 1;
  in both cases nothing is written; when all of them succeed the answer is \<^verbatim>\<open>OK\<close>.
  The creation of the pull request is not among the stages: its result is dropped.
\<close>

theorem ok_written_by_stage:
  assumes "hook_Parse w r = Inr p"
  shows
    "(answer (wh_Handle w r init)
        = (if fst (wh_HandleEvent w p init) = Return () then (Return (), Some 200, ''OK'')
           else (fst (wh_HandleEvent w p init), None, []))
      \<and> (p = PushPayload ref \<and> \<not> is_tag_ref ref \<longrightarrow>
           answer (wh_Handle w r init) = (Return (), Some 200, ''OK''))
      \<and> (p = PushPayload ref \<and> is_tag_ref ref \<longrightarrow>
         (ioutil_TempDir w ''libphonenumber'' = Inl err \<longrightarrow>
            answer (wh_Handle w r init) = (Panic err, None, []))
         \<and> (ioutil_TempDir w ''libphonenumber'' = Inr d \<longrightarrow>
            (git_PlainClone w d clone_url = Inl err \<longrightarrow>
               answer (wh_Handle w r init) = (Panic err, None, []))
            \<and> (git_PlainClone w d clone_url = Inr tree \<longrightarrow>
               (http_Get w (archive_url (version_of_ref ref)) = Inl err \<longrightarrow>
                  answer (wh_Handle w r init) = (Panic err, None, []))
               \<and> (http_Get w (archive_url (version_of_ref ref)) = Inr resp \<longrightarrow>
                  (gzip_NewReader w (ResponseBody resp) = Inl err \<longrightarrow>
                     answer (wh_Handle w r init) = (Panic err, None, []))
                  \<and> (gzip_NewReader w (ResponseBody resp) = Inr archive \<longrightarrow>
                     (archive_fails w d archive err \<longrightarrow>
                        answer (wh_Handle w r init) = (Panic err, None, []))
                     \<and> (archive_passes w d archive \<longrightarrow>
                        (repository_Worktree w = Some err \<longrightarrow>
                           answer (wh_Handle w r init) = (Panic err, None, []))
                        \<and> (repository_Worktree w = None \<longrightarrow>
                           ((\<forall>t. worktree_Checkout w (wh_checkout_branch (version_of_ref ref)) t
                                   = Inl err) \<longrightarrow>
                              answer (wh_Handle w r init) = (Panic err, None, []))
                           \<and> ((\<forall>t. \<exists>t'. worktree_Checkout w
                                            (wh_checkout_branch (version_of_ref ref)) t = Inr t')
                              \<longrightarrow>
                              (worktree_Commit w (wh_commit_message (version_of_ref ref)) = Inl err
                                 \<longrightarrow> answer (wh_Handle w r init) = (Panic err, None, []))
                              \<and> (worktree_Commit w (wh_commit_message (version_of_ref ref)) = Inr c
                                 \<longrightarrow>
                                 (repository_Remote w ''origin'' = Some err \<longrightarrow>
                                    answer (wh_Handle w r init) = (Panic err, None, []))
                                 \<and> (repository_Remote w ''origin'' = None \<longrightarrow>
                                    (remote_Push w (wh_push_refspec (version_of_ref ref)) = Some err
                                       \<longrightarrow> answer (wh_Handle w r init) = (Panic err, None, []))
                                    \<and> (remote_Push w (wh_push_refspec (version_of_ref ref)) = None
                                       \<longrightarrow>
                                       (archive_written w d archive \<longrightarrow>
                                          answer (wh_Handle w r init)
                                            = (Return (), Some 200, ''OK''))))))))))))))
     \<and> (Method r = ''POST'' \<and> webhook_New w = None \<longrightarrow>
        answer (api_Handler w r init)
          = (if fst (api_HandleEvent w p init) = Return () then (Return (), Some 200, ''OK'')
             else (fst (api_HandleEvent w p init), None, []))
        \<and> (p = PushPayload ref \<and> \<not> is_tag_ref ref \<longrightarrow>
             answer (api_Handler w r init) = (Return (), Some 200, ''OK''))
        \<and> (p = PushPayload ref \<and> is_tag_ref ref \<longrightarrow>
           (ioutil_TempDir w ''ruimarinho-google-libphonenumber'' = Inl err \<longrightarrow>
              answer (api_Handler w r init) = (Panic err, None, []))
           \<and> (ioutil_TempDir w ''ruimarinho-google-libphonenumber'' = Inr d' \<longrightarrow>
              (git_PlainClone w d' clone_url = Inl err \<longrightarrow>
                 answer (api_Handler w r init) = (Panic err, None, []))
              \<and> (git_PlainClone w d' clone_url = Inr tree' \<longrightarrow>
                 (repository_Worktree w = Some err \<longrightarrow>
                    answer (api_Handler w r init) = (Panic err, None, []))
                 \<and> (repository_Worktree w = None \<longrightarrow>
                    (worktree_Checkout w (api_checkout_branch (version_of_ref ref)) tree' = Inl err
                       \<longrightarrow> answer (api_Handler w r init) = (Panic err, None, []))
                    \<and> (worktree_Checkout w (api_checkout_branch (version_of_ref ref)) tree'
                         = Inr reset \<longrightarrow>
                       ((\<exists>pre f post. filenames = pre @ f # post
                            \<and> (\<forall>g\<in>set pre. download_succeeds w (version_of_ref ref) d' g)
                            \<and> download_fails w (version_of_ref ref) d' f) \<longrightarrow>
                          answer (api_Handler w r init) = (Exit 1, None, []))
                       \<and> ((\<forall>g\<in>set filenames. download_succeeds w (version_of_ref ref) d' g)
                          \<longrightarrow>
                          (worktree_Commit w (api_commit_message (version_of_ref ref)) = Inl err
                             \<longrightarrow> answer (api_Handler w r init) = (Panic err, None, []))
                          \<and> (worktree_Commit w (api_commit_message (version_of_ref ref)) = Inr c'
                             \<longrightarrow>
                             (repository_Remote w ''origin'' = Some err \<longrightarrow>
                                answer (api_Handler w r init) = (Panic err, None, []))
                             \<and> (repository_Remote w ''origin'' = None \<longrightarrow>
                                (remote_Push w (api_push_refspec (version_of_ref ref)) = Some err
                                   \<longrightarrow> answer (api_Handler w r init) = (Panic err, None, []))
                                \<and> (remote_Push w (api_push_refspec (version_of_ref ref)) = None
                                   \<longrightarrow> answer (api_Handler w r init)
                                         = (Return (), Some 200, ''OK'')))))))))))"
proof -
  let ?s = "emit (LogEntry InfoLevel ''Handling incoming libphonenumber-webhook'') init"
  let ?s' = "emit (LogEntry InfoLevel ''Handling incoming webhook'') init"
  have wh_panic: "answer (wh_Handle w r init) = (Panic e, None, [])"
    if "p = PushPayload ref" "is_tag_ref ref"
      "fst (wh_stages w (version_of_ref ref) ?s) = Panic e" for e
    using answer_wh_Handle_stops [OF assms [unfolded that(1)], of "Panic e"] that(3)
    by (simp add: wh_HandleEvent_is_tag [OF that(2)])
  have wh_ret: "answer (wh_Handle w r init) = (Return (), Some 200, ''OK'')"
    if "p = PushPayload ref" "is_tag_ref ref"
      "fst (wh_stages w (version_of_ref ref) ?s) = Return ()"
    using answer_wh_Handle_Return [OF assms [unfolded that(1)]] that(3)
    by (simp add: wh_HandleEvent_is_tag [OF that(2)])
  have api_stop: "answer (api_Handler w r init) = (x, None, [])"
    if "Method r = ''POST''" "webhook_New w = None" "p = PushPayload ref" "is_tag_ref ref"
      "fst (api_stages w (version_of_ref ref) ?s') = x" "x \<noteq> Return ()" for x
    using answer_api_Handler_stops [OF that(1,2) assms [unfolded that(3)], of x] that(5,6)
    by (simp add: api_HandleEvent_is_tag [OF that(4)])
  have api_ret: "answer (api_Handler w r init) = (Return (), Some 200, ''OK'')"
    if "Method r = ''POST''" "webhook_New w = None" "p = PushPayload ref" "is_tag_ref ref"
      "fst (api_stages w (version_of_ref ref) ?s') = Return ()"
    using answer_api_Handler_Return [OF that(1,2) assms [unfolded that(3)]] that(5)
    by (simp add: api_HandleEvent_is_tag [OF that(4)])
  show ?thesis
    apply (intro conjI)
    subgoal
      using wh_Handle_response [OF assms, of init]
        sent_status_filter [of "trace (snd (wh_Handle w r init))"]
        sent_body_filter [of "trace (snd (wh_Handle w r init))"]
      by (simp add: answer_def)
    subgoal
      using answer_wh_Handle_Return [of w r ref] assms wh_HandleEvent_not_tag [of ref w init]
      by blast
    subgoal
      apply (rule impI, elim conjE)
      subgoal premises q
        by (rule wh_stages_tree
            [where P = "\<lambda>e. answer (wh_Handle w r init) = (Panic e, None, [])"
               and Q = "answer (wh_Handle w r init) = (Return (), Some 200, ''OK'')"
               and s = ?s and version = "version_of_ref ref"])
          (rule wh_panic [OF q] wh_ret [OF q]; assumption)+
      done
    subgoal
      apply (rule impI, elim conjE, intro conjI)
      subgoal premises q
        using api_Handler_response [OF q assms, of init]
          sent_status_filter [of "trace (snd (api_Handler w r init))"]
          sent_body_filter [of "trace (snd (api_Handler w r init))"]
        by (simp add: answer_def)
      subgoal premises q
        using answer_api_Handler_Return [OF q, of ref] assms api_HandleEvent_not_tag [of ref w init]
        by blast
      subgoal premises q
        apply (rule impI, elim conjE)
        subgoal premises q'
          by (rule api_stages_tree
              [where P = "\<lambda>e. answer (api_Handler w r init) = (Panic e, None, [])"
                 and X = "answer (api_Handler w r init) = (Exit 1, None, [])"
                 and Q = "answer (api_Handler w r init) = (Return (), Some 200, ''OK'')"
                 and s = ?s' and version = "version_of_ref ref"])
            (rule api_stop [OF q q'] api_ret [OF q q']; (assumption | simp))+
        done
      done
    done
qed

theorem ok_written_by_stage_witness:
  "hook_Parse world_pull_fails tag_post = Inr (PushPayload ''refs/tags/v8.12.0'')
   \<and> PullRequests_Create world_pull_fails (wh_NewPullRequest ''8.12.0'')
       = Inl (Err ''422 Validation Failed'')
   \<and> answer (wh_Handle world_pull_fails tag_post init) = (Return (), Some 200, ''OK'')
   \<and> remote_Push world_push_fails (wh_push_refspec ''8.12.0'')
       = Some (Err ''non-fast-forward update'')
   \<and> answer (wh_Handle world_push_fails tag_post init)
       = (Panic (Err ''non-fast-forward update''), None, [])
   \<and> answer (api_Handler world_push_fails tag_post init)
       = (Panic (Err ''non-fast-forward update''), None, [])
   \<and> answer (api_Handler world_disk_full tag_post init) = (Exit 1, None, [])
   \<and> answer (api_Handler world_ok tag_post init) = (Return (), Some 200, ''OK'')"
proof -
  have tag: "is_tag_ref ''refs/tags/v8.12.0''"
    and v: "version_of_ref ''refs/tags/v8.12.0'' = ''8.12.0''"
    using tag_8_12_0 by simp_all
  let ?ref = "''refs/tags/v8.12.0''"
  let ?resp = "\<lparr>StatusCode = 200, ResponseBody = \<lparr>Bytes = ''upstream'', ReadErr = None\<rparr>\<rparr>"
  let ?d = "''/tmp/libphonenumber1''"
  let ?d' = "''/tmp/ruimarinho-google-libphonenumber1''"
  let ?tree = "[''/tmp/libphonenumber1/src/index.js'' \<mapsto> ''old index'']"
  let ?tree' = "[''/tmp/ruimarinho-google-libphonenumber1/src/index.js'' \<mapsto> ''old index'']"
  let ?rejected = "Err ''non-fast-forward update''"
  have parse: "hook_Parse world_push_fails tag_post = Inr (PushPayload ?ref)"
    "hook_Parse world_disk_full tag_post = Inr (PushPayload ?ref)"
    and served: "webhook_New world_push_fails = None" "webhook_New world_disk_full = None"
    by (simp_all add: world_simps)
  have passes1: "\<forall>g\<in>set (Entries sample_archive). entry_passes world_pull_fails ?d g"
    and written1: "archive_written world_pull_fails ?d sample_archive"
    by (simp_all add: world_pull_fails_def world_ok_def sample_archive_def)
  have "ioutil_TempDir world_pull_fails ''libphonenumber'' = Inr ?d
      \<and> git_PlainClone world_pull_fails ?d clone_url = Inr ?tree
      \<and> http_Get world_pull_fails (archive_url ''8.12.0'') = Inr ?resp
      \<and> gzip_NewReader world_pull_fails (ResponseBody ?resp) = Inr sample_archive
      \<and> Ending sample_archive = None
      \<and> repository_Worktree world_pull_fails = None
      \<and> (\<forall>t. \<exists>t'. worktree_Checkout world_pull_fails (wh_checkout_branch ''8.12.0'') t = Inr t')
      \<and> worktree_Commit world_pull_fails (wh_commit_message ''8.12.0'') = Inr ''c0ffee''
      \<and> repository_Remote world_pull_fails ''origin'' = None
      \<and> remote_Push world_pull_fails (wh_push_refspec ''8.12.0'') = None"
    by (simp add: world_pull_fails_def world_ok_def sample_archive_def)
  then have run1: "answer (wh_Handle world_pull_fails tag_post init) = (Return (), Some 200, ''OK'')"
    using ok_written_by_stage [OF parse_tag_post(3), of ?ref ?rejected ?d ?tree ?resp
        sample_archive "''c0ffee''" ?d' ?tree' ?tree' "''c0ffee''", unfolded v,
        THEN conjunct1, THEN conjunct2, THEN conjunct2]
    by (simp only: passes1 [THEN eqTrueI] written1 [THEN eqTrueI] tag simp_thms sum.distinct
        option.distinct)
  have passes2: "\<forall>g\<in>set (Entries sample_archive). entry_passes world_push_fails ?d g"
    by (simp add: world_push_fails_def world_ok_def sample_archive_def)
  have "ioutil_TempDir world_push_fails ''libphonenumber'' = Inr ?d
      \<and> git_PlainClone world_push_fails ?d clone_url = Inr ?tree
      \<and> http_Get world_push_fails (archive_url ''8.12.0'') = Inr ?resp
      \<and> gzip_NewReader world_push_fails (ResponseBody ?resp) = Inr sample_archive
      \<and> Ending sample_archive = None
      \<and> repository_Worktree world_push_fails = None
      \<and> (\<forall>t. \<exists>t'. worktree_Checkout world_push_fails (wh_checkout_branch ''8.12.0'') t = Inr t')
      \<and> worktree_Commit world_push_fails (wh_commit_message ''8.12.0'') = Inr ''c0ffee''
      \<and> repository_Remote world_push_fails ''origin'' = None
      \<and> remote_Push world_push_fails (wh_push_refspec ''8.12.0'') = Some ?rejected"
    by (simp add: world_push_fails_def world_ok_def sample_archive_def)
  then have run2: "answer (wh_Handle world_push_fails tag_post init) = (Panic ?rejected, None, [])"
    using ok_written_by_stage [OF parse(1), of ?ref ?rejected ?d ?tree ?resp sample_archive
        "''c0ffee''" ?d' ?tree' ?tree' "''c0ffee''", unfolded v,
        THEN conjunct1, THEN conjunct2, THEN conjunct2]
    by (simp only: passes2 [THEN eqTrueI] tag simp_thms sum.distinct option.distinct)
  have fetched3: "\<forall>g\<in>set filenames. download_succeeds world_push_fails ''8.12.0'' ?d' g"
    by (simp add: world_push_fails_def world_ok_def)
  obtain reset where
    "worktree_Checkout world_push_fails (api_checkout_branch ''8.12.0'') ?tree' = Inr reset"
    by (simp add: world_push_fails_def world_ok_def)
  moreover have "ioutil_TempDir world_push_fails ''ruimarinho-google-libphonenumber'' = Inr ?d'
      \<and> git_PlainClone world_push_fails ?d' clone_url = Inr ?tree'
      \<and> repository_Worktree world_push_fails = None
      \<and> worktree_Commit world_push_fails (api_commit_message ''8.12.0'') = Inr ''c0ffee''
      \<and> repository_Remote world_push_fails ''origin'' = None
      \<and> remote_Push world_push_fails (api_push_refspec ''8.12.0'') = Some ?rejected"
    by (simp add: world_push_fails_def world_ok_def)
  ultimately have run3:
    "answer (api_Handler world_push_fails tag_post init) = (Panic ?rejected, None, [])"
    using ok_written_by_stage [OF parse(1), of ?ref ?rejected ?d ?tree ?resp sample_archive
        "''c0ffee''" ?d' ?tree' reset "''c0ffee''", unfolded v,
        THEN conjunct2, THEN mp, OF conjI [OF parse_tag_post(4) served(1)],
        THEN conjunct2, THEN conjunct2]
    by (simp only: fetched3 [THEN eqTrueI] tag simp_thms
        sum.distinct option.distinct)
  have fails4: "\<exists>pre f post. filenames = pre @ f # post
      \<and> (\<forall>g\<in>set pre. download_succeeds world_disk_full ''8.12.0'' ?d' g)
      \<and> download_fails world_disk_full ''8.12.0'' ?d' f"
    using filenames_first
    by (intro exI [of _ "[]"] exI [of _ "''asyoutypeformatter_test.js''"]
        exI [of _ "tl filenames"])
      (simp add: world_disk_full_def world_ok_def)
  obtain reset' where
    "worktree_Checkout world_disk_full (api_checkout_branch ''8.12.0'') ?tree' = Inr reset'"
    by (simp add: world_disk_full_def world_ok_def)
  moreover have "ioutil_TempDir world_disk_full ''ruimarinho-google-libphonenumber'' = Inr ?d'
      \<and> git_PlainClone world_disk_full ?d' clone_url = Inr ?tree'
      \<and> repository_Worktree world_disk_full = None"
    by (simp add: world_disk_full_def world_ok_def)
  ultimately have run4: "answer (api_Handler world_disk_full tag_post init) = (Exit 1, None, [])"
    using ok_written_by_stage [OF parse(2), of ?ref ?rejected ?d ?tree ?resp sample_archive
        "''c0ffee''" ?d' ?tree' reset' "''c0ffee''", unfolded v,
        THEN conjunct2, THEN mp, OF conjI [OF parse_tag_post(4) served(2)],
        THEN conjunct2, THEN conjunct2]
    by (simp only: fails4 [THEN eqTrueI] tag simp_thms
        sum.distinct option.distinct)
  have fetched5: "\<forall>g\<in>set filenames. download_succeeds world_ok ''8.12.0'' ?d' g"
    by (simp add: world_ok_def)
  obtain reset'' where
    "worktree_Checkout world_ok (api_checkout_branch ''8.12.0'') ?tree' = Inr reset''"
    by (simp add: world_ok_def)
  moreover have "ioutil_TempDir world_ok ''ruimarinho-google-libphonenumber'' = Inr ?d'
      \<and> git_PlainClone world_ok ?d' clone_url = Inr ?tree'
      \<and> repository_Worktree world_ok = None
      \<and> worktree_Commit world_ok (api_commit_message ''8.12.0'') = Inr ''c0ffee''
      \<and> repository_Remote world_ok ''origin'' = None
      \<and> remote_Push world_ok (api_push_refspec ''8.12.0'') = None"
    by (simp add: world_ok_def)
  ultimately have run5:
    "answer (api_Handler world_ok tag_post init) = (Return (), Some 200, ''OK'')"
    using ok_written_by_stage [OF parse_tag_post(1), of ?ref ?rejected ?d ?tree ?resp
        sample_archive "''c0ffee''" ?d' ?tree' reset'' "''c0ffee''", unfolded v,
        THEN conjunct2, THEN mp, OF conjI [OF parse_tag_post(4) parse_tag_post(5)],
        THEN conjunct2, THEN conjunct2]
    by (simp only: fetched5 [THEN eqTrueI] tag simp_thms
        sum.distinct option.distinct)
  have refused: "PullRequests_Create world_pull_fails (wh_NewPullRequest ''8.12.0'')
      = Inl (Err ''422 Validation Failed'')"
    and rejected: "remote_Push world_push_fails (wh_push_refspec ''8.12.0'') = Some ?rejected"
    by (simp_all add: world_pull_fails_def world_push_fails_def world_ok_def)
  show ?thesis
    by (simp only: parse_tag_post(3) refused rejected run1 run2 run3 run4 run5 simp_thms)
qed

section \<open>A request that is not a POST\<close>

text \<open>
  C8 holds for \<^verbatim>\<open>Handler\<close> of \<^verbatim>\<open>api/handler.go\<close> and fails for \<^verbatim>\<open>Handle\<close> of
  \<^verbatim>\<open>webhooks/handler.go\<close>, which has no test of the method: whatever the request and
  the world, \<^verbatim>\<open>Handle\<close> never answers 405 nor the fixed body. On a GET it calls
  \<^verbatim>\<open>hook.Parse\<close>, and panics on the error that the library returns, with nothing
  written; \<^verbatim>\<open>Handler\<close> answers the same request with 405 and the fixed body.
\<close>

theorem wh_Handle_method_not_checked:
  "sent_status (trace (snd (wh_Handle w r init))) \<noteq> Some 405
   \<and> sent_body (trace (snd (wh_Handle w r init))) \<noteq> ''Method not supported by libphonenumber-hook''
   \<and> Method tag_get \<noteq> ''POST''
   \<and> wh_Handle world_ok tag_get init
       = (Panic (Err ''invalid HTTP Method''), emit (LogEntry PanicLevel ''invalid HTTP Method'') init)
   \<and> sent_status (trace (snd (wh_Handle world_ok tag_get init))) = None
   \<and> sent_status (trace (snd (api_Handler world_ok tag_get init))) = Some 405
   \<and> sent_body (trace (snd (api_Handler world_ok tag_get init)))
       = ''Method not supported by libphonenumber-hook''"
proof -
  have "sent_status (trace (snd (wh_Handle w r init))) \<noteq> Some 405
   \<and> sent_body (trace (snd (wh_Handle w r init))) \<noteq> ''Method not supported by libphonenumber-hook''"
    using wh_Handle_cases [of w r]
    by (auto simp add: sent_status_filter [of "trace (snd (wh_Handle w r init))"]
        sent_body_filter [of "trace (snd (wh_Handle w r init))"])
  moreover have "Method tag_get \<noteq> ''POST''"
    by (simp add: tag_get_def)
  moreover have "wh_Handle world_ok tag_get init
       = (Panic (Err ''invalid HTTP Method''), emit (LogEntry PanicLevel ''invalid HTTP Method'') init)"
    by (simp add: wh_Handle_def world_ok_def tag_get_def)
  moreover have "api_Handler world_ok tag_get init
     = (Return (), emit (CallWrite ''Method not supported by libphonenumber-hook'')
                     (emit (CallWriteHeader 405) init))"
    by (rule api_Handler_non_POST) (simp add: tag_get_def)
  ultimately show ?thesis
    by simp
qed

section \<open>The timeout of the HTTP clients\<close>

text \<open>
  C9 fails on the code: the client with the timeout of 15 seconds is installed for
  go-git's transport only, so it carries the clone and the push; \<^verbatim>\<open>Download\<close> fetches
  the upstream archive with \<^verbatim>\<open>http.Get\<close>, whose client has no timeout, for every
  version and in every world.
\<close>

theorem upstream_Get_has_no_timeout:
  "trace (snd (wh_Download w version s))
     = trace s @ [CallGet (''https://github.com/googlei18n/libphonenumber/archive/v''
                             @ version @ ''.tar.gz'') 0]
   \<and> filter outbound (trace (snd (wh_HandleEvent world_ok (PushPayload ''refs/tags/v8.12.0'') init)))
      = [CallPlainClone ''/tmp/libphonenumber1''
           ''https://github.com/ruimarinho/google-libphonenumber.git'' [] 15,
         CallGet ''https://github.com/googlei18n/libphonenumber/archive/v8.12.0.tar.gz'' 0,
         CallPush ''refs/heads/support/update-libphonenumber-8-12-0:refs/heads/support/update-libphonenumber-8-12-0''
               ''ruimarinho'' ''token'' 15,
         CallCreatePull ''ruimarinho'' ''google-libphonenumber''
               \<lparr>Title = ''Update libphonenumber@8.12.0'',
                Head = ''support/update-libphonenumber-8-12-0'',
                Base = ''master'',
                Body = ''Update libphonenumber@8.12.0.''\<rparr>
               ''token'']"
  using wh_stages_outbound [OF wh_stages_world_ok world_tokens(2), of "''8.12.0''"
      "emit (LogEntry InfoLevel ''Handling incoming libphonenumber-webhook'') init"]
  by (simp add: wh_Download_trace wh_HandleEvent_tag strings_8_12_0 world_tokens)

section \<open>The two files derive the same strings\<close>

text \<open>
  C10: for every version the two files compute the same branch to check out, the same
  refspec, the same commit message, and the same title, body, head and base of the pull
  request.
\<close>

theorem variants_derive_same_strings:
  "api_checkout_branch v = wh_checkout_branch v
   \<and> api_push_refspec v = wh_push_refspec v
   \<and> api_commit_message v = wh_commit_message v
   \<and> Title (api_NewPullRequest v) = Title (wh_NewPullRequest v)
   \<and> Body (api_NewPullRequest v) = Body (wh_NewPullRequest v)
   \<and> Head (api_NewPullRequest v) = Head (wh_NewPullRequest v)
   \<and> Base (api_NewPullRequest v) = Base (wh_NewPullRequest v)"
  by (simp add: api_checkout_branch_def wh_checkout_branch_def api_push_refspec_def
      wh_push_refspec_def api_commit_message_def wh_commit_message_def
      api_NewPullRequest_def wh_NewPullRequest_def remoteBranchFormat_def Let_def)

end
